(* ===== verification/Prelude.thy ===== *)
theory Prelude
  imports Main "HOL-Library.AList" "HOL-Library.Multiset"
begin

text \<open>
  The prelude of the development: the JavaScript string and number primitives the
  sources call (\<open>startsWith\<close>, \<open>endsWith\<close>, \<open>toLowerCase\<close>, \<open>trim\<close>,
  \<open>Number.prototype.toString\<close>), written as executable HOL functions over \<open>string\<close>,
  the generic lemmas on lists, \<open>find\<close> and association lists that the component
  theories share, and the collections of simplification rules they add to.
\<close>

named_theorems store_simps \<open>evaluation rules of the local data store (store.ts)\<close>
named_theorems page_simps \<open>evaluation rules of the page handlers (pages/*.tsx)\<close>

section \<open>JavaScript string primitives\<close>

text \<open>
  JavaScript strings are modelled as HOL strings (lists of 8-bit characters); a
  character of the source text is one \<open>char\<close>. \<open>s.startsWith(p)\<close> and
  \<open>s.endsWith(p)\<close> compare a prefix or a suffix of the length of \<open>p\<close>.
\<close>

definition js_startsWith :: "string \<Rightarrow> string \<Rightarrow> bool" where
  "js_startsWith s p \<longleftrightarrow> take (length p) s = p"

definition js_endsWith :: "string \<Rightarrow> string \<Rightarrow> bool" where
  "js_endsWith s p \<longleftrightarrow> length p \<le> length s \<and> drop (length s - length p) s = p"

text \<open>\<open>toLowerCase\<close> and \<open>toUpperCase\<close> on the ASCII letters (the sources only apply them to ASCII text).\<close>

definition js_lower_char :: "char \<Rightarrow> char" where
  "js_lower_char c =
     (if 65 \<le> (of_char c :: nat) \<and> (of_char c :: nat) \<le> 90 then char_of (of_char c + (32::nat)) else c)"

definition js_toLowerCase :: "string \<Rightarrow> string" where
  "js_toLowerCase s = map js_lower_char s"

definition js_upper_char :: "char \<Rightarrow> char" where
  "js_upper_char c =
     (if 97 \<le> (of_char c :: nat) \<and> (of_char c :: nat) \<le> 122 then char_of (of_char c - (32::nat)) else c)"

definition js_toUpperCase :: "string \<Rightarrow> string" where
  "js_toUpperCase s = map js_upper_char s"

text \<open>\<open>trim\<close> removes leading and trailing white space (the ASCII white space characters).\<close>

definition js_is_space :: "char \<Rightarrow> bool" where
  "js_is_space c \<longleftrightarrow> c \<in> set [CHR '' '', CHR 0x09, CHR 0x0A, CHR 0x0B, CHR 0x0C, CHR 0x0D]"

definition js_trim :: "string \<Rightarrow> string" where
  "js_trim s = rev (dropWhile js_is_space (rev (dropWhile js_is_space s)))"

text \<open>\<open>n.toString()\<close> for a non-negative integer \<open>n\<close>: its decimal digits.\<close>

definition digit_char :: "nat \<Rightarrow> char" where
  "digit_char d = char_of (48 + d)"

fun nat_to_string :: "nat \<Rightarrow> string" where
  "nat_to_string n =
     (if n < 10 then [digit_char n] else nat_to_string (n div 10) @ [digit_char (n mod 10)])"

declare nat_to_string.simps [simp del]

text \<open>The decimal text of an integer, as \<open>String(n)\<close> and \<open>JSON.stringify\<close> print it.\<close>

definition int_to_string :: "int \<Rightarrow> string" where
  "int_to_string i = (if i < 0 then CHR ''-'' # nat_to_string (nat (- i)) else nat_to_string (nat i))"

text \<open>\<open>xs[i]\<close> of JavaScript: \<open>undefined\<close> (here \<open>None\<close>) out of range.\<close>

definition js_at :: "'a list \<Rightarrow> nat \<Rightarrow> 'a option" where
  "js_at xs i = (if i < length xs then Some (xs ! i) else None)"

text \<open>\<open>obj.k\<close> of an object given by its entries in order: the last entry with that
  key wins, as in an object literal or the result of \<open>JSON.parse\<close>.\<close>

definition js_prop :: "(string \<times> 'a) list \<Rightarrow> string \<Rightarrow> 'a option" where
  "js_prop xs k = map_of (rev xs) k"

section \<open>Replacing the element with a given key\<close>

text \<open>
  \<open>xs.map(x => key(x) === k ? f(x) : x)\<close>, the idiom the admin console uses to
  change one gig or one order of a collection.
\<close>

definition map_where :: "('a \<Rightarrow> bool) \<Rightarrow> ('a \<Rightarrow> 'a) \<Rightarrow> 'a list \<Rightarrow> 'a list" where
  "map_where P f xs = map (\<lambda>x. if P x then f x else x) xs"

section \<open>Association lists with a size\<close>

text \<open>The total length of the keys and values of an association list.\<close>

definition alist_size :: "(string \<times> string) list \<Rightarrow> nat" where
  "alist_size al = sum_list (map (\<lambda>(k, v). length k + length v) al)"

section \<open>Shared lemmas\<close>

subsection \<open>Strings\<close>

lemma js_startsWith_append [simp]: "js_startsWith (p @ s) p"
  by (simp add: js_startsWith_def)

lemma js_endsWith_append [simp]: "js_endsWith (s @ p) p"
  by (simp add: js_endsWith_def)

lemma js_trim_Nil [simp]: "js_trim [] = []"
  by (simp add: js_trim_def)

lemma all_dropWhile_iff: "(\<forall>c \<in> set (dropWhile P s). P c) \<longleftrightarrow> (\<forall>c \<in> set s. P c)"
  by (induction s) auto

lemma js_trim_empty_iff: "js_trim s = [] \<longleftrightarrow> (\<forall>c \<in> set s. js_is_space c)"
  by (simp add: js_trim_def all_dropWhile_iff)

lemma nat_to_string_nonempty [simp]: "nat_to_string n \<noteq> []"
  by (subst nat_to_string.simps) simp

lemma js_at_Some: "js_at xs i = Some x \<Longrightarrow> x \<in> set xs"
  by (auto simp add: js_at_def split: if_splits)

lemma js_at_0: "js_at xs 0 = (case xs of [] \<Rightarrow> None | x # _ \<Rightarrow> Some x)"
  by (simp add: js_at_def split: list.splits)

subsection \<open>Searching lists\<close>

lemma find_SomeD [dest]: "find P xs = Some x \<Longrightarrow> x \<in> set xs \<and> P x"
  by (auto simp add: find_Some_iff)

lemma find_append_None:
  "find P xs = None \<Longrightarrow> find P (xs @ ys) = find P ys"
  by (induction xs) auto

lemma find_append_Some:
  "find P xs = Some x \<Longrightarrow> find P (xs @ ys) = Some x"
  by (induction xs) auto

subsection \<open>Replacing the element with a given key\<close>

lemma length_map_where [simp]: "length (map_where P f xs) = length xs"
  by (simp add: map_where_def)

lemma map_where_append [simp]: "map_where P f (xs @ ys) = map_where P f xs @ map_where P f ys"
  by (simp add: map_where_def)

lemma map_where_nth:
  "i < length xs \<Longrightarrow> map_where P f xs ! i = (if P (xs ! i) then f (xs ! i) else xs ! i)"
  by (simp add: map_where_def)

lemma map_where_none: "\<forall>x \<in> set xs. \<not> P x \<Longrightarrow> map_where P f xs = xs"
  by (induction xs) (simp_all add: map_where_def)

lemma map_where_map:
  "(\<And>x. g (f x) = g x) \<Longrightarrow> map g (map_where P f xs) = map g xs"
  by (induction xs) (simp_all add: map_where_def)

subsection \<open>Association lists with a size\<close>

lemma alist_size_Nil [simp]: "alist_size [] = 0"
  by (simp add: alist_size_def)

lemma alist_size_Cons [simp]: "alist_size ((k, v) # al) = length k + length v + alist_size al"
  by (simp add: alist_size_def)

lemma alist_size_delete_le: "alist_size (AList.delete k al) \<le> alist_size al"
  by (induction al) (auto simp add: alist_size_def)

lemma alist_size_update_le:
  "alist_size (AList.update k v al) \<le> alist_size al + length k + length v"
  by (induction al) (auto simp add: alist_size_def)

end
