(* ===== verification/Storage.thy ===== *)
theory Storage
  imports Prelude
begin

text \<open>
  The browser environment the store runs in: the Web Storage object \<open>localStorage\<close>
  (\<open>getItem\<close>, \<open>setItem\<close>, \<open>removeItem\<close>) with its storage quota, the console and
  \<open>alert\<close>. None of this is code of the repository; it is the platform that
  \<open>src/store.ts\<close> calls, modelled after the Web Storage standard: the entries are an
  association list of strings in insertion order, and a write whose keys and values
  would exceed the quota (counted in characters) fails with \<open>QuotaExceededError\<close> and
  leaves the storage as it was. The theory also fixes the interface of the
  serialiser: \<open>JSON.stringify\<close> and \<open>JSON.parse\<close> at one type, as a pair of functions.
\<close>

section \<open>The browser state\<close>

datatype log_level = Log | Warn | Error

text \<open>A request to the form relay: its URL and the fields of its JSON body.\<close>

record post =
  post_url :: string
  post_body :: "(string \<times> string) list"

text \<open>
  What one \<open>fetch\<close> resolves to: a response whose \<open>ok\<close> flag is set or not, or a
  rejected promise (network failure). The pages only ever inspect \<open>ok\<close>.
\<close>

datatype fetch_result = FetchOk | FetchNotOk | FetchThrows

record browser =
  items :: "(string \<times> string) list"
  quota :: nat
  console :: "(log_level \<times> string) list"
  alerts :: "string list"
  outbox :: "post list"

datatype storage_error = QuotaExceededError | OtherStorageError string

definition used :: "browser \<Rightarrow> nat" where
  "used b = alist_size (items b)"

definition getItem :: "string \<Rightarrow> browser \<Rightarrow> string option" where
  "getItem k b = map_of (items b) k"

text \<open>A write fits when the entries it leaves stay within the quota.\<close>

definition fits :: "string \<Rightarrow> string \<Rightarrow> browser \<Rightarrow> bool" where
  "fits k v b \<longleftrightarrow> alist_size (AList.update k v (items b)) \<le> quota b"

definition setItem :: "string \<Rightarrow> string \<Rightarrow> browser \<Rightarrow> storage_error + browser" where
  "setItem k v b =
     (if fits k v b then Inr (b\<lparr>items := AList.update k v (items b)\<rparr>) else Inl QuotaExceededError)"

definition removeItem :: "string \<Rightarrow> browser \<Rightarrow> browser" where
  "removeItem k b = b\<lparr>items := AList.delete k (items b)\<rparr>"

definition console_log :: "string \<Rightarrow> browser \<Rightarrow> browser" where
  "console_log m b = b\<lparr>console := console b @ [(Log, m)]\<rparr>"

definition console_warn :: "string \<Rightarrow> browser \<Rightarrow> browser" where
  "console_warn m b = b\<lparr>console := console b @ [(Warn, m)]\<rparr>"

definition console_error :: "string \<Rightarrow> browser \<Rightarrow> browser" where
  "console_error m b = b\<lparr>console := console b @ [(Error, m)]\<rparr>"

definition alert :: "string \<Rightarrow> browser \<Rightarrow> browser" where
  "alert m b = b\<lparr>alerts := alerts b @ [m]\<rparr>"

text \<open>Issuing a request: it is recorded in the outbox whatever its outcome.\<close>

definition send_post :: "string \<Rightarrow> (string \<times> string) list \<Rightarrow> browser \<Rightarrow> browser" where
  "send_post url body b = b\<lparr>outbox := outbox b @ [\<lparr>post_url = url, post_body = body\<rparr>]\<rparr>"

definition formspree_url :: string where
  "formspree_url = ''https://formspree.io/f/xnjndvwd''"

section \<open>The serialiser interface\<close>

text \<open>
  \<open>JSON.stringify\<close> and \<open>JSON.parse\<close> at the type of one collection. \<open>parse\<close>
  returns \<open>None\<close> where \<open>JSON.parse\<close> throws. A codec is sound when parsing a
  printed value gives the value back, and no printed value is the empty string or
  the string \<open>undefined\<close> (\<open>JSON.stringify\<close> prints an array or an object as
  text that starts with a bracket).
\<close>

record 'a codec =
  stringify :: "'a \<Rightarrow> string"
  parse :: "string \<Rightarrow> 'a option"

definition codec_ok :: "'a codec \<Rightarrow> bool" where
  "codec_ok c \<longleftrightarrow>
     (\<forall>v. parse c (stringify c v) = Some v \<and> stringify c v \<noteq> [] \<and> stringify c v \<noteq> ''undefined'')"

section \<open>Lemmas on the storage operations\<close>

lemma getItem_removeItem [simp]:
  "getItem k (removeItem k' b) = (if k = k' then None else getItem k b)"
  by (simp add: getItem_def removeItem_def delete_conv')

lemma setItem_Inr_iff:
  "setItem k v b = Inr b' \<longleftrightarrow> fits k v b \<and> b' = b\<lparr>items := AList.update k v (items b)\<rparr>"
  by (auto simp add: setItem_def)

lemma setItem_Inl_iff:
  "setItem k v b = Inl e \<longleftrightarrow> \<not> fits k v b \<and> e = QuotaExceededError"
  by (auto simp add: setItem_def)

lemma setItem_cases:
  obtains (ok) "fits k v b" "setItem k v b = Inr (b\<lparr>items := AList.update k v (items b)\<rparr>)"
  | (full) "\<not> fits k v b" "setItem k v b = Inl QuotaExceededError"
  by (cases "fits k v b") (simp_all add: setItem_def)

lemma getItem_update [simp]:
  "getItem k (b\<lparr>items := AList.update k' v (items b)\<rparr>) = (if k = k' then Some v else getItem k b)"
  by (simp add: getItem_def update_conv')

lemma getItem_log [simp]:
  "getItem k (console_warn m b) = getItem k b"
  "getItem k (console_error m b) = getItem k b"
  "getItem k (alert m b) = getItem k b"
  "getItem k (send_post u d b) = getItem k b"
  by (simp_all add: getItem_def console_warn_def console_error_def alert_def send_post_def)

lemma removeItem_log [simp]:
  "removeItem k (console_warn m b) = console_warn m (removeItem k b)"
  "removeItem k (console_error m b) = console_error m (removeItem k b)"
  "removeItem k (alert m b) = alert m (removeItem k b)"
  "removeItem k (send_post u d b) = send_post u d (removeItem k b)"
  by (simp_all add: removeItem_def console_warn_def console_error_def alert_def send_post_def)

lemma quota_ops [simp]:
  "quota (removeItem k b) = quota b"
  "quota (console_warn m b) = quota b"
  "quota (console_error m b) = quota b"
  "quota (alert m b) = quota b"
  "quota (send_post u d b) = quota b"
  by (simp_all add: removeItem_def console_warn_def console_error_def alert_def send_post_def)

lemma alerts_ops [simp]:
  "alerts (removeItem k b) = alerts b"
  "alerts (console_warn m b) = alerts b"
  "alerts (console_error m b) = alerts b"
  "alerts (alert m b) = alerts b @ [m]"
  "alerts (send_post u d b) = alerts b"
  by (simp_all add: removeItem_def console_warn_def console_error_def alert_def send_post_def)

lemma console_ops [simp]:
  "console (removeItem k b) = console b"
  "console (console_warn m b) = console b @ [(Warn, m)]"
  "console (console_error m b) = console b @ [(Error, m)]"
  "console (alert m b) = console b"
  "console (send_post u d b) = console b"
  by (simp_all add: removeItem_def console_warn_def console_error_def alert_def send_post_def)

lemma fits_room: "used b + length k + length v \<le> quota b \<Longrightarrow> fits k v b"
  using alist_size_update_le [of k v "items b"]
  by (simp add: fits_def used_def)

lemma outbox_ops [simp]:
  "outbox (removeItem k b) = outbox b"
  "outbox (console_warn m b) = outbox b"
  "outbox (console_error m b) = outbox b"
  "outbox (alert m b) = outbox b"
  "outbox (send_post u d b) = outbox b @ [\<lparr>post_url = u, post_body = d\<rparr>]"
  by (simp_all add: removeItem_def console_warn_def console_error_def alert_def send_post_def)

lemma fits_logs [simp]:
  "fits k v (console_warn m b) = fits k v b" "fits k v (console_error m b) = fits k v b"
  "fits k v (alert m b) = fits k v b" "fits k v (send_post u d b) = fits k v b"
  by (simp_all add: fits_def console_warn_def console_error_def alert_def send_post_def)

end
