(* ===== verification/Model.thy ===== *)
theory Model
  imports Prelude
begin

text \<open>
  The data model of the storefront: the entities of \<open>types.ts\<close> (users, services or
  gigs, orders, site settings). That module is imported by every source file but is
  not part of \<open>src/\<close>; its records are modelled from the spec's data model (section 3)
  and from the fields the sources read and write. A TypeScript interface is a
  \<^theory_text>\<open>record\<close>, a string-literal union a \<^theory_text>\<open>datatype\<close>. JavaScript numbers
  are modelled as \<open>int\<close> for prices and amounts and as \<open>nat\<close> for counters, day
  counts and revision counts (the values the forms produce); the order's
  \<open>createdAt\<close> stamp is kept as its ISO string.
\<close>

datatype role = Admin | Visitor

record user =
  user_id :: string
  user_name :: string
  user_email :: string
  user_password :: string
  user_role :: role

datatype service_status = Published | Draft

record service =
  svc_id :: string
  title :: string
  description :: string
  price :: int
  category :: string
  deliveryDays :: nat
  revisions :: nat
  images :: "string list"
  videos :: "string list"
  pdfs :: "string list"
  features :: "string list"
  svc_status :: service_status
  impressions :: nat
  clicks :: nat

datatype order_status = Pending | Active | Completed | Cancelled

record order =
  order_id :: string
  serviceId :: string
  clientName :: string
  clientEmail :: string
  order_status :: order_status
  totalAmount :: int
  createdAt :: string
  details :: string

record seo_settings =
  metaTitle :: string
  metaDescription :: string

record site_settings =
  site_name :: string
  logo :: string
  socialLinks :: "(string \<times> string) list"
  seo :: seo_settings

text \<open>The lower-case names the sources use for the enumerations, as in \<open>types.ts\<close>.\<close>

fun role_name :: "role \<Rightarrow> string" where
  "role_name Admin = ''admin''"
| "role_name Visitor = ''visitor''"

fun service_status_name :: "service_status \<Rightarrow> string" where
  "service_status_name Published = ''published''"
| "service_status_name Draft = ''draft''"

fun order_status_name :: "order_status \<Rightarrow> string" where
  "order_status_name Pending = ''pending''"
| "order_status_name Active = ''active''"
| "order_status_name Completed = ''completed''"
| "order_status_name Cancelled = ''cancelled''"

lemma role_name_inj: "role_name r = role_name r' \<longleftrightarrow> r = r'"
  by (cases r; cases r') simp_all

lemma service_status_name_inj:
  "service_status_name a = service_status_name b \<longleftrightarrow> a = b"
  by (cases a; cases b) simp_all

lemma order_status_name_inj: "order_status_name a = order_status_name b \<longleftrightarrow> a = b"
  by (cases a; cases b) simp_all

end
