(* ===== verification/Store.thy ===== *)
theory Store
  imports Storage Model
begin

text \<open>
  The local data store, \<open>useStore\<close> of \<open>src/store.ts\<close>: the persistence helpers
  \<open>loadFromDB\<close> and \<open>saveToDB\<close>, the five tables of React state (users, services,
  orders, settings and the current session), the effects that write each table back
  to \<open>localStorage\<close> when it changes, and the API actions \<open>setServices\<close>,
  \<open>setOrders\<close>, \<open>setSettings\<close>, \<open>login\<close>, \<open>signup\<close>, \<open>logout\<close> with the derived
  \<open>isAuthenticated\<close> and \<open>isAdmin\<close>.

  The store is a record of the five tables and the browser state (\<open>world\<close>). The
  serialisers of the five tables are a parameter (\<open>codecs\<close>); the lemmas that need
  them to be sound assume \<open>codecs_ok\<close> (printing then parsing is the identity). React's
  semantics is made explicit: the \<open>useState\<close> initialisers run once, in the order
  of the source, then the mount effects run in declaration order; a setter replaces
  its table and the effect whose dependency is that table runs after it. The actions
  of one event handler are batched: \<open>signup\<close> changes two tables, and both effects
  run after it, the users effect first.
\<close>

section \<open>Keys and state\<close>

datatype db_key = SERVICES | ORDERS | SETTINGS | USERS | SESSION

fun db_key_name :: "db_key \<Rightarrow> string" where
  "db_key_name SERVICES = ''pc_db_services''"
| "db_key_name ORDERS = ''pc_db_orders''"
| "db_key_name SETTINGS = ''pc_db_settings''"
| "db_key_name USERS = ''pc_db_users''"
| "db_key_name SESSION = ''pc_db_current_session''"

record codecs =
  users_codec :: "user list codec"
  services_codec :: "service list codec"
  orders_codec :: "order list codec"
  settings_codec :: "site_settings codec"
  session_codec :: "user option codec"

definition codecs_ok :: "codecs \<Rightarrow> bool" where
  "codecs_ok C \<longleftrightarrow> codec_ok (users_codec C) \<and> codec_ok (services_codec C) \<and>
     codec_ok (orders_codec C) \<and> codec_ok (settings_codec C) \<and> codec_ok (session_codec C)"

record store =
  users :: "user list"
  services :: "service list"
  orders :: "order list"
  settings :: site_settings
  currentUser :: "user option"
  world :: browser

section \<open>Persistence helpers\<close>

text \<open>
  \<open>loadFromDB\<close>: a missing entry, an empty one (\<open>saved\<close> is falsy) or the string
  \<open>undefined\<close> give the default and leave the storage alone; an entry that does not
  parse is reported on the console, removed, and replaced by the default.
\<close>

definition loadFromDB :: "'a codec \<Rightarrow> string \<Rightarrow> 'a \<Rightarrow> browser \<Rightarrow> 'a \<times> browser" where
  "loadFromDB c key dflt b =
     (case getItem key b of
        Some saved \<Rightarrow>
          (if saved \<noteq> [] \<and> saved \<noteq> ''undefined'' then
             (case parse c saved of
                Some v \<Rightarrow> (v, b)
              | None \<Rightarrow>
                  (dflt, removeItem key
                           (console_warn (''[Store] Failed to parse '' @ key @ '', resetting to default.'') b)))
           else (dflt, b))
      | None \<Rightarrow> (dflt, b))"

text \<open>
  \<open>saveToDB\<close>: a write that exceeds the quota removes the session entry, logs the
  error and raises one alert; any other failure is only logged.
\<close>

definition quota_alert :: string where
  "quota_alert = ''Warning: Your browser storage is full. Some recent changes might not be saved.''"

definition saveToDB :: "'a codec \<Rightarrow> string \<Rightarrow> 'a \<Rightarrow> browser \<Rightarrow> browser" where
  "saveToDB c key data b =
     (case setItem key (stringify c data) b of
        Inr b' \<Rightarrow> b'
      | Inl QuotaExceededError \<Rightarrow>
          alert quota_alert
            (removeItem (db_key_name SESSION)
              (console_error ''[Store] Quota Exceeded! Large media files blocked.'' b))
      | Inl (OtherStorageError e) \<Rightarrow> console_error (''[Store] Save Error for '' @ key) b)"

section \<open>The tables and their effects\<close>

definition admin_seed :: user where
  "admin_seed = \<lparr>user_id = ''admin-1'', user_name = ''Admin'', user_email = ''admin@prithvi.com'',
                 user_password = ''admin123'', user_role = Admin\<rparr>"

text \<open>The \<open>useState\<close> initialisers, in the order of the source.\<close>

definition load_tables ::
  "codecs \<Rightarrow> service list \<Rightarrow> order list \<Rightarrow> site_settings \<Rightarrow> browser \<Rightarrow> store" where
  "load_tables C initServices initOrders initSettings b0 =
     (let (us, b1) = loadFromDB (users_codec C) (db_key_name USERS) [admin_seed] b0;
          (ss, b2) = loadFromDB (services_codec C) (db_key_name SERVICES) initServices b1;
          (os, b3) = loadFromDB (orders_codec C) (db_key_name ORDERS) initOrders b2;
          (st, b4) = loadFromDB (settings_codec C) (db_key_name SETTINGS) initSettings b3;
          (cu, b5) = loadFromDB (session_codec C) (db_key_name SESSION) None b4
      in \<lparr>users = us, services = ss, orders = os, settings = st, currentUser = cu, world = b5\<rparr>)"

text \<open>The effect that writes one table back (\<open>useEffect\<close> with that table as dependency).\<close>

fun sync_effect :: "codecs \<Rightarrow> db_key \<Rightarrow> store \<Rightarrow> store" where
  "sync_effect C USERS s =
     s\<lparr>world := saveToDB (users_codec C) (db_key_name USERS) (users s) (world s)\<rparr>"
| "sync_effect C SERVICES s =
     s\<lparr>world := saveToDB (services_codec C) (db_key_name SERVICES) (services s) (world s)\<rparr>"
| "sync_effect C ORDERS s =
     s\<lparr>world := saveToDB (orders_codec C) (db_key_name ORDERS) (orders s) (world s)\<rparr>"
| "sync_effect C SETTINGS s =
     s\<lparr>world := saveToDB (settings_codec C) (db_key_name SETTINGS) (settings s) (world s)\<rparr>"
| "sync_effect C SESSION s =
     (case currentUser s of
        Some u \<Rightarrow> s\<lparr>world := saveToDB (session_codec C) (db_key_name SESSION) (Some u) (world s)\<rparr>
      | None \<Rightarrow> s\<lparr>world := removeItem (db_key_name SESSION) (world s)\<rparr>)"

definition mount_order :: "db_key list" where
  "mount_order = [USERS, SERVICES, ORDERS, SETTINGS, SESSION]"

definition run_effects :: "codecs \<Rightarrow> db_key list \<Rightarrow> store \<Rightarrow> store" where
  "run_effects C ks s = fold (sync_effect C) ks s"

text \<open>The store as the first render and the mount effects leave it.\<close>

definition useStore_init ::
  "codecs \<Rightarrow> service list \<Rightarrow> order list \<Rightarrow> site_settings \<Rightarrow> browser \<Rightarrow> store" where
  "useStore_init C initServices initOrders initSettings b0 =
     run_effects C mount_order (load_tables C initServices initOrders initSettings b0)"

section \<open>API actions\<close>

definition setServices :: "codecs \<Rightarrow> service list \<Rightarrow> store \<Rightarrow> store" where
  "setServices C newServices s = sync_effect C SERVICES (s\<lparr>services := newServices\<rparr>)"

definition setOrders :: "codecs \<Rightarrow> order list \<Rightarrow> store \<Rightarrow> store" where
  "setOrders C newOrders s = sync_effect C ORDERS (s\<lparr>orders := newOrders\<rparr>)"

definition setSettings :: "codecs \<Rightarrow> site_settings \<Rightarrow> store \<Rightarrow> store" where
  "setSettings C newSettings s = sync_effect C SETTINGS (s\<lparr>settings := newSettings\<rparr>)"

definition login :: "codecs \<Rightarrow> string \<Rightarrow> string \<Rightarrow> store \<Rightarrow> bool \<times> store" where
  "login C email pass s =
     (case find (\<lambda>u. user_email u = email \<and> user_password u = pass) (users s) of
        Some u \<Rightarrow> (True, sync_effect C SESSION (s\<lparr>currentUser := Some u\<rparr>))
      | None \<Rightarrow> (False, s))"

text \<open>\<open>Date.now()\<close>, the id of a new user, is the parameter \<open>now\<close>.\<close>

definition new_user :: "string \<Rightarrow> string \<Rightarrow> string \<Rightarrow> nat \<Rightarrow> user" where
  "new_user name email pass now =
     \<lparr>user_id = nat_to_string now, user_name = name, user_email = email,
      user_password = pass, user_role = Visitor\<rparr>"

definition signup :: "codecs \<Rightarrow> string \<Rightarrow> string \<Rightarrow> string \<Rightarrow> nat \<Rightarrow> store \<Rightarrow> bool \<times> store" where
  "signup C name email pass now s =
     (if find (\<lambda>u. user_email u = email) (users s) \<noteq> None then (False, s)
      else
        (let u = new_user name email pass now
         in (True, run_effects C [USERS, SESSION]
                     (s\<lparr>users := users s @ [u], currentUser := Some u\<rparr>))))"

definition logout :: "codecs \<Rightarrow> store \<Rightarrow> store" where
  "logout C s = sync_effect C SESSION (s\<lparr>currentUser := None\<rparr>)"

definition isAuthenticated :: "store \<Rightarrow> bool" where
  "isAuthenticated s \<longleftrightarrow> currentUser s \<noteq> None"

definition isAdmin :: "store \<Rightarrow> bool" where
  "isAdmin s \<longleftrightarrow> (case currentUser s of Some u \<Rightarrow> user_role u = Admin | None \<Rightarrow> False)"

section \<open>Operations, runs and reachable states\<close>

text \<open>
  The mutation entry points of the store as one datatype, so that a sequence of
  calls from the pages is a list of operations. \<open>exec_op\<close> returns the boolean the
  action returns (\<open>True\<close> for the setters, which return nothing).
\<close>

datatype store_op =
    SetServices "service list"
  | SetOrders "order list"
  | SetSettings site_settings
  | Login string string
  | Signup string string string nat
  | Logout

fun exec_op :: "codecs \<Rightarrow> store_op \<Rightarrow> store \<Rightarrow> bool \<times> store" where
  "exec_op C (SetServices xs) s = (True, setServices C xs s)"
| "exec_op C (SetOrders xs) s = (True, setOrders C xs s)"
| "exec_op C (SetSettings x) s = (True, setSettings C x s)"
| "exec_op C (Login e p) s = login C e p s"
| "exec_op C (Signup n e p t) s = signup C n e p t s"
| "exec_op C Logout s = (True, logout C s)"

inductive store_step :: "codecs \<Rightarrow> store \<Rightarrow> store \<Rightarrow> bool" for C where
  op: "exec_op C a s = (r, s') \<Longrightarrow> store_step C s s'"

inductive reachable :: "codecs \<Rightarrow> store \<Rightarrow> store \<Rightarrow> bool" for C s0 where
  init: "reachable C s0 s0"
| step: "reachable C s0 s \<Longrightarrow> store_step C s s' \<Longrightarrow> reachable C s0 s'"

section \<open>Reading a stored entry, and reloading\<close>

text \<open>The value \<open>loadFromDB\<close> returns, as a function of the entry it reads.\<close>

definition load_value :: "'a codec \<Rightarrow> 'a \<Rightarrow> string option \<Rightarrow> 'a" where
  "load_value c dflt e =
     (case e of
        Some saved \<Rightarrow>
          (if saved \<noteq> [] \<and> saved \<noteq> ''undefined'' then
             (case parse c saved of Some v \<Rightarrow> v | None \<Rightarrow> dflt)
           else dflt)
      | None \<Rightarrow> dflt)"

text \<open>
  The storage is in sync with the tables when every table's entry holds its printed
  value and the session entry is present exactly when a user is logged in.
\<close>

definition synced :: "codecs \<Rightarrow> store \<Rightarrow> bool" where
  "synced C s \<longleftrightarrow>
     getItem (db_key_name USERS) (world s) = Some (stringify (users_codec C) (users s)) \<and>
     getItem (db_key_name SERVICES) (world s) = Some (stringify (services_codec C) (services s)) \<and>
     getItem (db_key_name ORDERS) (world s) = Some (stringify (orders_codec C) (orders s)) \<and>
     getItem (db_key_name SETTINGS) (world s) = Some (stringify (settings_codec C) (settings s)) \<and>
     getItem (db_key_name SESSION) (world s) =
       map_option (\<lambda>u. stringify (session_codec C) (Some u)) (currentUser s)"

text \<open>A value survives printing and parsing with its codec.\<close>

definition roundtrips :: "'a codec \<Rightarrow> 'a \<Rightarrow> bool" where
  "roundtrips c v \<longleftrightarrow>
     parse c (stringify c v) = Some v \<and> stringify c v \<noteq> [] \<and> stringify c v \<noteq> ''undefined''"

definition tables_roundtrip :: "codecs \<Rightarrow> store \<Rightarrow> bool" where
  "tables_roundtrip C s \<longleftrightarrow>
     roundtrips (users_codec C) (users s) \<and> roundtrips (services_codec C) (services s) \<and>
     roundtrips (orders_codec C) (orders s) \<and> roundtrips (settings_codec C) (settings s) \<and>
     (\<forall>u. currentUser s = Some u \<longrightarrow> roundtrips (session_codec C) (Some u))"

text \<open>A page reload: a fresh store built from what the browser kept.\<close>

definition reload ::
  "codecs \<Rightarrow> service list \<Rightarrow> order list \<Rightarrow> site_settings \<Rightarrow> store \<Rightarrow> store" where
  "reload C initServices initOrders initSettings s =
     useStore_init C initServices initOrders initSettings (world s)"

section \<open>Invariants and the abstract session machine\<close>

text \<open>
  What the store keeps true across operations: e-mail addresses are unique among the
  users, the administrators are the ones it started with, and a logged-in user is one
  of the users (or the session that was restored at start-up).
\<close>

definition emails_distinct :: "store \<Rightarrow> bool" where
  "emails_distinct s \<longleftrightarrow> distinct (map user_email (users s))"

definition admins :: "store \<Rightarrow> user list" where
  "admins s = filter (\<lambda>u. user_role u = Admin) (users s)"

definition session_known :: "store \<Rightarrow> store \<Rightarrow> bool" where
  "session_known s0 s \<longleftrightarrow>
     (\<forall>u. currentUser s = Some u \<longrightarrow> u \<in> set (users s) \<or> currentUser s0 = Some u)"

text \<open>
  The spec's session machine (section 4.1): two states, login and signup lead to the
  authenticated state when they succeed, logout to the anonymous state, everything
  else stays.
\<close>

datatype auth_state = Anonymous | Authenticated

datatype auth_event = Authenticate | Deauthenticate | Stay

fun auth_step :: "auth_state \<Rightarrow> auth_event \<Rightarrow> auth_state" where
  "auth_step a Authenticate = Authenticated"
| "auth_step a Deauthenticate = Anonymous"
| "auth_step a Stay = a"

fun op_event :: "store_op \<Rightarrow> bool \<Rightarrow> auth_event" where
  "op_event (Login e p) r = (if r then Authenticate else Stay)"
| "op_event (Signup n e p t) r = (if r then Authenticate else Stay)"
| "op_event Logout r = Deauthenticate"
| "op_event a r = Stay"

definition auth_of :: "store \<Rightarrow> auth_state" where
  "auth_of s = (if isAuthenticated s then Authenticated else Anonymous)"

section \<open>Lemmas\<close>

subsection \<open>The keys\<close>

lemma db_key_name_inj [simp]: "db_key_name k = db_key_name k' \<longleftrightarrow> k = k'"
  by (cases k; cases k') simp_all

subsection \<open>Loading\<close>

lemma loadFromDB_fst [store_simps]: "fst (loadFromDB c key d b) = load_value c d (getItem key b)"
  by (simp add: loadFromDB_def load_value_def split: option.splits)

lemma loadFromDB_other [store_simps]:
  "k \<noteq> key \<Longrightarrow> getItem k (snd (loadFromDB c key d b)) = getItem k b"
  by (simp add: loadFromDB_def split: option.splits)

lemma loadFromDB_alerts [store_simps]: "alerts (snd (loadFromDB c key d b)) = alerts b"
  by (simp add: loadFromDB_def split: option.splits)

lemma load_value_roundtrips: "roundtrips c v \<Longrightarrow> load_value c d (Some (stringify c v)) = v"
  by (simp add: load_value_def roundtrips_def)

lemma codec_ok_roundtrips: "codec_ok c \<Longrightarrow> roundtrips c v"
  by (simp add: codec_ok_def roundtrips_def)

subsection \<open>Saving\<close>

lemma getItem_saveToDB [store_simps]:
  "getItem k (saveToDB c key v b) =
     (if fits key (stringify c v) b then (if k = key then Some (stringify c v) else getItem k b)
      else (if k = db_key_name SESSION then None else getItem k b))"
  by (cases rule: setItem_cases [of key "stringify c v" b]) (simp_all add: saveToDB_def)

lemma alerts_saveToDB [store_simps]:
  "alerts (saveToDB c key v b) = alerts b @ (if fits key (stringify c v) b then [] else [quota_alert])"
  by (cases rule: setItem_cases [of key "stringify c v" b]) (simp_all add: saveToDB_def)

lemma quota_saveToDB [store_simps]: "quota (saveToDB c key v b) = quota b"
  by (cases rule: setItem_cases [of key "stringify c v" b]) (simp_all add: saveToDB_def)

lemma outbox_saveToDB [store_simps]: "outbox (saveToDB c key v b) = outbox b"
  by (cases rule: setItem_cases [of key "stringify c v" b]) (simp_all add: saveToDB_def)

lemma outbox_sync_effect [store_simps]: "outbox (world (sync_effect C k s)) = outbox (world s)"
  by (cases k) (simp_all add: outbox_saveToDB split: option.splits)

subsection \<open>Results of the actions\<close>

lemma login_fst_iff:
  "fst (login C e p s) \<longleftrightarrow> (\<exists>u \<in> set (users s). user_email u = e \<and> user_password u = p)"
  by (auto simp add: login_def find_None_iff split: option.splits)

lemma login_False: "\<not> fst (login C e p s) \<Longrightarrow> snd (login C e p s) = s"
  by (auto simp add: login_def split: option.splits)

lemma signup_fst_iff: "fst (signup C n e p t s) \<longleftrightarrow> (\<forall>u \<in> set (users s). user_email u \<noteq> e)"
  by (auto simp add: signup_def find_None_iff Let_def)

subsection \<open>Effects leave the tables alone\<close>

lemma sync_effect_tables [simp]:
  "users (sync_effect C k s) = users s"
  "services (sync_effect C k s) = services s"
  "orders (sync_effect C k s) = orders s"
  "settings (sync_effect C k s) = settings s"
  "currentUser (sync_effect C k s) = currentUser s"
  by (cases k; simp split: option.splits)+

lemma run_effects_tables [simp]:
  "users (run_effects C ks s) = users s"
  "services (run_effects C ks s) = services s"
  "orders (run_effects C ks s) = orders s"
  "settings (run_effects C ks s) = settings s"
  "currentUser (run_effects C ks s) = currentUser s"
  by (induction ks arbitrary: s) (simp_all add: run_effects_def)

lemma run_effects_snoc: "run_effects C (ks @ [k]) s = sync_effect C k (run_effects C ks s)"
  by (simp add: run_effects_def)

lemma run_effects_Cons: "run_effects C (k # ks) s = run_effects C ks (sync_effect C k s)"
  by (simp add: run_effects_def)

subsection \<open>Auxiliary lemmas\<close>

lemma load_tables_fields:
  "users (load_tables C iS iO iSt b) = load_value (users_codec C) [admin_seed] (getItem (db_key_name USERS) b)"
  "services (load_tables C iS iO iSt b) = load_value (services_codec C) iS (getItem (db_key_name SERVICES) b)"
  "orders (load_tables C iS iO iSt b) = load_value (orders_codec C) iO (getItem (db_key_name ORDERS) b)"
  "settings (load_tables C iS iO iSt b) = load_value (settings_codec C) iSt (getItem (db_key_name SETTINGS) b)"
  "currentUser (load_tables C iS iO iSt b) = load_value (session_codec C) None (getItem (db_key_name SESSION) b)"
  by (simp_all add: load_tables_def split_def loadFromDB_fst loadFromDB_other)

lemma load_value_session:
  "(\<forall>u. cu = Some u \<longrightarrow> roundtrips c (Some u)) \<Longrightarrow>
   load_value c None (map_option (\<lambda>u. stringify c (Some u)) cu) = cu"
  by (cases cu) (simp_all add: load_value_def roundtrips_def)

lemma useStore_init_fields [store_simps]:
  "users (useStore_init C iS iO iSt b) = load_value (users_codec C) [admin_seed] (getItem (db_key_name USERS) b)"
  "services (useStore_init C iS iO iSt b) = load_value (services_codec C) iS (getItem (db_key_name SERVICES) b)"
  "orders (useStore_init C iS iO iSt b) = load_value (orders_codec C) iO (getItem (db_key_name ORDERS) b)"
  "settings (useStore_init C iS iO iSt b) = load_value (settings_codec C) iSt (getItem (db_key_name SETTINGS) b)"
  "currentUser (useStore_init C iS iO iSt b) = load_value (session_codec C) None (getItem (db_key_name SESSION) b)"
  by (simp_all add: useStore_init_def load_tables_fields)

lemma reload_synced_fields:
  assumes "synced C s" and "tables_roundtrip C s"
  shows "users (reload C iS iO iSt s) = users s" "services (reload C iS iO iSt s) = services s"
    "orders (reload C iS iO iSt s) = orders s" "settings (reload C iS iO iSt s) = settings s"
    "currentUser (reload C iS iO iSt s) = currentUser s"
  using assms load_value_session [of "currentUser s" "session_codec C"]
  by (simp_all add: reload_def useStore_init_fields synced_def tables_roundtrip_def load_value_roundtrips)

lemma synced_setOrders:
  "synced C s \<Longrightarrow> fits (db_key_name ORDERS) (stringify (orders_codec C) os) (world s) \<Longrightarrow>
   synced C (setOrders C os s)"
  by (simp add: synced_def setOrders_def getItem_saveToDB del: db_key_name.simps)

lemma session_absent_after_effects:
  "currentUser s = None \<Longrightarrow> getItem (db_key_name SESSION) (world (run_effects C (ks @ [SESSION]) s)) = None"
  by (simp add: run_effects_snoc del: db_key_name.simps)

lemma new_user_role [simp]: "user_role (new_user n e p t) = Visitor"
  by (simp add: new_user_def)

lemma new_user_email [simp]: "user_email (new_user n e p t) = e"
  by (simp add: new_user_def)

lemma exec_op_users:
  "users (snd (exec_op C a s)) = users s \<or>
   (\<exists>n e p t. (\<forall>u \<in> set (users s). user_email u \<noteq> e) \<and>
      users (snd (exec_op C a s)) = users s @ [new_user n e p t])"
  by (cases a) (auto simp add: setServices_def setOrders_def setSettings_def logout_def
      login_def signup_def find_None_iff Let_def split: option.splits)

lemma exec_op_session:
  "currentUser (snd (exec_op C a s)) = currentUser s \<or> currentUser (snd (exec_op C a s)) = None \<or>
   (\<exists>u. currentUser (snd (exec_op C a s)) = Some u \<and> u \<in> set (users (snd (exec_op C a s))))"
  by (cases a) (auto simp add: setServices_def setOrders_def setSettings_def logout_def
      login_def signup_def Let_def split: option.splits)

lemma store_step_users:
  "store_step C s s' \<Longrightarrow> users s' = users s \<or>
   (\<exists>n e p t. (\<forall>u \<in> set (users s). user_email u \<noteq> e) \<and> users s' = users s @ [new_user n e p t])"
  by (induction rule: store_step.induct) (metis exec_op_users snd_conv)

lemma store_step_session:
  "store_step C s s' \<Longrightarrow> currentUser s' = currentUser s \<or> currentUser s' = None \<or>
   (\<exists>u. currentUser s' = Some u \<and> u \<in> set (users s'))"
  by (induction rule: store_step.induct) (metis exec_op_session snd_conv)

lemma store_step_emails_distinct:
  "store_step C s s' \<Longrightarrow> emails_distinct s \<Longrightarrow> emails_distinct s'"
  using store_step_users [of C s s'] by (auto simp add: emails_distinct_def)

lemma store_step_admins: "store_step C s s' \<Longrightarrow> admins s' = admins s"
  using store_step_users [of C s s'] by (auto simp add: admins_def)

lemma store_step_users_grow: "store_step C s s' \<Longrightarrow> set (users s) \<subseteq> set (users s')"
  using store_step_users [of C s s'] by auto

lemma store_step_session_known:
  "store_step C s s' \<Longrightarrow> session_known s0 s \<Longrightarrow> session_known s0 s'"
  using store_step_session [of C s s'] store_step_users_grow [of C s s']
  by (auto simp add: session_known_def)

lemma reachable_admins: "reachable C s0 s \<Longrightarrow> admins s = admins s0"
  by (induction rule: reachable.induct) (auto dest: store_step_admins)

lemma reachable_session_known: "reachable C s0 s \<Longrightarrow> session_known s0 s"
proof (induction rule: reachable.induct)
  case init
  show ?case by (simp add: session_known_def)
next
  case (step s s')
  from step.hyps(2) step.IH show ?case by (rule store_step_session_known)
qed

lemma reachable_users_grow: "reachable C s0 s \<Longrightarrow> set (users s0) \<subseteq> set (users s)"
  by (induction rule: reachable.induct) (auto dest: store_step_users_grow)

lemma find_unique_email:
  assumes "distinct (map user_email us)" and "u \<in> set us"
  shows "find (\<lambda>x. user_email x = user_email u \<and> user_password x = user_password u) us = Some u"
proof -
  have "\<forall>x \<in> set us. user_email x = user_email u \<longrightarrow> x = u"
    using assms by (metis distinct_map inj_on_eq_iff)
  with assms(2) show ?thesis
    by (induction us) (auto)
qed

section \<open>Properties of the store\<close>

text \<open>C1. Reload fidelity: when the browser storage is in sync with the tables and every table survives printing and parsing, a page reload (a fresh \<open>useStore\<close> on the stored entries) gives back exactly the same users, services, orders, settings and session.\<close>

theorem reload_synced:
  assumes "synced C s" and "tables_roundtrip C s"
  shows "users (reload C iS iO iSt s) = users s \<and> services (reload C iS iO iSt s) = services s \<and>
    orders (reload C iS iO iSt s) = orders s \<and> settings (reload C iS iO iSt s) = settings s \<and>
    currentUser (reload C iS iO iSt s) = currentUser s"
  using assms load_value_session [of "currentUser s" "session_codec C"]
  by (simp add: reload_def useStore_init_def load_tables_def split_def loadFromDB_fst loadFromDB_other
      synced_def tables_roundtrip_def load_value_roundtrips)

text \<open>C2. Appending or replacing orders with \<open>setOrders\<close> on a synced store, when the write fits the quota, persists them: a reload afterwards has exactly the new orders and the other four tables unchanged.\<close>

theorem setOrders_reload:
  assumes "synced C s" and "tables_roundtrip C (s\<lparr>orders := os\<rparr>)"
    and "fits (db_key_name ORDERS) (stringify (orders_codec C) os) (world s)"
  shows "users (reload C iS iO iSt (setOrders C os s)) = users s \<and>
    services (reload C iS iO iSt (setOrders C os s)) = services s \<and>
    orders (reload C iS iO iSt (setOrders C os s)) = os \<and>
    settings (reload C iS iO iSt (setOrders C os s)) = settings s \<and>
    currentUser (reload C iS iO iSt (setOrders C os s)) = currentUser s"
proof -
  have "synced C (setOrders C os s)" using assms(1,3) by (rule synced_setOrders)
  moreover have "tables_roundtrip C (setOrders C os s)"
    using assms(2) by (simp add: setOrders_def tables_roundtrip_def)
  ultimately show ?thesis using reload_synced_fields by (simp add: setOrders_def)
qed

text \<open>C4. Each table of a freshly initialised store is determined by its own storage entry alone (the value \<open>loadFromDB\<close> reads from it, or its default), so a corrupt or missing entry of one collection never affects another.\<close>

theorem useStore_init_tables:
  "users (useStore_init C iS iO iSt b) = load_value (users_codec C) [admin_seed] (getItem (db_key_name USERS) b) \<and>
   services (useStore_init C iS iO iSt b) = load_value (services_codec C) iS (getItem (db_key_name SERVICES) b) \<and>
   orders (useStore_init C iS iO iSt b) = load_value (orders_codec C) iO (getItem (db_key_name ORDERS) b) \<and>
   settings (useStore_init C iS iO iSt b) = load_value (settings_codec C) iSt (getItem (db_key_name SETTINGS) b) \<and>
   currentUser (useStore_init C iS iO iSt b) = load_value (session_codec C) None (getItem (db_key_name SESSION) b)"
  by (simp add: useStore_init_fields)

text \<open>C5. Loading an entry that is not valid serialised data returns the default, removes that entry, logs one warning, raises no alert and leaves every other entry as it was.\<close>

theorem loadFromDB_corrupt:
  assumes "getItem key b = Some saved" and "saved \<noteq> []" and "saved \<noteq> ''undefined''"
    and "parse c saved = None"
  shows "fst (loadFromDB c key d b) = d \<and> getItem key (snd (loadFromDB c key d b)) = None \<and>
    (\<forall>k. k \<noteq> key \<longrightarrow> getItem k (snd (loadFromDB c key d b)) = getItem k b) \<and>
    alerts (snd (loadFromDB c key d b)) = alerts b \<and>
    console (snd (loadFromDB c key d b)) =
      console b @ [(Warn, ''[Store] Failed to parse '' @ key @ '', resetting to default.'')]"
  using assms
  by (simp add: loadFromDB_def)

text \<open>C6. Loading a missing entry, an empty one or the string \<open>undefined\<close> returns the default and leaves the browser state unchanged: the \<open>undefined\<close> entry is not removed.\<close>

theorem loadFromDB_default_kept:
  assumes "getItem key b = None \<or> getItem key b = Some [] \<or> getItem key b = Some ''undefined''"
  shows "loadFromDB c key d b = (d, b)"
  using assms by (auto simp add: loadFromDB_def)

text \<open>C7. A save that exceeds the storage quota removes the session entry, keeps every other entry as it was (stale but not corrupted) and raises exactly one alert.\<close>

theorem saveToDB_quota_exceeded:
  assumes "\<not> fits key (stringify c v) b"
  shows "getItem (db_key_name SESSION) (saveToDB c key v b) = None \<and>
    (\<forall>k. k \<noteq> db_key_name SESSION \<longrightarrow> getItem k (saveToDB c key v b) = getItem k b) \<and>
    alerts (saveToDB c key v b) = alerts b @ [quota_alert]"
  using assms
  by (cases rule: setItem_cases [of key "stringify c v" b]) (simp_all add: saveToDB_def del: db_key_name.simps)

text \<open>C8. When the write of \<open>setOrders\<close> exceeds the quota, the in-memory orders still hold the new value, the session entry is removed, the other entries are untouched and one warning is issued.\<close>

theorem setOrders_quota_exceeded:
  assumes "\<not> fits (db_key_name ORDERS) (stringify (orders_codec C) os) (world s)"
  shows "orders (setOrders C os s) = os \<and>
    getItem (db_key_name SESSION) (world (setOrders C os s)) = None \<and>
    (\<forall>k. k \<noteq> db_key_name SESSION \<longrightarrow> getItem k (world (setOrders C os s)) = getItem k (world s)) \<and>
    alerts (world (setOrders C os s)) = alerts (world s) @ [quota_alert]"
  using assms by (simp add: setOrders_def getItem_saveToDB alerts_saveToDB del: db_key_name.simps)

text \<open>C9. \<open>login\<close> succeeds exactly when some stored user has that e-mail and that password (case-sensitive exact match); on failure the store is unchanged; on success the session is the first matching user and the users are unchanged.\<close>

theorem login_spec:
  "(fst (login C e p s) \<longleftrightarrow> (\<exists>u \<in> set (users s). user_email u = e \<and> user_password u = p)) \<and>
   (\<not> fst (login C e p s) \<longrightarrow> snd (login C e p s) = s) \<and>
   (fst (login C e p s) \<longrightarrow>
      currentUser (snd (login C e p s)) = find (\<lambda>u. user_email u = e \<and> user_password u = p) (users s) \<and>
      users (snd (login C e p s)) = users s)"
  by (auto simp add: login_def find_None_iff dest: find_SomeD split: option.splits)

text \<open>C10. \<open>signup\<close> with an e-mail that a stored user already has fails and leaves the store (users, session, storage) unchanged.\<close>

theorem signup_duplicate:
  assumes "\<exists>u \<in> set (users s). user_email u = e"
  shows "signup C n e p t s = (False, s)"
  using assms by (auto simp add: signup_def find_None_iff)

text \<open>C11. \<open>signup\<close> with a new e-mail succeeds, appends one visitor whose id is the decimal timestamp, and makes it the current session.\<close>

theorem signup_fresh:
  assumes "\<forall>u \<in> set (users s). user_email u \<noteq> e"
  shows "fst (signup C n e p t s) \<and>
    users (snd (signup C n e p t s)) = users s @ [new_user n e p t] \<and>
    currentUser (snd (signup C n e p t s)) = Some (new_user n e p t) \<and>
    user_role (new_user n e p t) = Visitor \<and> user_id (new_user n e p t) = nat_to_string t"
  using assms by (simp add: signup_def find_None_iff Let_def) (simp add: new_user_def)

text \<open>C12. In every state reachable by store operations from a state with unique e-mail addresses, the e-mail addresses of the users are still unique.\<close>

theorem reachable_emails_distinct:
  "reachable C s0 s \<Longrightarrow> emails_distinct s0 \<Longrightarrow> emails_distinct s"
  by (induction rule: reachable.induct) (auto intro: store_step_emails_distinct)

text \<open>C13. No sequence of store operations creates an administrator: an administrator session in a reachable state is a user that was already in the initial users table or the initial session.\<close>

theorem reachable_no_new_admin:
  assumes "reachable C s0 s" and "isAdmin s"
  shows "\<exists>u. currentUser s = Some u \<and> user_role u = Admin \<and>
    (u \<in> set (users s0) \<or> currentUser s0 = Some u)"
proof -
  obtain u where u: "currentUser s = Some u" "user_role u = Admin"
    using assms(2) by (auto simp add: isAdmin_def split: option.splits)
  have "u \<in> set (users s) \<or> currentUser s0 = Some u"
    using reachable_session_known [OF assms(1)] u(1) by (simp add: session_known_def)
  moreover have "u \<in> set (users s) \<Longrightarrow> u \<in> set (users s0)"
  proof -
    assume "u \<in> set (users s)"
    with u(2) have "u \<in> set (admins s)" by (simp add: admins_def)
    then have "u \<in> set (admins s0)" using reachable_admins [OF assms(1)] by simp
    then show ?thesis by (simp add: admins_def)
  qed
  ultimately show ?thesis using u by blast
qed

text \<open>C15. After \<open>logout\<close>, a fresh store loaded from the persisted state has no current user, no session entry and is not authenticated.\<close>

theorem logout_reload:
  "currentUser (reload C iS iO iSt (logout C s)) = None \<and>
   getItem (db_key_name SESSION) (world (reload C iS iO iSt (logout C s))) = None \<and>
   \<not> isAuthenticated (reload C iS iO iSt (logout C s))"
proof -
  have absent: "getItem (db_key_name SESSION) (world (logout C s)) = None"
    by (simp add: logout_def del: db_key_name.simps)
  then have lt: "currentUser (load_tables C iS iO iSt (world (logout C s))) = None"
    by (simp add: load_tables_fields load_value_def)
  have "getItem (db_key_name SESSION) (world (run_effects C ([USERS, SERVICES, ORDERS, SETTINGS] @ [SESSION])
          (load_tables C iS iO iSt (world (logout C s))))) = None"
    by (rule session_absent_after_effects [OF lt])
  then have "getItem (db_key_name SESSION) (world (reload C iS iO iSt (logout C s))) = None"
    by (simp add: reload_def useStore_init_def mount_order_def del: db_key_name.simps)
  with lt show ?thesis by (simp add: isAuthenticated_def reload_def useStore_init_def)
qed

text \<open>C16. Every store operation refines the two-state session machine of the spec: login and signup authenticate exactly when they succeed, logout deauthenticates, every other operation keeps the state.\<close>

theorem exec_op_refines_auth:
  "auth_of (snd (exec_op C a s)) = auth_step (auth_of s) (op_event a (fst (exec_op C a s)))"
  by (cases a) (auto simp add: auth_of_def isAuthenticated_def setServices_def setOrders_def
      setSettings_def logout_def login_def signup_def Let_def split: option.splits)


text \<open>C3. Saving a value with a sound serialiser when the write fits the quota and then loading that key returns the value and changes nothing in the browser.\<close>

theorem save_load_roundtrip:
  assumes "codec_ok c" and "fits key (stringify c v) b"
  shows "loadFromDB c key d (saveToDB c key v b) = (v, saveToDB c key v b)"
  using assms by (simp add: loadFromDB_def codec_ok_def getItem_saveToDB)

text \<open>C14. The administrator can never be locked out: in every state reached from a state where the seeded administrator is a user and e-mails are unique, logging in with the administrator's e-mail and password succeeds and gives an administrator session.\<close>

theorem admin_never_locked_out:
  assumes "reachable C s0 s" and "emails_distinct s0" and "admin_seed \<in> set (users s0)"
  shows "fst (login C (user_email admin_seed) (user_password admin_seed) s) \<and>
    currentUser (snd (login C (user_email admin_seed) (user_password admin_seed) s)) = Some admin_seed \<and>
    isAdmin (snd (login C (user_email admin_seed) (user_password admin_seed) s))"
proof -
  have "emails_distinct s \<and> admin_seed \<in> set (users s)"
    using assms
    by (induction rule: reachable.induct) (auto intro: store_step_emails_distinct dest: store_step_users_grow)
  then have d: "distinct (map user_email (users s))" and m: "admin_seed \<in> set (users s)"
    by (simp_all add: emails_distinct_def)
  show ?thesis
    using find_unique_email [OF d m]
    by (simp add: login_def isAdmin_def admin_seed_def)
qed

end
