(* ===== verification/Witnesses.thy ===== *)
theory Witnesses
  imports Store
begin

text \<open>
  Concrete stores and browsers on which the hypotheses of the store's properties
  hold, and the witness theorems that apply each property there. The codecs used
  here are the simplest sound ones for the fixtures (each prints one fixed text and
  parses exactly that text).
\<close>

section \<open>Fixtures\<close>

definition demo_settings :: site_settings where
  "demo_settings =
     \<lparr>site_name = ''Prithvi Creation'', logo = ''PC'', socialLinks = [],
      seo = \<lparr>metaTitle = ''Prithvi Creation'', metaDescription = ''Creative services''\<rparr>\<rparr>"

definition const_codec :: "string \<Rightarrow> 'a \<Rightarrow> 'a codec" where
  "const_codec t v = \<lparr>stringify = (\<lambda>_. t), parse = (\<lambda>x. if x = t then Some v else None)\<rparr>"

definition demo_codecs :: codecs where
  "demo_codecs =
     \<lparr>users_codec = const_codec ''[]'' [], services_codec = const_codec ''[]'' [],
      orders_codec = const_codec ''[]'' [], settings_codec = const_codec ''{}'' demo_settings,
      session_codec = const_codec ''null'' None\<rparr>"

definition demo_browser :: browser where
  "demo_browser =
     \<lparr>items = [(''pc_db_users'', ''[]''), (''pc_db_services'', ''[]''), (''pc_db_orders'', ''[]''),
               (''pc_db_settings'', ''{}'')],
      quota = 200, console = [], alerts = [], outbox = []\<rparr>"

definition demo_store :: store where
  "demo_store =
     \<lparr>users = [], services = [], orders = [], settings = demo_settings, currentUser = None,
      world = demo_browser\<rparr>"

definition admin_store :: store where
  "admin_store = demo_store\<lparr>users := [admin_seed], currentUser := Some admin_seed\<rparr>"

definition full_browser :: browser where
  "full_browser = \<lparr>items = [], quota = 0, console = [], alerts = [], outbox = []\<rparr>"

lemmas fixture_defs = demo_settings_def const_codec_def demo_codecs_def demo_browser_def
  demo_store_def admin_store_def full_browser_def

section \<open>Witnesses\<close>

theorem reload_synced_witness:
  "synced demo_codecs demo_store \<and> tables_roundtrip demo_codecs demo_store \<and>
   users (reload demo_codecs [] [] demo_settings demo_store) = users demo_store \<and>
   services (reload demo_codecs [] [] demo_settings demo_store) = services demo_store \<and>
   orders (reload demo_codecs [] [] demo_settings demo_store) = orders demo_store \<and>
   settings (reload demo_codecs [] [] demo_settings demo_store) = settings demo_store \<and>
   currentUser (reload demo_codecs [] [] demo_settings demo_store) = currentUser demo_store"
proof -
  have h1: "synced demo_codecs demo_store"
    by (simp add: synced_def getItem_def fixture_defs)
  have h2: "tables_roundtrip demo_codecs demo_store"
    by (simp add: tables_roundtrip_def roundtrips_def fixture_defs)
  show ?thesis
    using reload_synced [OF h1 h2, where iS = "[]" and iO = "[]" and iSt = demo_settings] h1 h2
    by simp
qed

theorem setOrders_reload_witness:
  "synced demo_codecs demo_store \<and> tables_roundtrip demo_codecs (demo_store\<lparr>orders := []\<rparr>) \<and>
   fits (db_key_name ORDERS) (stringify (orders_codec demo_codecs) []) (world demo_store) \<and>
   orders (reload demo_codecs [] [] demo_settings (setOrders demo_codecs [] demo_store)) = [] \<and>
   users (reload demo_codecs [] [] demo_settings (setOrders demo_codecs [] demo_store)) = users demo_store"
proof -
  have h1: "synced demo_codecs demo_store"
    by (simp add: synced_def getItem_def fixture_defs)
  have h2: "tables_roundtrip demo_codecs (demo_store\<lparr>orders := []\<rparr>)"
    by (simp add: tables_roundtrip_def roundtrips_def fixture_defs)
  have h3: "fits (db_key_name ORDERS) (stringify (orders_codec demo_codecs) []) (world demo_store)"
    by (simp add: fits_def fixture_defs)
  show ?thesis
    using setOrders_reload [OF h1 h2 h3, where iS = "[]" and iO = "[]" and iSt = demo_settings] h1 h2 h3
    by simp
qed

theorem loadFromDB_corrupt_witness:
  "getItem ''pc_db_orders'' (demo_browser\<lparr>items := [(''pc_db_orders'', ''{oops'')]\<rparr>) = Some ''{oops'' \<and>
   ''{oops'' \<noteq> [] \<and> ''{oops'' \<noteq> ''undefined'' \<and> parse (orders_codec demo_codecs) ''{oops'' = None \<and>
   fst (loadFromDB (orders_codec demo_codecs) ''pc_db_orders'' []
          (demo_browser\<lparr>items := [(''pc_db_orders'', ''{oops'')]\<rparr>)) = [] \<and>
   getItem ''pc_db_orders'' (snd (loadFromDB (orders_codec demo_codecs) ''pc_db_orders'' []
          (demo_browser\<lparr>items := [(''pc_db_orders'', ''{oops'')]\<rparr>))) = None"
proof -
  have h1: "getItem ''pc_db_orders'' (demo_browser\<lparr>items := [(''pc_db_orders'', ''{oops'')]\<rparr>) = Some ''{oops''"
    by (simp add: getItem_def)
  have h2: "parse (orders_codec demo_codecs) ''{oops'' = None"
    by (simp add: fixture_defs)
  show ?thesis using loadFromDB_corrupt [OF h1 _ _ h2, where d = "[]"] h1 h2 by simp
qed

theorem loadFromDB_default_kept_witness:
  "getItem ''pc_db_settings'' (demo_browser\<lparr>items := [(''pc_db_settings'', ''undefined'')]\<rparr>) = Some ''undefined'' \<and>
   loadFromDB (settings_codec demo_codecs) ''pc_db_settings'' demo_settings
     (demo_browser\<lparr>items := [(''pc_db_settings'', ''undefined'')]\<rparr>) =
   (demo_settings, demo_browser\<lparr>items := [(''pc_db_settings'', ''undefined'')]\<rparr>)"
proof -
  have h: "getItem ''pc_db_settings'' (demo_browser\<lparr>items := [(''pc_db_settings'', ''undefined'')]\<rparr>) = Some ''undefined''"
    by (simp add: getItem_def)
  then have hd: "getItem ''pc_db_settings'' (demo_browser\<lparr>items := [(''pc_db_settings'', ''undefined'')]\<rparr>) = None \<or>
      getItem ''pc_db_settings'' (demo_browser\<lparr>items := [(''pc_db_settings'', ''undefined'')]\<rparr>) = Some [] \<or>
      getItem ''pc_db_settings'' (demo_browser\<lparr>items := [(''pc_db_settings'', ''undefined'')]\<rparr>) = Some ''undefined''"
    by simp
  show ?thesis using loadFromDB_default_kept [OF hd] h by simp
qed

theorem saveToDB_quota_exceeded_witness:
  "\<not> fits ''pc_db_orders'' (stringify (orders_codec demo_codecs) []) full_browser \<and>
   getItem (db_key_name SESSION) (saveToDB (orders_codec demo_codecs) ''pc_db_orders'' [] full_browser) = None \<and>
   alerts (saveToDB (orders_codec demo_codecs) ''pc_db_orders'' [] full_browser) = [quota_alert]"
proof -
  have h: "\<not> fits ''pc_db_orders'' (stringify (orders_codec demo_codecs) []) full_browser"
    by (simp add: fits_def fixture_defs)
  show ?thesis using saveToDB_quota_exceeded [OF h] h by (simp add: full_browser_def)
qed

theorem setOrders_quota_exceeded_witness:
  "\<not> fits (db_key_name ORDERS) (stringify (orders_codec demo_codecs) []) (world (demo_store\<lparr>world := full_browser\<rparr>)) \<and>
   orders (setOrders demo_codecs [] (demo_store\<lparr>world := full_browser\<rparr>)) = [] \<and>
   alerts (world (setOrders demo_codecs [] (demo_store\<lparr>world := full_browser\<rparr>))) = [quota_alert]"
proof -
  have h: "\<not> fits (db_key_name ORDERS) (stringify (orders_codec demo_codecs) []) (world (demo_store\<lparr>world := full_browser\<rparr>))"
    by (simp add: fits_def fixture_defs)
  show ?thesis using setOrders_quota_exceeded [OF h] h by (simp add: full_browser_def)
qed

theorem login_spec_witness:
  "fst (login demo_codecs ''admin@prithvi.com'' ''admin123'' admin_store) \<and>
   currentUser (snd (login demo_codecs ''admin@prithvi.com'' ''admin123'' admin_store)) = Some admin_seed \<and>
   \<not> fst (login demo_codecs ''Admin@prithvi.com'' ''admin123'' admin_store) \<and>
   snd (login demo_codecs ''Admin@prithvi.com'' ''admin123'' admin_store) = admin_store"
  using login_spec [of demo_codecs "''admin@prithvi.com''" "''admin123''" admin_store]
    login_spec [of demo_codecs "''Admin@prithvi.com''" "''admin123''" admin_store]
  by (simp add: fixture_defs admin_seed_def)

theorem signup_duplicate_witness:
  "(\<exists>u \<in> set (users admin_store). user_email u = ''admin@prithvi.com'') \<and>
   signup demo_codecs ''B'' ''admin@prithvi.com'' ''pw2'' 7 admin_store = (False, admin_store)"
proof -
  have h: "\<exists>u \<in> set (users admin_store). user_email u = ''admin@prithvi.com''"
    by (simp add: fixture_defs admin_seed_def)
  show ?thesis using signup_duplicate [OF h] h by simp
qed

theorem signup_fresh_witness:
  "fst (signup demo_codecs ''A'' ''a@x.com'' ''pw'' 1700 admin_store) \<and>
   users (snd (signup demo_codecs ''A'' ''a@x.com'' ''pw'' 1700 admin_store)) =
     [admin_seed, new_user ''A'' ''a@x.com'' ''pw'' 1700] \<and>
   user_id (new_user ''A'' ''a@x.com'' ''pw'' 1700) = ''1700''"
proof -
  have h: "\<forall>u \<in> set (users admin_store). user_email u \<noteq> ''a@x.com''"
    by (simp add: fixture_defs admin_seed_def)
  have id: "nat_to_string 1700 = ''1700''"
    by code_simp
  show ?thesis using signup_fresh [OF h, of demo_codecs "''A''" "''pw''" 1700] h id
    by (simp add: admin_store_def demo_store_def)
qed

theorem reachable_emails_distinct_witness:
  "reachable demo_codecs admin_store (snd (signup demo_codecs ''A'' ''a@x.com'' ''pw'' 5 admin_store)) \<and>
   emails_distinct admin_store \<and>
   emails_distinct (snd (signup demo_codecs ''A'' ''a@x.com'' ''pw'' 5 admin_store))"
proof -
  have st: "store_step demo_codecs admin_store (snd (signup demo_codecs ''A'' ''a@x.com'' ''pw'' 5 admin_store))"
    by (rule store_step.op [where a = "Signup ''A'' ''a@x.com'' ''pw'' 5"]) (simp add: prod_eq_iff)
  have r: "reachable demo_codecs admin_store (snd (signup demo_codecs ''A'' ''a@x.com'' ''pw'' 5 admin_store))"
    by (rule reachable.step [OF reachable.init st])
  have d: "emails_distinct admin_store"
    by (simp add: emails_distinct_def fixture_defs)
  show ?thesis using reachable_emails_distinct [OF r d] r d by simp
qed

theorem reachable_no_new_admin_witness:
  "reachable demo_codecs admin_store admin_store \<and> isAdmin admin_store \<and>
   (\<exists>u. currentUser admin_store = Some u \<and> user_role u = Admin \<and>
      (u \<in> set (users admin_store) \<or> currentUser admin_store = Some u))"
proof -
  have r: "reachable demo_codecs admin_store admin_store" by (rule reachable.init)
  have a: "isAdmin admin_store" by (simp add: isAdmin_def fixture_defs admin_seed_def)
  show ?thesis using reachable_no_new_admin [OF r a] r a by simp
qed

end
