(* ===== verification/Gigs.thy ===== *)
theory Gigs
  imports Store
begin

text \<open>
  The gig editor of the admin console, \<open>ServicesManagement\<close> in
  \<open>src/pages/AdminDashboard.tsx\<close>, with the media-type test \<open>isVideoMedia\<close> it
  shares with the detail page. Its local React state (modal, tab, publishing flag,
  the id being edited and the form) is the record \<open>gig_editor\<close>; the form, a
  \<open>Partial<Service>\<close> in the source, is the record \<open>service_form\<close>, whose field
  \<open>f_base\<close> holds the service the form was opened on (the \<open>...service\<close> spread
  that carries its id and counters). Each handler is a function on the editor state
  and, where it calls the store, on the store.

  \<open>handleSaveService\<close> awaits a 400 ms timer between raising the publishing flag and
  saving: it is split into the click (\<open>handleSaveService_click\<close>, which captures
  the form, the edited id and the services of that render, as the closure does) and
  the completion (\<open>handleSaveService_done\<close>). \<open>Date.now()\<close> and the random
  placeholder seed are parameters. A file upload starts one \<open>FileReader\<close> per file;
  the readers finish in any order, so an upload is the fold of the per-file update
  over the data URLs in their completion order. The theory also models the
  description's rich-text editor and what the editor shows: the gig list and the
  modal.
\<close>

section \<open>Media type detection\<close>

definition isVideoMedia :: "string \<Rightarrow> bool" where
  "isVideoMedia url \<longleftrightarrow>
     js_startsWith url ''data:video'' \<or> js_endsWith (js_toLowerCase url) ''.mp4'' \<or>
     js_endsWith (js_toLowerCase url) ''.webm'' \<or> js_endsWith (js_toLowerCase url) ''.mov''"

section \<open>Editor state\<close>

datatype gig_tab = Overview | Pricing | Media

datatype media_field = Images | Videos | Pdfs

record service_form =
  f_title :: string
  f_description :: string
  f_price :: int
  f_category :: string
  f_deliveryDays :: nat
  f_revisions :: nat
  f_images :: "string list"
  f_videos :: "string list"
  f_pdfs :: "string list"
  f_features :: "string list"
  f_status :: service_status
  f_base :: "service option"

record gig_editor =
  isModalOpen :: bool
  editingId :: "string option"
  activeTab :: gig_tab
  isPublishing :: bool
  formData :: service_form

definition empty_form :: service_form where
  "empty_form =
     \<lparr>f_title = [], f_description = [], f_price = 0, f_category = ''Video Editing'',
      f_deliveryDays = 1, f_revisions = 1, f_images = [], f_videos = [], f_pdfs = [],
      f_features = [[]], f_status = Published, f_base = None\<rparr>"

definition gig_editor_init :: gig_editor where
  "gig_editor_init =
     \<lparr>isModalOpen = False, editingId = None, activeTab = Overview, isPublishing = False,
      formData = empty_form\<rparr>"

text \<open>The options of the pricing selects and of the category select.\<close>

definition delivery_options :: "nat list" where
  "delivery_options = [1, 2, 3, 4, 5, 7, 10, 14, 21, 30]"

definition revision_options :: "nat list" where
  "revision_options = [0, 1, 2, 3, 5, 10, 99]"

definition category_options :: "string list" where
  "category_options = [''Video Editing'', ''Graphic Design'', ''Copywriting'', ''SEO Strategy'',
                       ''Brand Identity'']"

section \<open>Opening the modal\<close>

definition form_of_service :: "service \<Rightarrow> service_form" where
  "form_of_service svc =
     \<lparr>f_title = title svc, f_description = description svc, f_price = price svc,
      f_category = category svc, f_deliveryDays = deliveryDays svc, f_revisions = revisions svc,
      f_images = images svc, f_videos = videos svc, f_pdfs = pdfs svc,
      f_features = (if features svc \<noteq> [] then features svc else [[]]),
      f_status = svc_status svc, f_base = Some svc\<rparr>"

definition handleOpenModal :: "service option \<Rightarrow> gig_editor \<Rightarrow> gig_editor" where
  "handleOpenModal svc ed =
     (case svc of
        Some s \<Rightarrow> ed\<lparr>activeTab := Overview, editingId := Some (svc_id s),
                     formData := form_of_service s, isModalOpen := True\<rparr>
      | None \<Rightarrow> ed\<lparr>activeTab := Overview, editingId := None, formData := empty_form,
                  isModalOpen := True\<rparr>)"

definition closeModal :: "gig_editor \<Rightarrow> gig_editor" where
  "closeModal ed = ed\<lparr>isModalOpen := False\<rparr>"

definition setActiveTab :: "gig_tab \<Rightarrow> gig_editor \<Rightarrow> gig_editor" where
  "setActiveTab t ed = ed\<lparr>activeTab := t\<rparr>"

section \<open>Editing the form\<close>

text \<open>The \<open>onChange\<close> handlers of the inputs and selects, and the status toggle.\<close>

datatype form_edit =
    EditTitle string
  | EditCategory string
  | EditDescription string
  | EditPrice int
  | EditDeliveryDays nat
  | EditRevisions nat
  | EditStatus service_status

fun apply_edit :: "form_edit \<Rightarrow> service_form \<Rightarrow> service_form" where
  "apply_edit (EditTitle t) f = f\<lparr>f_title := t\<rparr>"
| "apply_edit (EditCategory c) f = f\<lparr>f_category := c\<rparr>"
| "apply_edit (EditDescription d) f = f\<lparr>f_description := d\<rparr>"
| "apply_edit (EditPrice p) f = f\<lparr>f_price := p\<rparr>"
| "apply_edit (EditDeliveryDays n) f = f\<lparr>f_deliveryDays := n\<rparr>"
| "apply_edit (EditRevisions n) f = f\<lparr>f_revisions := n\<rparr>"
| "apply_edit (EditStatus st) f = f\<lparr>f_status := st\<rparr>"

definition editForm :: "form_edit \<Rightarrow> gig_editor \<Rightarrow> gig_editor" where
  "editForm e ed = ed\<lparr>formData := apply_edit e (formData ed)\<rparr>"

fun form_field :: "media_field \<Rightarrow> service_form \<Rightarrow> string list" where
  "form_field Images f = f_images f"
| "form_field Videos f = f_videos f"
| "form_field Pdfs f = f_pdfs f"

fun set_form_field :: "media_field \<Rightarrow> string list \<Rightarrow> service_form \<Rightarrow> service_form" where
  "set_form_field Images xs f = f\<lparr>f_images := xs\<rparr>"
| "set_form_field Videos xs f = f\<lparr>f_videos := xs\<rparr>"
| "set_form_field Pdfs xs f = f\<lparr>f_pdfs := xs\<rparr>"

text \<open>\<open>xs.filter((_, i) => i !== index)\<close>.\<close>

definition remove_index :: "nat \<Rightarrow> 'a list \<Rightarrow> 'a list" where
  "remove_index i xs = map fst (filter (\<lambda>(x, j). j \<noteq> i) (zip xs [0..<length xs]))"

text \<open>
  \<open>handleFileUpload\<close>: the field a loaded file goes to (a PDF upload always to the
  PDFs, a media upload to the videos when its data URL is a video, else to the images),
  the per-file state update of \<open>onloadend\<close>, and the upload as the fold of that
  update over the completion order. A missing file list does nothing.
\<close>

definition upload_target :: "media_field \<Rightarrow> string \<Rightarrow> media_field" where
  "upload_target field base64 =
     (if field = Pdfs then Pdfs else if js_startsWith base64 ''data:video'' then Videos else Images)"

definition upload_loaded :: "media_field \<Rightarrow> string \<Rightarrow> gig_editor \<Rightarrow> gig_editor" where
  "upload_loaded field base64 ed =
     (let t = upload_target field base64
      in ed\<lparr>formData := set_form_field t (form_field t (formData ed) @ [base64]) (formData ed)\<rparr>)"

definition handleFileUpload :: "media_field \<Rightarrow> string list option \<Rightarrow> gig_editor \<Rightarrow> gig_editor" where
  "handleFileUpload field files ed =
     (case files of None \<Rightarrow> ed | Some completed \<Rightarrow> fold (upload_loaded field) completed ed)"

definition removeMedia :: "media_field \<Rightarrow> nat \<Rightarrow> gig_editor \<Rightarrow> gig_editor" where
  "removeMedia ty i ed =
     ed\<lparr>formData := set_form_field ty (remove_index i (form_field ty (formData ed))) (formData ed)\<rparr>"

text \<open>The gallery's delete button: by URL, in the array \<open>isVideoMedia\<close> points at.\<close>

definition deleteGalleryItem :: "string \<Rightarrow> gig_editor \<Rightarrow> gig_editor" where
  "deleteGalleryItem url ed =
     (let t = (if isVideoMedia url then Videos else Images)
      in ed\<lparr>formData := set_form_field t (filter (\<lambda>u. u \<noteq> url) (form_field t (formData ed)))
                           (formData ed)\<rparr>)"

text \<open>
  \<open>updateFeature\<close> is called with the index of a rendered feature input, so the
  index is in range; \<open>xs[i := v]\<close> is the array assignment there.
\<close>

definition updateFeature :: "nat \<Rightarrow> string \<Rightarrow> gig_editor \<Rightarrow> gig_editor" where
  "updateFeature i v ed = ed\<lparr>formData := (formData ed)\<lparr>f_features := (f_features (formData ed))[i := v]\<rparr>\<rparr>"

definition addFeature :: "gig_editor \<Rightarrow> gig_editor" where
  "addFeature ed = ed\<lparr>formData := (formData ed)\<lparr>f_features := f_features (formData ed) @ [[]]\<rparr>\<rparr>"

definition removeFeature :: "nat \<Rightarrow> gig_editor \<Rightarrow> gig_editor" where
  "removeFeature i ed =
     ed\<lparr>formData := (formData ed)\<lparr>f_features := remove_index i (f_features (formData ed))\<rparr>\<rparr>"

section \<open>Saving\<close>

text \<open>
  \<open>finalData\<close>: the forced status if one is given, else the form's; the form's images,
  or one placeholder when there are none; the features with blank ones dropped.
\<close>

definition placeholder_image :: "string \<Rightarrow> string" where
  "placeholder_image rnd = ''https://picsum.photos/seed/'' @ rnd @ ''/800/600''"

definition finalize_form :: "service_status option \<Rightarrow> string \<Rightarrow> service_form \<Rightarrow> service_form" where
  "finalize_form forced rnd f =
     f\<lparr>f_status := (case forced of Some st \<Rightarrow> st | None \<Rightarrow> f_status f),
       f_images := (if f_images f \<noteq> [] then f_images f else [placeholder_image rnd]),
       f_features := filter (\<lambda>x. js_trim x \<noteq> []) (f_features f)\<rparr>"

text \<open>
  \<open>{...s, ...finalData}\<close>: the form's fields over the stored service; the id and the
  counters come from the service the form was opened on, when there is one.
\<close>

definition merge_service :: "service \<Rightarrow> service_form \<Rightarrow> service" where
  "merge_service s f =
     (let b = (case f_base f of Some b \<Rightarrow> b | None \<Rightarrow> s)
      in s\<lparr>svc_id := svc_id b, title := f_title f, description := f_description f,
           price := f_price f, category := f_category f, deliveryDays := f_deliveryDays f,
           revisions := f_revisions f, images := f_images f, videos := f_videos f,
           pdfs := f_pdfs f, features := f_features f, svc_status := f_status f,
           impressions := impressions b, clicks := clicks b\<rparr>)"

definition service_of_form :: "nat \<Rightarrow> service_form \<Rightarrow> service" where
  "service_of_form now f =
     \<lparr>svc_id = nat_to_string now, title = f_title f, description = f_description f,
      price = f_price f, category = f_category f, deliveryDays = f_deliveryDays f,
      revisions = f_revisions f, images = f_images f, videos = f_videos f, pdfs = f_pdfs f,
      features = f_features f, svc_status = f_status f, impressions = 0, clicks = 0\<rparr>"

record save_job =
  job_forced :: "service_status option"
  job_form :: service_form
  job_editing :: "string option"
  job_services :: "service list"

definition handleSaveService_click ::
  "service_status option \<Rightarrow> gig_editor \<Rightarrow> store \<Rightarrow> gig_editor \<times> save_job" where
  "handleSaveService_click forced ed s =
     (ed\<lparr>isPublishing := True\<rparr>,
      \<lparr>job_forced = forced, job_form = formData ed, job_editing = editingId ed,
       job_services = services s\<rparr>)"

definition saved_services :: "save_job \<Rightarrow> string \<Rightarrow> nat \<Rightarrow> service list" where
  "saved_services job rnd now =
     (let fd = finalize_form (job_forced job) rnd (job_form job)
      in case job_editing job of
           Some eid \<Rightarrow> map_where (\<lambda>s. svc_id s = eid) (\<lambda>s. merge_service s fd) (job_services job)
         | None \<Rightarrow> job_services job @ [service_of_form now fd])"

definition handleSaveService_done ::
  "codecs \<Rightarrow> save_job \<Rightarrow> string \<Rightarrow> nat \<Rightarrow> gig_editor \<times> store \<Rightarrow> gig_editor \<times> store" where
  "handleSaveService_done C job rnd now es =
     (let s' = setServices C (saved_services job rnd now) (snd es)
      in ((fst es)\<lparr>isModalOpen := False, isPublishing := False\<rparr>, s'))"

definition handleSaveService ::
  "codecs \<Rightarrow> service_status option \<Rightarrow> string \<Rightarrow> nat \<Rightarrow> gig_editor \<times> store \<Rightarrow> gig_editor \<times> store" where
  "handleSaveService C forced rnd now es =
     (let (ed', job) = handleSaveService_click forced (fst es) (snd es)
      in handleSaveService_done C job rnd now (ed', snd es))"

text \<open>The footer button \<open>Save & Publish Gig Live\<close>, the only caller of \<open>handleSaveService\<close>.\<close>

definition publishGig :: "codecs \<Rightarrow> string \<Rightarrow> nat \<Rightarrow> gig_editor \<times> store \<Rightarrow> gig_editor \<times> store" where
  "publishGig C rnd now es = handleSaveService C (Some Published) rnd now es"

section \<open>The rich-text editor\<close>

text \<open>\<open>RichTextEditor\<close> (lines 23 to 82) edits the description. Its only state is the
  \<open>innerHTML\<close> of the \<open>contentEditable\<close> element behind \<open>editorRef\<close> (the record
  \<open>rte\<close>); the element is mounted whenever the buttons can be clicked, so the
  \<open>editorRef.current\<close> tests always pass. \<open>document.execCommand\<close> acts on the browser's
  selection and is a parameter \<open>execCommand\<close> from command and content to content. The
  effect on \<open>[value]\<close> rewrites the element only when its content differs from the
  value; it reports whether it wrote, as a write moves the caret.\<close>

record rte =
  rte_html :: string

definition rte_effect :: "string \<Rightarrow> rte \<Rightarrow> rte \<times> bool" where
  "rte_effect value r =
     (if rte_html r \<noteq> value then (r\<lparr>rte_html := value\<rparr>, True) else (r, False))"

definition handleCommand :: "(string \<Rightarrow> string \<Rightarrow> string) \<Rightarrow> string \<Rightarrow> rte \<Rightarrow> rte \<times> string" where
  "handleCommand execCommand command r =
     (let r' = r\<lparr>rte_html := execCommand command (rte_html r)\<rparr> in (r', rte_html r'))"

definition rte_toolbar :: "string list" where
  "rte_toolbar = [''bold'', ''italic'', ''insertUnorderedList'', ''insertOrderedList'']"

text \<open>The events of the editor: a toolbar command, typing (after which the browser holds
  the typed content, passed to \<open>onInput\<close>), and leaving the element (\<open>onBlur\<close>). Each
  calls \<open>onChange\<close> with the element's content.\<close>

datatype rte_event = RteCommand string | RteInput string | RteBlur

fun rte_handle :: "(string \<Rightarrow> string \<Rightarrow> string) \<Rightarrow> rte_event \<Rightarrow> rte \<Rightarrow> rte \<times> string" where
  "rte_handle ex (RteCommand c) r = handleCommand ex c r"
| "rte_handle ex (RteInput h) r = (r\<lparr>rte_html := h\<rparr>, h)"
| "rte_handle ex RteBlur r = (r, rte_html r)"

text \<open>One editor event inside the gig form: the handler's \<open>onChange\<close> is the form update
  \<open>setFormData({...formData, description: val})\<close> of line 388, and the editor's effect
  runs after the render when the description changed.\<close>

definition description_event ::
  "(string \<Rightarrow> string \<Rightarrow> string) \<Rightarrow> rte_event \<Rightarrow> gig_editor \<times> rte \<Rightarrow> (gig_editor \<times> rte) \<times> bool" where
  "description_event ex ev er =
     (let (ed, r) = er;
          (r1, v) = rte_handle ex ev r;
          ed1 = editForm (EditDescription v) ed
      in if f_description (formData ed1) \<noteq> f_description (formData ed)
         then (let (r2, wrote) = rte_effect (f_description (formData ed1)) r1 in ((ed1, r2), wrote))
         else ((ed1, r1), False))"

section \<open>What the gig editor shows\<close>

text \<open>The gig list of \<open>ServicesManagement\<close> (lines 312 to 343): one card per gig with its
  first image (\<open>service.images[0]\<close>, undefined for a gig with no image), the badge
  \<open>Live\<close> or \<open>Draft\<close>, the title, the category and the price.\<close>

record admin_gig_card =
  agc_image :: "string option"
  agc_badge :: string
  agc_title :: string
  agc_category :: string
  agc_price :: int

definition admin_gig_card :: "service \<Rightarrow> admin_gig_card" where
  "admin_gig_card g =
     \<lparr>agc_image = js_at (images g) 0,
      agc_badge = (if svc_status g = Published then ''Live'' else ''Draft''),
      agc_title = title g, agc_category = category g, agc_price = price g\<rparr>"

definition gigs_list_view :: "store \<Rightarrow> admin_gig_card list" where
  "gigs_list_view s = map admin_gig_card (services s)"

text \<open>The modal (lines 345 to 546), shown while \<open>isModalOpen\<close>: the three tab buttons
  with their highlight, the panel of the active tab, the feature inputs, the combined
  gallery of images then videos with the test that decides how each is shown, the PDF
  rows, the highlight of the two status buttons, and the footer buttons, both disabled
  while publishing.\<close>

record gig_modal =
  gm_tabs :: "(string \<times> bool) list"
  gm_panel :: gig_tab
  gm_features :: "string list"
  gm_gallery :: "(string \<times> bool) list"
  gm_pdf_rows :: "string list"
  gm_status_active :: "bool \<times> bool"
  gm_cancel_disabled :: bool
  gm_publish_disabled :: bool
  gm_publish_label :: string

definition gig_modal_view :: "gig_editor \<Rightarrow> gig_modal option" where
  "gig_modal_view ed =
     (if \<not> isModalOpen ed then None
      else Some
       \<lparr>gm_tabs = [(''Overview'', activeTab ed = Overview), (''Pricing'', activeTab ed = Pricing),
                   (''Gallery'', activeTab ed = Media)],
        gm_panel = activeTab ed,
        gm_features = f_features (formData ed),
        gm_gallery = map (\<lambda>u. (u, isVideoMedia u)) (f_images (formData ed) @ f_videos (formData ed)),
        gm_pdf_rows = map (\<lambda>i. ''Document_'' @ nat_to_string (Suc i) @ ''.pdf'')
                        [0..<length (f_pdfs (formData ed))],
        gm_status_active = (f_status (formData ed) = Published, f_status (formData ed) = Draft),
        gm_cancel_disabled = isPublishing ed,
        gm_publish_disabled = isPublishing ed,
        gm_publish_label = (if isPublishing ed then ''Publishing...'' else ''Save & Publish Gig Live'')\<rparr>)"

section \<open>Lemmas\<close>

lemma remove_index_from:
  "map fst (filter (\<lambda>(x, j). j \<noteq> i) (zip xs [k..<k + length xs])) =
   (if k \<le> i then take (i - k) xs @ drop (Suc (i - k)) xs else xs)"
proof (induction xs arbitrary: k)
  case Nil
  then show ?case by simp
next
  case (Cons x xs)
  have z: "zip (x # xs) [k..<k + length (x # xs)] = (x, k) # zip xs [Suc k..<Suc k + length xs]"
    by (simp add: upt_rec del: upt_Suc)
  show ?case
  proof (cases "k \<le> i")
    case True
    show ?thesis
    proof (cases "k = i")
      case True
      then show ?thesis using z Cons.IH [of "Suc k"] by simp
    next
      case False
      with \<open>k \<le> i\<close> have "i - k = Suc (i - Suc k)" and "Suc k \<le> i" by arith+
      then show ?thesis using z Cons.IH [of "Suc k"] False by simp
    qed
  next
    case False
    then show ?thesis using z Cons.IH [of "Suc k"] by simp
  qed
qed

lemma form_field_set [simp]:
  "form_field t (set_form_field t' xs f) = (if t = t' then xs else form_field t f)"
  by (cases t; cases t') simp_all

lemma f_features_set [simp]: "f_features (set_form_field t xs f) = f_features f"
  by (cases t) simp_all

lemma upload_fold_field:
  "form_field t (formData (fold (upload_loaded fld) us ed)) =
   form_field t (formData ed) @ filter (\<lambda>u. upload_target fld u = t) us"
  by (induction us arbitrary: ed) (auto simp add: upload_loaded_def Let_def)

lemma publishGig_services:
  "services (snd (publishGig C rnd now (ed, s))) =
   saved_services \<lparr>job_forced = Some Published, job_form = formData ed, job_editing = editingId ed,
     job_services = services s\<rparr> rnd now"
  by (simp add: publishGig_def handleSaveService_def handleSaveService_click_def
      handleSaveService_done_def setServices_def)

lemma handleSaveService_other [simp]:
  "orders (snd (handleSaveService C fo rnd now (ed, s))) = orders s"
  "users (snd (handleSaveService C fo rnd now (ed, s))) = users s"
  "currentUser (snd (handleSaveService C fo rnd now (ed, s))) = currentUser s"
  by (simp_all add: handleSaveService_def handleSaveService_click_def handleSaveService_done_def
      setServices_def Let_def)

lemma finalize_form_fields [simp]:
  "f_title (finalize_form fo r f) = f_title f" "f_price (finalize_form fo r f) = f_price f"
  "f_description (finalize_form fo r f) = f_description f"
  "f_category (finalize_form fo r f) = f_category f"
  "f_deliveryDays (finalize_form fo r f) = f_deliveryDays f"
  "f_revisions (finalize_form fo r f) = f_revisions f"
  "f_videos (finalize_form fo r f) = f_videos f" "f_pdfs (finalize_form fo r f) = f_pdfs f"
  "f_base (finalize_form fo r f) = f_base f"
  "f_features (finalize_form fo r f) = filter (\<lambda>x. js_trim x \<noteq> []) (f_features f)"
  "f_status (finalize_form (Some st) r f) = st"
  "f_images (finalize_form fo r f) \<noteq> []"
  by (simp_all add: finalize_form_def)

section \<open>Properties of the gig editor\<close>

text \<open>C19. Publishing an edited gig keeps the number of gigs, leaves every gig with another id unchanged, and gives the gigs with the edited id the form's title and price, the form's non-blank features, and the status published.\<close>

theorem publish_edit_spec:
  assumes "editingId ed = Some eid"
  shows "length (services (snd (publishGig C rnd now (ed, s)))) = length (services s) \<and>
    (\<forall>i < length (services s). svc_id (services s ! i) \<noteq> eid \<longrightarrow>
       services (snd (publishGig C rnd now (ed, s))) ! i = services s ! i) \<and>
    (\<forall>i < length (services s). svc_id (services s ! i) = eid \<longrightarrow>
       title (services (snd (publishGig C rnd now (ed, s))) ! i) = f_title (formData ed) \<and>
       price (services (snd (publishGig C rnd now (ed, s))) ! i) = f_price (formData ed) \<and>
       svc_status (services (snd (publishGig C rnd now (ed, s))) ! i) = Published \<and>
       features (services (snd (publishGig C rnd now (ed, s))) ! i) =
         filter (\<lambda>x. js_trim x \<noteq> []) (f_features (formData ed)))"
  using assms
  by (simp add: publishGig_services saved_services_def map_where_nth merge_service_def Let_def)

text \<open>C20. Publishing a new gig appends exactly one gig whose id is the timestamp, whose counters are zero, which has at least one image and no blank feature, carries the form's title and price, and is published even when the form's status toggle says draft.\<close>

theorem publish_create_spec:
  assumes "editingId ed = None"
  shows "\<exists>g. services (snd (publishGig C rnd now (ed, s))) = services s @ [g] \<and>
    svc_id g = nat_to_string now \<and> impressions g = 0 \<and> clicks g = 0 \<and>
    svc_status g = Published \<and> images g \<noteq> [] \<and> (\<forall>x \<in> set (features g). js_trim x \<noteq> []) \<and>
    title g = f_title (formData ed) \<and> price g = f_price (formData ed)"
  using assms
  by (simp add: publishGig_services saved_services_def service_of_form_def Let_def)

text \<open>C21. Opening the editor on a published gig that has an image and no blank feature and publishing it without changes leaves the gig list unchanged (ids unique).\<close>

theorem reopen_publish_roundtrip:
  assumes "distinct (map svc_id (services s))" and "g \<in> set (services s)"
    and "images g \<noteq> []" and "\<forall>x \<in> set (features g). js_trim x \<noteq> []"
    and "svc_status g = Published"
  shows "services (snd (publishGig C rnd now (handleOpenModal (Some g) ed, s))) = services s"
proof -
  have same: "x = g" if "x \<in> set (services s)" "svc_id x = svc_id g" for x
    using assms(1,2) that by (metis distinct_map inj_on_eq_iff)
  have feats: "filter (\<lambda>x. js_trim x \<noteq> []) (if features g \<noteq> [] then features g else [[]]) = features g"
    using assms(4) by simp
  have merge: "merge_service g (finalize_form (Some Published) rnd (form_of_service g)) = g"
    using assms(3,5) feats
    by (simp add: merge_service_def form_of_service_def finalize_form_def)
  have "map_where (\<lambda>x. svc_id x = svc_id g)
          (\<lambda>x. merge_service x (finalize_form (Some Published) rnd (form_of_service g))) (services s) =
        services s"
    unfolding map_where_def
  proof (rule map_idI)
    fix x assume "x \<in> set (services s)"
    then show "(if svc_id x = svc_id g
                then merge_service x (finalize_form (Some Published) rnd (form_of_service g)) else x) = x"
      using same merge by auto
  qed
  then show ?thesis
    by (simp add: publishGig_services saved_services_def handleOpenModal_def Let_def)
qed

text \<open>C22. The order in which the file readers of one upload finish does not change which data URLs end up in each of the images, videos and PDF lists (as multisets).\<close>

theorem upload_order_independent:
  assumes "mset us1 = mset us2"
  shows "mset (form_field t (formData (handleFileUpload fld (Some us1) ed))) =
         mset (form_field t (formData (handleFileUpload fld (Some us2) ed)))"
proof -
  have "mset (filter (\<lambda>u. upload_target fld u = t) us1) = mset (filter (\<lambda>u. upload_target fld u = t) us2)"
    using assms by (metis mset_filter)
  then show ?thesis by (simp add: handleFileUpload_def upload_fold_field)
qed

text \<open>A PDF upload appends the files to the PDF list in completion order and never touches the images or videos.\<close>

theorem upload_pdfs_only:
  "f_pdfs (formData (handleFileUpload Pdfs (Some us) ed)) = f_pdfs (formData ed) @ us \<and>
   f_images (formData (handleFileUpload Pdfs (Some us) ed)) = f_images (formData ed) \<and>
   f_videos (formData (handleFileUpload Pdfs (Some us) ed)) = f_videos (formData ed)"
  using upload_fold_field [of Pdfs Pdfs us ed] upload_fold_field [of Images Pdfs us ed]
    upload_fold_field [of Videos Pdfs us ed]
  by (simp add: handleFileUpload_def upload_target_def)

text \<open>Removing an entry by index with the filter idiom \<open>xs.filter((_, i) => i !== index)\<close> equals taking the entries before the index and dropping the one at it.\<close>

theorem remove_index_eq: "remove_index i xs = take i xs @ drop (Suc i) xs"
  using remove_index_from [of i xs 0] by (simp add: remove_index_def)

text \<open>The gallery's delete button looks for a URL with a video suffix in the videos list only, so an image stored under such a URL is never removed from the images.\<close>

theorem gallery_delete_video_suffix:
  assumes "isVideoMedia url"
  shows "f_images (formData (deleteGalleryItem url ed)) = f_images (formData ed)"
  using assms by (simp add: deleteGalleryItem_def Let_def)


section \<open>Properties of the editor's views\<close>

text \<open>Each editor event hands \<open>onChange\<close> the element's content after the event.\<close>

lemma rte_handle_result: "rte_html (fst (rte_handle ex ev r)) = snd (rte_handle ex ev r)"
  by (cases ev) (simp_all add: handleCommand_def)

text \<open>A change of the description from outside the editor (opening the modal on another
  gig) makes the effect write the new description, exactly when it differs.\<close>

lemma rte_effect_value: "rte_html (fst (rte_effect v r)) = v \<and> snd (rte_effect v r) = (rte_html r \<noteq> v)"
  by (simp add: rte_effect_def)

text \<open>While the 400 ms wait of a save runs, the open modal shows both footer buttons
  disabled and the label \<open>Publishing...\<close>; the completion closes the modal.\<close>

lemma publishing_view:
  assumes "isModalOpen ed"
  shows "\<exists>m. gig_modal_view (fst (handleSaveService_click fo ed s)) = Some m \<and>
    gm_publish_disabled m \<and> gm_cancel_disabled m \<and> gm_publish_label m = ''Publishing...''"
  using assms by (simp add: gig_modal_view_def handleSaveService_click_def)

lemma saved_view_closed: "gig_modal_view (fst (handleSaveService_done C job rnd now es)) = None"
  by (simp add: gig_modal_view_def handleSaveService_done_def Let_def)

text \<open>Every gig the editor saves is listed with the badge \<open>Live\<close>: the new card of a
  created gig, and every card with the edited id.\<close>

lemma publish_cards_live:
  "editingId ed = None \<Longrightarrow>
     agc_badge (last (gigs_list_view (snd (publishGig C rnd now (ed, s))))) = ''Live''"
  "editingId ed = Some eid \<Longrightarrow> c \<in> set (services (snd (publishGig C rnd now (ed, s)))) \<Longrightarrow>
     svc_id c = eid \<Longrightarrow> agc_badge (admin_gig_card c) = ''Live''"
  by (auto simp add: publishGig_services saved_services_def gigs_list_view_def admin_gig_card_def
      service_of_form_def merge_service_def finalize_form_def map_where_def Let_def)

text \<open>C24. The Delete button of an item of the gallery grid removes that URL from the list
  its media test selects (videos when the grid shows it as a video, images otherwise) and
  from no other list: the grid afterwards is the images followed by the videos with that
  URL filtered out of the selected list only, so the item stays visible exactly when it
  is also in the other list (an image URL with a video suffix cannot be deleted).\<close>

theorem gallery_delete_exact:
  assumes "gig_modal_view ed = Some m" and "(u, vid) \<in> set (gm_gallery m)"
  shows "\<exists>m'. gig_modal_view (deleteGalleryItem u ed) = Some m' \<and>
    map fst (gm_gallery m') =
      (if vid then f_images (formData ed) @ filter (\<lambda>x. x \<noteq> u) (f_videos (formData ed))
       else filter (\<lambda>x. x \<noteq> u) (f_images (formData ed)) @ f_videos (formData ed)) \<and>
    (u \<in> set (map fst (gm_gallery m'))) =
      (if vid then u \<in> set (f_images (formData ed)) else u \<in> set (f_videos (formData ed)))"
proof -
  have o: "isModalOpen ed" and v: "vid = isVideoMedia u"
    using assms by (auto simp add: gig_modal_view_def split: if_splits)
  obtain m' where m': "gig_modal_view (deleteGalleryItem u ed) = Some m'"
    using o by (simp add: gig_modal_view_def deleteGalleryItem_def Let_def)
  have g: "map fst (gm_gallery m') =
      (if vid then f_images (formData ed) @ filter (\<lambda>x. x \<noteq> u) (f_videos (formData ed))
       else filter (\<lambda>x. x \<noteq> u) (f_images (formData ed)) @ f_videos (formData ed))"
    using m' o v by (auto simp add: gig_modal_view_def deleteGalleryItem_def Let_def comp_def)
  have "(u \<in> set (map fst (gm_gallery m'))) =
      (if vid then u \<in> set (f_images (formData ed)) else u \<in> set (f_videos (formData ed)))"
    unfolding g by auto
  with m' g show ?thesis by blast
qed


section \<open>Properties of removal and of the description editor\<close>

text \<open>C23. The PDF, image and video delete buttons (\<open>removeMedia\<close>) and the feature
  delete button (\<open>removeFeature\<close>) remove exactly the element at the given index from
  their own list, keeping the elements before and after it in order, and change no
  other list of the form.\<close>

theorem remove_media_feature_spec:
  "form_field t (formData (removeMedia t i ed)) =
     take i (form_field t (formData ed)) @ drop (Suc i) (form_field t (formData ed)) \<and>
   (\<forall>t'. t' \<noteq> t \<longrightarrow> form_field t' (formData (removeMedia t i ed)) = form_field t' (formData ed)) \<and>
   f_features (formData (removeMedia t i ed)) = f_features (formData ed) \<and>
   f_features (formData (removeFeature i ed)) =
     take i (f_features (formData ed)) @ drop (Suc i) (f_features (formData ed)) \<and>
   (\<forall>t'. form_field t' (formData (removeFeature i ed)) = form_field t' (formData ed))"
proof -
  have "form_field t' (set_form_field t xs f) = (if t' = t then xs else form_field t' f)" for t' xs f
    by (cases t; cases t') simp_all
  moreover have "f_features (set_form_field t xs f) = f_features f" for xs f
    by (cases t) simp_all
  moreover have "form_field t' (f\<lparr>f_features := xs\<rparr>) = form_field t' f" for t' xs f
    by (cases t') simp_all
  ultimately show ?thesis
    by (simp add: removeMedia_def removeFeature_def remove_index_eq)
qed

text \<open>C25. The description editor never rewrites its own content in response to one of
  its own events (a toolbar command, typing or leaving the element), so the caret is
  not reset; and after any such event its content is the form's description, whatever
  the state before.\<close>

theorem description_editor_stable:
  "\<not> snd (description_event ex ev er) \<and>
   rte_html (snd (fst (description_event ex ev er))) = f_description (formData (fst (fst (description_event ex ev er))))"
  using rte_handle_result [of ex ev "snd er"]
  by (simp add: description_event_def editForm_def rte_effect_def split_def Let_def)

end
