(* ===== verification/Console.thy ===== *)
theory Console
  imports Store
begin

text \<open>
  The rest of the admin console of \<open>src/pages/AdminDashboard.tsx\<close>: the order queue
  (\<open>OrdersManagement\<close>: \<open>handleStatusUpdate\<close> with its e-mail notification through
  the form relay, \<open>getStatusStyle\<close>), the statistics of \<open>StatsOverview\<close> (active
  orders, revenue, recent orders), the site editor (\<open>handleUpdate\<close>,
  \<open>handleSeoUpdate\<close> and the timer that clears the saved flag), and the sidebar's
  active-link test and the console's routes. The notification's \<open>fetch\<close> is awaited
  after the store update, so its outcome (a parameter) can only add a console error.
\<close>

section \<open>Order queue\<close>

record order_queue =
  updatingId :: "string option"

definition status_upper :: "order_status \<Rightarrow> string" where
  "status_upper st = js_toUpperCase (order_status_name st)"

definition status_notification :: "order \<Rightarrow> order_status \<Rightarrow> (string \<times> string) list" where
  "status_notification od st =
     [(''subject'', ''Order Status Update: '' @ order_id od),
      (''clientName'', clientName od),
      (''clientEmail'', clientEmail od),
      (''newStatus'', status_upper st),
      (''message'', ''Hello '' @ clientName od @ '', your order for '' @ order_id od @
                    '' has been marked as '' @ status_upper st @ ''.'')]"

text \<open>
  \<open>handleStatusUpdate\<close> in its two phases, as the \<open>await\<close> of the notification splits
  it. The click marks the order as updating, writes the new orders to the store and,
  when the order exists (looked up in the orders of the render), issues the request;
  it returns the order it found. The completion logs the failure of a request that
  threw and clears the updating mark.
\<close>

definition handleStatusUpdate_click ::
  "codecs \<Rightarrow> string \<Rightarrow> order_status \<Rightarrow> order_queue \<times> store \<Rightarrow> order_queue \<times> store \<times> order option" where
  "handleStatusUpdate_click C orderId newStatus qs =
     (let (q, s) = qs;
          updated = map_where (\<lambda>od. order_id od = orderId) (\<lambda>od. od\<lparr>order_status := newStatus\<rparr>) (orders s);
          s1 = setOrders C updated s;
          found = find (\<lambda>od. order_id od = orderId) (orders s);
          s2 = (case found of
                  None \<Rightarrow> s1
                | Some od \<Rightarrow> s1\<lparr>world := send_post formspree_url (status_notification od newStatus) (world s1)\<rparr>)
      in (q\<lparr>updatingId := Some orderId\<rparr>, s2, found))"

definition handleStatusUpdate_done ::
  "order option \<Rightarrow> fetch_result \<Rightarrow> order_queue \<times> store \<Rightarrow> order_queue \<times> store" where
  "handleStatusUpdate_done found res qs =
     (let (q, s) = qs;
          s' = (if found \<noteq> None \<and> res = FetchThrows
                then s\<lparr>world := console_error ''Failed to send notification email'' (world s)\<rparr>
                else s)
      in (q\<lparr>updatingId := None\<rparr>, s'))"

definition handleStatusUpdate ::
  "codecs \<Rightarrow> string \<Rightarrow> order_status \<Rightarrow> fetch_result \<Rightarrow> order_queue \<times> store \<Rightarrow> order_queue \<times> store" where
  "handleStatusUpdate C orderId newStatus res qs =
     (let (q1, s1, found) = handleStatusUpdate_click C orderId newStatus qs
      in handleStatusUpdate_done found res (q1, s1))"

fun getStatusStyle :: "order_status \<Rightarrow> string" where
  "getStatusStyle Completed = ''bg-green-100 text-green-700 border-green-200''"
| "getStatusStyle Active = ''bg-blue-100 text-blue-700 border-blue-200''"
| "getStatusStyle Cancelled = ''bg-red-100 text-red-700 border-red-200''"
| "getStatusStyle Pending = ''bg-slate-100 text-slate-700 border-slate-200''"

text \<open>
  The queue as \<open>OrdersManagement\<close> renders it: the number of orders, one row per order
  (id, client, e-mail, amount, status and its style, and whether its status select is
  disabled, which it is while \<open>updatingId\<close> is that order's id), and the empty-queue
  message.
\<close>

record order_row =
  row_id :: string
  row_client :: string
  row_email :: string
  row_amount :: int
  row_status :: string
  row_style :: string
  row_disabled :: bool

definition order_row :: "order_queue \<Rightarrow> order \<Rightarrow> order_row" where
  "order_row q od =
     \<lparr>row_id = order_id od, row_client = clientName od, row_email = clientEmail od,
      row_amount = totalAmount od, row_status = order_status_name (order_status od),
      row_style = getStatusStyle (order_status od), row_disabled = (updatingId q = Some (order_id od))\<rparr>"

record orders_view =
  ov_total :: nat
  ov_rows :: "order_row list"
  ov_empty :: bool

definition OrdersManagement_view :: "order_queue \<Rightarrow> store \<Rightarrow> orders_view" where
  "OrdersManagement_view q s =
     \<lparr>ov_total = length (orders s), ov_rows = map (order_row q) (orders s), ov_empty = (orders s = [])\<rparr>"

section \<open>Statistics\<close>

definition activeOrders :: "order list \<Rightarrow> nat" where
  "activeOrders os = length (filter (\<lambda>od. order_status od = Active) os)"

text \<open>\<open>orders.reduce((acc, o) => acc + o.totalAmount, 0)\<close>.\<close>

definition totalRevenue :: "order list \<Rightarrow> int" where
  "totalRevenue os = foldl (\<lambda>acc od. acc + totalAmount od) 0 os"

definition recentOrders :: "order list \<Rightarrow> order list" where
  "recentOrders os = take 4 os"

definition status_badge :: "order_status \<Rightarrow> string" where
  "status_badge st = (if st = Completed then ''bg-green-100 text-green-700'' else ''bg-blue-100 text-blue-700'')"

record stats_view =
  sv_revenue :: int
  sv_active :: nat
  sv_recent :: "(string \<times> string \<times> int \<times> string \<times> string) list"

definition StatsOverview :: "store \<Rightarrow> stats_view" where
  "StatsOverview s =
     \<lparr>sv_revenue = totalRevenue (orders s), sv_active = activeOrders (orders s),
      sv_recent = map (\<lambda>od. (clientName od, createdAt od, totalAmount od, order_status_name (order_status od),
                            status_badge (order_status od))) (recentOrders (orders s))\<rparr>"

section \<open>Site editor\<close>

record site_editor =
  success :: bool

datatype settings_update = UpdateName string | UpdateLogo string

datatype seo_update = UpdateMetaTitle string | UpdateMetaDescription string

fun apply_settings_update :: "settings_update \<Rightarrow> site_settings \<Rightarrow> site_settings" where
  "apply_settings_update (UpdateName n) st = st\<lparr>site_name := n\<rparr>"
| "apply_settings_update (UpdateLogo l) st = st\<lparr>logo := l\<rparr>"

fun apply_seo_update :: "seo_update \<Rightarrow> seo_settings \<Rightarrow> seo_settings" where
  "apply_seo_update (UpdateMetaTitle t) so = so\<lparr>metaTitle := t\<rparr>"
| "apply_seo_update (UpdateMetaDescription d) so = so\<lparr>metaDescription := d\<rparr>"

definition handleUpdate ::
  "codecs \<Rightarrow> settings_update \<Rightarrow> site_editor \<times> store \<Rightarrow> site_editor \<times> store" where
  "handleUpdate C u es =
     ((fst es)\<lparr>success := True\<rparr>,
      setSettings C (apply_settings_update u (settings (snd es))) (snd es))"

definition handleSeoUpdate ::
  "codecs \<Rightarrow> seo_update \<Rightarrow> site_editor \<times> store \<Rightarrow> site_editor \<times> store" where
  "handleSeoUpdate C u es =
     ((fst es)\<lparr>success := True\<rparr>,
      setSettings C ((settings (snd es))\<lparr>seo := apply_seo_update u (seo (settings (snd es)))\<rparr>) (snd es))"

text \<open>The 2 s timer each update starts.\<close>

definition success_timeout :: "site_editor \<Rightarrow> site_editor" where
  "success_timeout e = e\<lparr>success := False\<rparr>"

text \<open>What \<open>SiteEditor\<close> shows (lines 732 to 768): the \<open>Changes Saved\<close> badge while
  \<open>success\<close> holds and the four inputs with the store's settings.\<close>

record site_editor_view =
  sev_saved :: bool
  sev_name :: string
  sev_logo :: string
  sev_metaTitle :: string
  sev_metaDescription :: string

definition SiteEditor_view :: "site_editor \<Rightarrow> store \<Rightarrow> site_editor_view" where
  "SiteEditor_view e s =
     \<lparr>sev_saved = success e, sev_name = site_name (settings s), sev_logo = logo (settings s),
      sev_metaTitle = metaTitle (seo (settings s)), sev_metaDescription = metaDescription (seo (settings s))\<rparr>"

section \<open>Navigation of the console\<close>

definition sidebar_target :: "string \<Rightarrow> string" where
  "sidebar_target to = ''/admin'' @ to"

definition sidebar_isActive :: "string \<Rightarrow> string \<Rightarrow> bool" where
  "sidebar_isActive pathname to \<longleftrightarrow> pathname = ''/admin'' @ (if to = ''/'' then [] else to)"

definition sidebar_links :: "string list" where
  "sidebar_links = [''/'', ''/services'', ''/orders'', ''/analytics'', ''/settings'']"

datatype admin_page = StatsPage | ServicesPage | OrdersPage | AnalyticsPage | SettingsPage

text \<open>The nested \<open>Routes\<close> under \<open>/admin/*\<close>: the path below \<open>/admin\<close>.\<close>

definition admin_route :: "string \<Rightarrow> admin_page option" where
  "admin_route p =
     (if p = ''/'' then Some StatsPage else if p = ''/services'' then Some ServicesPage
      else if p = ''/orders'' then Some OrdersPage else if p = ''/analytics'' then Some AnalyticsPage
      else if p = ''/settings'' then Some SettingsPage else None)"

section \<open>Lemmas\<close>

lemma handleStatusUpdate_eq:
  "handleStatusUpdate C orderId newStatus res (q, s) =
     (let updated = map_where (\<lambda>od. order_id od = orderId) (\<lambda>od. od\<lparr>order_status := newStatus\<rparr>) (orders s);
          s1 = setOrders C updated s;
          s2 = (case find (\<lambda>od. order_id od = orderId) (orders s) of
                  None \<Rightarrow> s1
                | Some od \<Rightarrow>
                    (let w = send_post formspree_url (status_notification od newStatus) (world s1)
                     in s1\<lparr>world := (if res = FetchThrows
                                      then console_error ''Failed to send notification email'' w
                                      else w)\<rparr>))
      in (q\<lparr>updatingId := None\<rparr>, s2))"
  by (simp add: handleStatusUpdate_def handleStatusUpdate_click_def handleStatusUpdate_done_def Let_def
      split: option.splits)

lemma handleStatusUpdate_orders:
  "orders (snd (handleStatusUpdate C oid st res (q, s))) =
   map_where (\<lambda>od. order_id od = oid) (\<lambda>od. od\<lparr>order_status := st\<rparr>) (orders s)"
  by (simp add: handleStatusUpdate_eq setOrders_def Let_def split: option.splits)

lemma totalRevenue_foldl: "foldl (\<lambda>acc od. acc + totalAmount od) a os = a + sum_list (map totalAmount os)"
  by (induction os arbitrary: a) (simp_all add: algebra_simps)

lemma click_orders:
  "orders (fst (snd (handleStatusUpdate_click C oid st (q, s)))) =
   map_where (\<lambda>od. order_id od = oid) (\<lambda>od. od\<lparr>order_status := st\<rparr>) (orders s)"
  by (simp add: handleStatusUpdate_click_def setOrders_def Let_def split: option.splits)

lemma click_queue [simp]: "updatingId (fst (handleStatusUpdate_click C oid st (q, s))) = Some oid"
  by (simp add: handleStatusUpdate_click_def Let_def)

lemma done_orders [simp]: "orders (snd (handleStatusUpdate_done od r (q, s))) = orders s"
  by (simp add: handleStatusUpdate_done_def Let_def)

lemma done_queue [simp]: "updatingId (fst (handleStatusUpdate_done od r (q, s))) = None"
  by (simp add: handleStatusUpdate_done_def Let_def)

section \<open>Properties of the admin console\<close>

text \<open>C26. Moving an order to a new status changes the status of exactly the orders with that id, from whatever status they had (there is no transition guard), leaves every other field and every other order unchanged, and clears the updating flag.\<close>

theorem status_update_orders:
  "length (orders (snd (handleStatusUpdate C oid st res (q, s)))) = length (orders s) \<and>
   (\<forall>i < length (orders s). orders (snd (handleStatusUpdate C oid st res (q, s))) ! i =
      (if order_id (orders s ! i) = oid then (orders s ! i)\<lparr>order_status := st\<rparr> else orders s ! i)) \<and>
   updatingId (fst (handleStatusUpdate C oid st res (q, s))) = None"
proof -
  have "updatingId (fst (handleStatusUpdate C oid st res (q, s))) = None"
    by (simp add: handleStatusUpdate_def handleStatusUpdate_click_def handleStatusUpdate_done_def Let_def)
  then show ?thesis by (simp add: handleStatusUpdate_orders map_where_nth)
qed

text \<open>C27. A status change posts exactly one notification to the form relay, with the order's client name and e-mail and the new status in upper case, when the order exists and none otherwise; the outcome of that request never changes the stored orders.\<close>

theorem status_update_notification:
  "outbox (world (snd (handleStatusUpdate C oid st res (q, s)))) =
     outbox (world s) @
     (case find (\<lambda>od. order_id od = oid) (orders s) of
        None \<Rightarrow> []
      | Some od \<Rightarrow> [\<lparr>post_url = formspree_url, post_body = status_notification od st\<rparr>]) \<and>
   orders (snd (handleStatusUpdate C oid st res (q, s))) =
     orders (snd (handleStatusUpdate C oid st res' (q, s)))"
  by (simp add: handleStatusUpdate_eq setOrders_def outbox_saveToDB Let_def split: option.splits)

text \<open>C28. A status change never changes the total revenue shown on the dashboard: cancelling an order keeps its amount in the total.\<close>

theorem status_update_revenue:
  "totalRevenue (orders (snd (handleStatusUpdate C oid st res (q, s)))) = totalRevenue (orders s)"
proof -
  have "map totalAmount (map_where (\<lambda>od. order_id od = oid) (\<lambda>od. od\<lparr>order_status := st\<rparr>) (orders s)) =
        map totalAmount (orders s)"
    by (rule map_where_map) simp
  then show ?thesis by (simp add: handleStatusUpdate_orders totalRevenue_def totalRevenue_foldl)
qed

text \<open>The dashboard's revenue, computed with reduce from zero, is the sum of the amounts of all orders, whatever their status.\<close>

theorem totalRevenue_eq_sum: "totalRevenue os = sum_list (map totalAmount os)"
  by (simp add: totalRevenue_def totalRevenue_foldl)

text \<open>Each site-editor input changes exactly its own field of the settings (name, logo, meta title or meta description) and keeps all others, and raises the saved flag.\<close>

theorem site_editor_frame:
  "settings (snd (handleSeoUpdate C (UpdateMetaTitle t) (e, s))) =
     (settings s)\<lparr>seo := (seo (settings s))\<lparr>metaTitle := t\<rparr>\<rparr> \<and>
   settings (snd (handleSeoUpdate C (UpdateMetaDescription d) (e, s))) =
     (settings s)\<lparr>seo := (seo (settings s))\<lparr>metaDescription := d\<rparr>\<rparr> \<and>
   settings (snd (handleUpdate C (UpdateName n) (e, s))) = (settings s)\<lparr>site_name := n\<rparr> \<and>
   settings (snd (handleUpdate C (UpdateLogo l) (e, s))) = (settings s)\<lparr>logo := l\<rparr> \<and>
   success (fst (handleUpdate C u (e, s))) \<and> success (fst (handleSeoUpdate C v (e, s)))"
  by (simp add: handleSeoUpdate_def handleUpdate_def setSettings_def)

text \<open>C29. Two status updates of different orders issued while the first notification is in flight both take effect, but the queue tracks one updating order only: after the second click only the second order's select is disabled (the first is enabled again while its request is pending), and when the first request completes the second order's select is enabled although its request is still pending.\<close>

theorem concurrent_status_updates:
  assumes "a \<noteq> b"
    and "handleStatusUpdate_click C a sa (q, s) = (q1, s1, fa)"
    and "handleStatusUpdate_click C b sb (q1, s1) = (q2, s2, fb)"
    and "handleStatusUpdate_done fa ra (q2, s2) = (q3, s3)"
  shows "row_disabled (order_row q2 od) = (order_id od = b) \<and>
    \<not> row_disabled (order_row q3 od) \<and>
    orders s3 = map (\<lambda>od. if order_id od = a then od\<lparr>order_status := sa\<rparr>
                         else if order_id od = b then od\<lparr>order_status := sb\<rparr> else od) (orders s)"
proof -
  have q2: "updatingId q2 = Some b" using click_queue [of C b sb q1 s1] assms(3) by simp
  have q3: "updatingId q3 = None" using done_queue [of fa ra q2 s2] assms(4) by simp
  have "orders s3 = orders s2" using done_orders [of fa ra q2 s2] assms(4) by simp
  also have "\<dots> = map_where (\<lambda>od. order_id od = b) (\<lambda>od. od\<lparr>order_status := sb\<rparr>) (orders s1)"
    using click_orders [of C b sb q1 s1] assms(3) by simp
  also have "orders s1 = map_where (\<lambda>od. order_id od = a) (\<lambda>od. od\<lparr>order_status := sa\<rparr>) (orders s)"
    using click_orders [of C a sa q s] assms(2) by simp
  finally have "orders s3 = map (\<lambda>od. if order_id od = a then od\<lparr>order_status := sa\<rparr>
                         else if order_id od = b then od\<lparr>order_status := sb\<rparr> else od) (orders s)"
    using assms(1) by (simp add: map_where_def)
  with q2 q3 show ?thesis by (auto simp add: order_row_def)
qed


section \<open>Properties of the site editor's view\<close>

lemma settings_handleUpdate [simp]:
  "settings (snd (handleUpdate C u (e, s))) = apply_settings_update u (settings s)"
  by (simp add: handleUpdate_def setSettings_def)

text \<open>An input of the site editor shows the typed value and the badge. Each update starts
  its own 2 s timer and none is cleared: after two quick updates, the timer of the first
  hides the badge although the second change was made less than 2 s before.\<close>

lemma site_editor_shows_update:
  "sev_name (SiteEditor_view (fst (handleUpdate C (UpdateName n) (e, s))) (snd (handleUpdate C (UpdateName n) (e, s)))) = n \<and>
   sev_saved (SiteEditor_view (fst (handleUpdate C u (e, s))) (snd (handleUpdate C u (e, s))))"
  using settings_handleUpdate [of C "UpdateName n" e s]
  by (simp add: SiteEditor_view_def handleUpdate_def del: settings_handleUpdate)

lemma site_editor_first_timer_hides_badge:
  assumes "handleUpdate C u1 (e, s) = (e1, s1)" and "handleUpdate C u2 (e1, s1) = (e2, s2)"
  shows "\<not> sev_saved (SiteEditor_view (success_timeout e2) s2) \<and>
    settings s2 = apply_settings_update u2 (apply_settings_update u1 (settings s))"
  using assms settings_handleUpdate [of C u1 e s] settings_handleUpdate [of C u2 e1 s1]
  by (simp add: SiteEditor_view_def success_timeout_def)

end
