(* ===== verification/Checkout.thy ===== *)
theory Checkout
  imports Store
begin

text \<open>
  The checkout page, \<open>src/pages/Checkout.tsx\<close>: the service looked up by the route's
  id, the client form prefilled from the session (and refilled by the effect when the
  session changes), \<open>handleOrder\<close> and what the page renders. \<open>handleOrder\<close> posts
  the order to the form relay and records it in the store only when the relay answers
  with \<open>ok\<close>; the outcome of the \<open>fetch\<close>, the random number of the order id
  (\<open>Math.floor(Math.random() * 10000)\<close>) and the ISO time stamp are parameters.
\<close>

section \<open>Page state\<close>

record checkout_form =
  co_name :: string
  co_email :: string
  co_details :: string

record checkout =
  co_form :: checkout_form
  isSuccess :: bool
  isSubmitting :: bool
  co_error :: string

definition checkout_service :: "string \<Rightarrow> store \<Rightarrow> service option" where
  "checkout_service sid s = find (\<lambda>g. svc_id g = sid) (services s)"

definition checkout_init :: "store \<Rightarrow> checkout" where
  "checkout_init s =
     \<lparr>co_form = \<lparr>co_name = (case currentUser s of Some u \<Rightarrow> user_name u | None \<Rightarrow> []),
                 co_email = (case currentUser s of Some u \<Rightarrow> user_email u | None \<Rightarrow> []),
                 co_details = []\<rparr>,
      isSuccess = False, isSubmitting = False, co_error = []\<rparr>"

text \<open>The effect on \<open>currentUser\<close>: a logged-in user's name and e-mail replace the form's.\<close>

definition checkout_user_effect :: "store \<Rightarrow> checkout \<Rightarrow> checkout" where
  "checkout_user_effect s c =
     (case currentUser s of
        Some u \<Rightarrow> c\<lparr>co_form := (co_form c)\<lparr>co_name := user_name u, co_email := user_email u\<rparr>\<rparr>
      | None \<Rightarrow> c)"

datatype checkout_field = NameField | EmailField | DetailsField

fun checkout_edit :: "checkout_field \<Rightarrow> string \<Rightarrow> checkout \<Rightarrow> checkout" where
  "checkout_edit NameField v c = c\<lparr>co_form := (co_form c)\<lparr>co_name := v\<rparr>\<rparr>"
| "checkout_edit EmailField v c = c\<lparr>co_form := (co_form c)\<lparr>co_email := v\<rparr>\<rparr>"
| "checkout_edit DetailsField v c = c\<lparr>co_form := (co_form c)\<lparr>co_details := v\<rparr>\<rparr>"

section \<open>Placing the order\<close>

definition order_request :: "service \<Rightarrow> checkout_form \<Rightarrow> (string \<times> string) list" where
  "order_request g f =
     [(''subject'', ''New Order: '' @ title g), (''serviceTitle'', title g),
      (''servicePrice'', int_to_string (price g)), (''clientName'', co_name f),
      (''clientEmail'', co_email f), (''projectDetails'', co_details f)]"

definition new_order :: "service \<Rightarrow> checkout_form \<Rightarrow> nat \<Rightarrow> string \<Rightarrow> order" where
  "new_order g f rnd now =
     \<lparr>order_id = ''ORD-'' @ nat_to_string rnd, serviceId = svc_id g, clientName = co_name f,
      clientEmail = co_email f, order_status = Pending, totalAmount = price g, createdAt = now,
      details = co_details f\<rparr>"

definition handleOrder ::
  "codecs \<Rightarrow> service \<Rightarrow> fetch_result \<Rightarrow> nat \<Rightarrow> string \<Rightarrow> checkout \<times> store \<Rightarrow> checkout \<times> store" where
  "handleOrder C g res rnd now cs =
     (let (c, s) = cs;
          c1 = c\<lparr>isSubmitting := True, co_error := []\<rparr>;
          s1 = s\<lparr>world := send_post formspree_url (order_request g (co_form c)) (world s)\<rparr>
      in case res of
           FetchOk \<Rightarrow>
             (c1\<lparr>isSuccess := True, isSubmitting := False\<rparr>,
              setOrders C (orders s1 @ [new_order g (co_form c) rnd now]) s1)
         | FetchNotOk \<Rightarrow>
             (c1\<lparr>co_error := ''Order processing failed. Please check your network.'', isSubmitting := False\<rparr>, s1)
         | FetchThrows \<Rightarrow>
             (c1\<lparr>co_error := ''Connection error. Could not reach server.'', isSubmitting := False\<rparr>, s1))"

section \<open>What the page shows\<close>

text \<open>
  The three screens: the service is not found; the order was placed (with the e-mail
  the receipt goes to); the form with the order summary (title, category, first image,
  the price shown on the button and in the summary, the error and the submit label).
\<close>

datatype checkout_view =
    ServiceNotFound
  | OrderPlaced string
  | CheckoutForm string string "string option" int string string

definition checkout_button :: "checkout \<Rightarrow> service \<Rightarrow> string" where
  "checkout_button c g =
     (if isSubmitting c then ''Authenticating Payment...''
      else ''Pay & Start Project ($'' @ int_to_string (price g) @ '')'')"

definition checkout_view :: "string \<Rightarrow> checkout \<Rightarrow> store \<Rightarrow> checkout_view" where
  "checkout_view sid c s =
     (case checkout_service sid s of
        None \<Rightarrow> ServiceNotFound
      | Some g \<Rightarrow>
          (if isSuccess c then OrderPlaced (co_email (co_form c))
           else CheckoutForm (title g) (category g) (js_at (images g) 0) (price g) (co_error c)
                  (checkout_button c g)))"

section \<open>Lemmas\<close>

lemma handleOrder_orders:
  "orders (snd (handleOrder C g res rnd now (c, s))) =
   (if res = FetchOk then orders s @ [new_order g (co_form c) rnd now] else orders s)"
  by (cases res) (simp_all add: handleOrder_def setOrders_def)

section \<open>Properties of the checkout\<close>

text \<open>C30. When the relay answers ok, the checkout appends exactly one pending order for the service, with the service's price at that moment as its amount, the form's client name and e-mail and the id ORD- followed by the random number, shows the success screen, and has posted the order request.\<close>

theorem order_placed_spec:
  "orders (snd (handleOrder C g FetchOk rnd now (c, s))) = orders s @ [new_order g (co_form c) rnd now] \<and>
   totalAmount (new_order g (co_form c) rnd now) = price g \<and>
   serviceId (new_order g (co_form c) rnd now) = svc_id g \<and>
   order_status (new_order g (co_form c) rnd now) = Pending \<and>
   clientName (new_order g (co_form c) rnd now) = co_name (co_form c) \<and>
   clientEmail (new_order g (co_form c) rnd now) = co_email (co_form c) \<and>
   order_id (new_order g (co_form c) rnd now) = ''ORD-'' @ nat_to_string rnd \<and>
   isSuccess (fst (handleOrder C g FetchOk rnd now (c, s))) \<and>
   outbox (world (snd (handleOrder C g FetchOk rnd now (c, s)))) =
     outbox (world s) @ [\<lparr>post_url = formspree_url, post_body = order_request g (co_form c)\<rparr>]"
  by (simp add: handleOrder_def setOrders_def outbox_saveToDB new_order_def)

text \<open>C31. When the relay answers with an error or the request fails, no order is recorded and no table or storage entry changes; the page shows an error message and leaves the submitting state, and the request was still posted.\<close>

theorem order_failed_spec:
  assumes "res \<noteq> FetchOk"
  shows "orders (snd (handleOrder C g res rnd now (c, s))) = orders s \<and>
    services (snd (handleOrder C g res rnd now (c, s))) = services s \<and>
    users (snd (handleOrder C g res rnd now (c, s))) = users s \<and>
    items (world (snd (handleOrder C g res rnd now (c, s)))) = items (world s) \<and>
    isSuccess (fst (handleOrder C g res rnd now (c, s))) = isSuccess c \<and>
    co_error (fst (handleOrder C g res rnd now (c, s))) \<noteq> [] \<and>
    \<not> isSubmitting (fst (handleOrder C g res rnd now (c, s))) \<and>
    outbox (world (snd (handleOrder C g res rnd now (c, s)))) =
      outbox (world s) @ [\<lparr>post_url = formspree_url, post_body = order_request g (co_form c)\<rparr>]"
  using assms by (cases res) (simp_all add: handleOrder_def send_post_def)

text \<open>For a logged-in user the checkout form starts with, and is refilled by the session effect with, that user's name and e-mail.\<close>

theorem checkout_prefill:
  assumes "currentUser s = Some u"
  shows "co_name (co_form (checkout_init s)) = user_name u \<and>
    co_email (co_form (checkout_init s)) = user_email u \<and>
    co_form (checkout_user_effect s c) = (co_form c)\<lparr>co_name := user_name u, co_email := user_email u\<rparr>"
  using assms by (simp add: checkout_init_def checkout_user_effect_def)

end
