(* ===== verification/Pages.thy ===== *)
theory Pages
  imports Store Gigs
begin

text \<open>
  The visitor-facing pages: the login and sign-up forms (\<open>src/pages/Login.tsx\<close>,
  \<open>src/pages/SignUp.tsx\<close>), which post an audit record to the form relay and then call
  the store, whatever the relay answered; the contact form (\<open>src/pages/Contact.tsx\<close>);
  the gig lists of \<open>src/pages/Services.tsx\<close> and \<open>src/pages/Home.tsx\<close>; the gallery
  and sidebar of \<open>src/pages/ServiceDetail.tsx\<close>; and the navigation bar
  (\<open>src/components/Navbar.tsx\<close>) with its mobile menu; and the footer
  (\<open>src/components/Footer.tsx\<close>). A page's render is modelled by the data it shows:
  a function from the store (and the page's own state) to a view value. The forms are
  modelled whole: their state, input handlers, the submission the browser allows, the
  handler, and the screen shown afterwards.
\<close>

section \<open>Login and sign-up\<close>

record auth_form =
  af_error :: string
  af_submitting :: bool

definition auth_form_init :: auth_form where
  "auth_form_init = \<lparr>af_error = [], af_submitting = False\<rparr>"

text \<open>An authenticated visitor is redirected: to the console when an administrator.\<close>

definition login_redirect :: "store \<Rightarrow> string option" where
  "login_redirect s = (if isAuthenticated s then Some (if isAdmin s then ''/admin'' else ''/'') else None)"

definition signup_redirect :: "store \<Rightarrow> string option" where
  "signup_redirect s = (if isAuthenticated s then Some ''/'' else None)"

definition login_audit :: "string \<Rightarrow> string \<Rightarrow> (string \<times> string) list" where
  "login_audit email ts =
     [(''subject'', ''Login Access Attempt''), (''emailAttempted'', email), (''timestamp'', ts)]"

definition Login_handleSubmit ::
  "codecs \<Rightarrow> string \<Rightarrow> string \<Rightarrow> fetch_result \<Rightarrow> string \<Rightarrow> auth_form \<times> store \<Rightarrow> auth_form \<times> store" where
  "Login_handleSubmit C email password res ts fs =
     (let (f, s) = fs;
          f1 = f\<lparr>af_submitting := True, af_error := []\<rparr>;
          s1 = s\<lparr>world := send_post formspree_url (login_audit email ts) (world s)\<rparr>;
          (ok, s2) = login C email password s1;
          msg = (if res = FetchThrows then ''Invalid email or password.''
                 else ''Invalid email or password. Please try again.'')
      in (f1\<lparr>af_error := (if ok then af_error f1 else msg), af_submitting := False\<rparr>, s2))"

definition signup_audit :: "string \<Rightarrow> string \<Rightarrow> string \<Rightarrow> (string \<times> string) list" where
  "signup_audit name email ts =
     [(''subject'', ''New User Registration Attempt''), (''userName'', name), (''userEmail'', email),
      (''timestamp'', ts)]"

definition SignUp_handleSubmit ::
  "codecs \<Rightarrow> string \<Rightarrow> string \<Rightarrow> string \<Rightarrow> fetch_result \<Rightarrow> string \<Rightarrow> nat \<Rightarrow>
   auth_form \<times> store \<Rightarrow> auth_form \<times> store" where
  "SignUp_handleSubmit C name email password res ts now fs =
     (let (f, s) = fs;
          f1 = f\<lparr>af_submitting := True, af_error := []\<rparr>;
          s1 = s\<lparr>world := send_post formspree_url (signup_audit name email ts) (world s)\<rparr>;
          (ok, s2) = signup C name email password now s1;
          msg = (if res = FetchThrows then ''Registration failed. Please try again.''
                 else ''Email already exists. Try logging in.'')
      in (f1\<lparr>af_error := (if ok then af_error f1 else msg), af_submitting := False\<rparr>, s2))"

section \<open>The login and sign-up screens\<close>

text \<open>The whole state of \<open>Login\<close> (lines 12 to 15) and \<open>SignUp\<close> (lines 11 to 15): the
  inputs and the \<open>auth_form\<close> part that \<open>handleSubmit\<close> changes. The browser submits
  a form only when its constraints hold and its submit button is enabled (an implicit
  submission by Enter is blocked by a disabled default button too): every input is
  \<open>required\<close>, and the sign-up password has \<open>minLength={6}\<close>. The format check of
  \<open>type="email"\<close> is not modelled: the e-mail is only required to be non-empty.\<close>

record login_page =
  lp_email :: string
  lp_password :: string
  lp_form :: auth_form

definition login_page_init :: login_page where
  "login_page_init = \<lparr>lp_email = [], lp_password = [], lp_form = auth_form_init\<rparr>"

datatype login_field = LoginEmail | LoginPassword

fun login_onChange :: "login_field \<Rightarrow> string \<Rightarrow> login_page \<Rightarrow> login_page" where
  "login_onChange LoginEmail v lp = lp\<lparr>lp_email := v\<rparr>"
| "login_onChange LoginPassword v lp = lp\<lparr>lp_password := v\<rparr>"

definition login_can_submit :: "login_page \<Rightarrow> bool" where
  "login_can_submit lp \<longleftrightarrow> \<not> af_submitting (lp_form lp) \<and> lp_email lp \<noteq> [] \<and> lp_password lp \<noteq> []"

definition login_submit :: "codecs \<Rightarrow> fetch_result \<Rightarrow> string \<Rightarrow> login_page \<times> store \<Rightarrow> login_page \<times> store" where
  "login_submit C res ts ps =
     (let (lp, s) = ps
      in if \<not> login_can_submit lp then (lp, s)
         else (let (f', s') = Login_handleSubmit C (lp_email lp) (lp_password lp) res ts (lp_form lp, s)
               in (lp\<lparr>lp_form := f'\<rparr>, s')))"

record signup_page =
  sp_name :: string
  sp_email :: string
  sp_password :: string
  sp_form :: auth_form

definition signup_page_init :: signup_page where
  "signup_page_init = \<lparr>sp_name = [], sp_email = [], sp_password = [], sp_form = auth_form_init\<rparr>"

datatype signup_field = SignUpName | SignUpEmail | SignUpPassword

fun signup_onChange :: "signup_field \<Rightarrow> string \<Rightarrow> signup_page \<Rightarrow> signup_page" where
  "signup_onChange SignUpName v sp = sp\<lparr>sp_name := v\<rparr>"
| "signup_onChange SignUpEmail v sp = sp\<lparr>sp_email := v\<rparr>"
| "signup_onChange SignUpPassword v sp = sp\<lparr>sp_password := v\<rparr>"

definition signup_can_submit :: "signup_page \<Rightarrow> bool" where
  "signup_can_submit sp \<longleftrightarrow>
     \<not> af_submitting (sp_form sp) \<and> sp_name sp \<noteq> [] \<and> sp_email sp \<noteq> [] \<and> 6 \<le> length (sp_password sp)"

definition signup_submit ::
  "codecs \<Rightarrow> fetch_result \<Rightarrow> string \<Rightarrow> nat \<Rightarrow> signup_page \<times> store \<Rightarrow> signup_page \<times> store" where
  "signup_submit C res ts now ps =
     (let (sp, s) = ps
      in if \<not> signup_can_submit sp then (sp, s)
         else (let (f', s') = SignUp_handleSubmit C (sp_name sp) (sp_email sp) (sp_password sp) res ts now (sp_form sp, s)
               in (sp\<lparr>sp_form := f'\<rparr>, s')))"

text \<open>What either page shows: the redirect of an authenticated visitor, or the form with
  the error box (\<open>{error && ...}\<close>), the submit button's state and label, and the
  links under the form.\<close>

record auth_view =
  av_error :: "string option"
  av_disabled :: bool
  av_label :: string
  av_links :: "(string \<times> string) list"

datatype auth_screen = AuthRedirect string | AuthForm auth_view

definition auth_view :: "auth_form \<Rightarrow> string \<Rightarrow> string \<Rightarrow> (string \<times> string) list \<Rightarrow> auth_view" where
  "auth_view f busy idle links =
     \<lparr>av_error = (if af_error f \<noteq> [] then Some (af_error f) else None),
      av_disabled = af_submitting f,
      av_label = (if af_submitting f then busy else idle), av_links = links\<rparr>"

definition login_links :: "(string \<times> string) list" where
  "login_links = [(''Create an Account'', ''/signup''), (''Contact Support'', ''/contact'')]"

definition Login_view :: "login_page \<Rightarrow> store \<Rightarrow> auth_screen" where
  "Login_view lp s =
     (case login_redirect s of
        Some r \<Rightarrow> AuthRedirect r
      | None \<Rightarrow> AuthForm (auth_view (lp_form lp) ''Verifying...'' ''Sign In'' login_links))"

definition SignUp_view :: "signup_page \<Rightarrow> store \<Rightarrow> auth_screen" where
  "SignUp_view sp s =
     (case signup_redirect s of
        Some r \<Rightarrow> AuthRedirect r
      | None \<Rightarrow> AuthForm (auth_view (sp_form sp) ''Creating Account...'' ''Create Account''
                          [(''Log In'', ''/login'')]))"

section \<open>Contact form\<close>

record contact_form =
  ct_name :: string
  ct_email :: string
  ct_details :: string

record contact =
  submitted :: bool
  ct_submitting :: bool
  ct_form :: contact_form
  ct_error :: string

definition contact_request :: "contact_form \<Rightarrow> (string \<times> string) list" where
  "contact_request f =
     [(''subject'', ''New Contact Inquiry - Prithvi Creation''), (''name'', ct_name f),
      (''email'', ct_email f), (''details'', ct_details f)]"

definition Contact_handleSubmit :: "fetch_result \<Rightarrow> contact \<times> browser \<Rightarrow> contact \<times> browser" where
  "Contact_handleSubmit res cb =
     (let (c, b) = cb;
          c1 = c\<lparr>ct_submitting := True, ct_error := []\<rparr>;
          b1 = send_post formspree_url (contact_request (ct_form c)) b
      in case res of
           FetchOk \<Rightarrow> (c1\<lparr>submitted := True, ct_submitting := False\<rparr>, b1)
         | FetchNotOk \<Rightarrow> (c1\<lparr>ct_error := ''Something went wrong. Please try again later.'', ct_submitting := False\<rparr>, b1)
         | FetchThrows \<Rightarrow> (c1\<lparr>ct_error := ''Connection error. Please check your internet.'', ct_submitting := False\<rparr>, b1))"

text \<open>The rest of \<open>Contact\<close>: the initial state (lines 6 to 9), the inputs (lines 100,
  111, 121), the submission the browser allows (all three fields are \<open>required\<close>, the
  button is disabled while sending) and the two screens: the thank-you card with the
  name and e-mail of the form, or the form with its error and button.\<close>

definition contact_init :: contact where
  "contact_init = \<lparr>submitted = False, ct_submitting = False,
     ct_form = \<lparr>ct_name = [], ct_email = [], ct_details = []\<rparr>, ct_error = []\<rparr>"

datatype contact_field = ContactName | ContactEmail | ContactDetails

fun contact_onChange :: "contact_field \<Rightarrow> string \<Rightarrow> contact \<Rightarrow> contact" where
  "contact_onChange ContactName v c = c\<lparr>ct_form := (ct_form c)\<lparr>ct_name := v\<rparr>\<rparr>"
| "contact_onChange ContactEmail v c = c\<lparr>ct_form := (ct_form c)\<lparr>ct_email := v\<rparr>\<rparr>"
| "contact_onChange ContactDetails v c = c\<lparr>ct_form := (ct_form c)\<lparr>ct_details := v\<rparr>\<rparr>"

definition contact_can_submit :: "contact \<Rightarrow> bool" where
  "contact_can_submit c \<longleftrightarrow>
     \<not> ct_submitting c \<and> ct_name (ct_form c) \<noteq> [] \<and> ct_email (ct_form c) \<noteq> [] \<and> ct_details (ct_form c) \<noteq> []"

definition contact_submit :: "fetch_result \<Rightarrow> contact \<times> browser \<Rightarrow> contact \<times> browser" where
  "contact_submit res cb = (if contact_can_submit (fst cb) then Contact_handleSubmit res cb else cb)"

datatype contact_screen =
  ContactThanks string string
| ContactFormScreen "string option" bool string

definition Contact_view :: "contact \<Rightarrow> contact_screen" where
  "Contact_view c =
     (if submitted c then ContactThanks (ct_name (ct_form c)) (ct_email (ct_form c))
      else ContactFormScreen (if ct_error c \<noteq> [] then Some (ct_error c) else None) (ct_submitting c)
             (if ct_submitting c then ''Sending...'' else ''Send Inquiry''))"

section \<open>Gig lists\<close>

text \<open>A gig card: its link, first image, category, title and price.\<close>

record gig_card =
  card_link :: string
  card_image :: "string option"
  card_category :: string
  card_title :: string
  card_price :: int

definition gig_card :: "service \<Rightarrow> gig_card" where
  "gig_card g =
     \<lparr>card_link = ''/service/'' @ svc_id g, card_image = js_at (images g) 0,
      card_category = category g, card_title = title g, card_price = price g\<rparr>"

definition services_page :: "store \<Rightarrow> gig_card list" where
  "services_page s = map gig_card (filter (\<lambda>g. svc_status g = Published) (services s))"

definition home_featured :: "store \<Rightarrow> gig_card list" where
  "home_featured s = map gig_card (take 3 (services s))"

section \<open>Service detail\<close>

definition detail_isVideo :: "string \<Rightarrow> bool" where
  "detail_isVideo url \<longleftrightarrow>
     js_startsWith url ''data:video'' \<or> js_endsWith (js_toLowerCase url) ''.mp4'' \<or>
     js_endsWith (js_toLowerCase url) ''.webm'' \<or> js_endsWith (js_toLowerCase url) ''.mov''"

definition allMedia :: "service \<Rightarrow> string list" where
  "allMedia g = images g @ videos g"

text \<open>\<open>allMedia[activeMediaIndex] || allMedia[0]\<close>: an empty string is falsy too.\<close>

definition activeMediaUrl :: "service \<Rightarrow> nat \<Rightarrow> string option" where
  "activeMediaUrl g idx =
     (case js_at (allMedia g) idx of
        Some u \<Rightarrow> (if u \<noteq> [] then Some u else js_at (allMedia g) 0)
      | None \<Rightarrow> js_at (allMedia g) 0)"

definition activeIsVideo :: "service \<Rightarrow> nat \<Rightarrow> bool" where
  "activeIsVideo g idx =
     (case activeMediaUrl g idx of Some u \<Rightarrow> u \<noteq> [] \<and> detail_isVideo u | None \<Rightarrow> False)"

definition revisions_label :: "nat \<Rightarrow> string" where
  "revisions_label r = (if r = 99 then ''Unlimited'' else nat_to_string r)"

record detail_view =
  dv_title :: string
  dv_category :: string
  dv_media :: "string option"
  dv_media_is_video :: bool
  dv_thumbnails :: "(string \<times> bool \<times> bool) list"
  dv_features :: "string list"
  dv_price :: int
  dv_delivery :: nat
  dv_revisions :: string
  dv_checkout :: string
  dv_pdfs :: "(string \<times> string) list"

definition ServiceDetail :: "string \<Rightarrow> nat \<Rightarrow> store \<Rightarrow> detail_view option" where
  "ServiceDetail sid idx s =
     (case find (\<lambda>g. svc_id g = sid) (services s) of
        None \<Rightarrow> None
      | Some g \<Rightarrow> Some
          \<lparr>dv_title = title g, dv_category = category g, dv_media = activeMediaUrl g idx,
           dv_media_is_video = activeIsVideo g idx,
           dv_thumbnails = (if 1 < length (allMedia g)
                            then map (\<lambda>(u, i). (u, detail_isVideo u, i = idx))
                                   (zip (allMedia g) [0..<length (allMedia g)])
                            else []),
           dv_features = features g, dv_price = price g, dv_delivery = deliveryDays g,
           dv_revisions = revisions_label (revisions g), dv_checkout = ''/checkout/'' @ svc_id g,
           dv_pdfs = map (\<lambda>(p, i). (p, ''asset_'' @ nat_to_string (Suc i) @ ''.pdf''))
                       (zip (pdfs g) [0..<length (pdfs g)])\<rparr>)"

text \<open>The thumbnail's \<open>onClick\<close> (line 78), the page's only state change. The index is
  kept when the route moves to another gig, as the page stays mounted, which is why the
  view falls back to the first media for an index out of range.\<close>

definition setActiveMediaIndex :: "nat \<Rightarrow> nat \<Rightarrow> nat" where
  "setActiveMediaIndex idx activeMediaIndex = idx"

section \<open>Navigation bar\<close>

datatype nav_action = NavLogout | NavLogin | NavSignUp

definition nav_links :: "(string \<times> string) list" where
  "nav_links = [(''Home'', ''/''), (''Services'', ''/services''), (''About Us'', ''/about''),
                (''Contact Us'', ''/contact'')]"

definition navbar_actions :: "store \<Rightarrow> nav_action list" where
  "navbar_actions s = (if isAuthenticated s then [NavLogout] else [NavLogin, NavSignUp])"

definition nav_active :: "string \<Rightarrow> (string \<times> string) list" where
  "nav_active pathname = filter (\<lambda>(n, href). pathname = href) nav_links"

text \<open>The state of \<open>Navbar\<close> is the mobile menu flag (line 13); the route is the
  router's \<open>location.pathname\<close>. Its events: the toggle (line 70), following a link
  (the logo, a menu link or a login or sign-up link; the links of the mobile menu also
  close it, lines 93, 101, 102), and the logout buttons (line 49 on the desktop bar,
  line 105 in the mobile menu, which also closes it).\<close>

record navbar =
  isMobileMenuOpen :: bool

datatype nav_event = MenuToggle | FollowLink bool string | LogoutButton bool

definition navbar_event :: "codecs \<Rightarrow> nav_event \<Rightarrow> navbar \<times> string \<times> store \<Rightarrow> navbar \<times> string \<times> store" where
  "navbar_event C ev nps =
     (let (n, path, s) = nps
      in case ev of
           MenuToggle \<Rightarrow> (n\<lparr>isMobileMenuOpen := \<not> isMobileMenuOpen n\<rparr>, path, s)
         | FollowLink mobile href \<Rightarrow> (if mobile then n\<lparr>isMobileMenuOpen := False\<rparr> else n, href, s)
         | LogoutButton mobile \<Rightarrow> (if mobile then n\<lparr>isMobileMenuOpen := False\<rparr> else n, path, logout C s))"

record navbar_view =
  nv_logo :: string
  nv_name :: string
  nv_links :: "(string \<times> string \<times> bool) list"
  nv_actions :: "nav_action list"
  nv_mobile :: "((string \<times> string) list \<times> nav_action list) option"

definition Navbar_view :: "navbar \<Rightarrow> string \<Rightarrow> store \<Rightarrow> navbar_view" where
  "Navbar_view n path s =
     \<lparr>nv_logo = logo (settings s), nv_name = site_name (settings s),
      nv_links = map (\<lambda>(nm, href). (nm, href, path = href)) nav_links,
      nv_actions = navbar_actions s,
      nv_mobile = (if isMobileMenuOpen n then Some (nav_links, navbar_actions s) else None)\<rparr>"

section \<open>Footer\<close>

text \<open>\<open>src/components/Footer.tsx\<close> shows the site name, fixed links, one icon per social
  link that is set and non-empty (\<open>{settings.socialLinks.youtube && ...}\<close>), and the
  site name in the copyright line.\<close>

definition social_icon :: "site_settings \<Rightarrow> string \<Rightarrow> string \<Rightarrow> (string \<times> string) list" where
  "social_icon st key label =
     (case js_prop (socialLinks st) key of Some url \<Rightarrow> if url \<noteq> [] then [(label, url)] else [] | None \<Rightarrow> [])"

record footer_view =
  ft_name :: string
  ft_links :: "(string \<times> string) list"
  ft_social :: "(string \<times> string) list"
  ft_copyright_name :: string

definition Footer_view :: "site_settings \<Rightarrow> footer_view" where
  "Footer_view st =
     \<lparr>ft_name = site_name st,
      ft_links = [(''Video Editing'', ''/services''), (''Graphic Design'', ''/services''),
                  (''SEO Writing'', ''/services''), (''Brand Consulting'', ''/services''),
                  (''Contact Us'', ''/contact''), (''About Us'', ''/about''), (''Login'', ''/login''),
                  (''Sign Up'', ''/signup''), (''Admin Login'', ''/login'')],
      ft_social = social_icon st ''youtube'' ''YT'' @ social_icon st ''instagram'' ''IG'',
      ft_copyright_name = site_name st\<rparr>"

section \<open>Lemmas\<close>

lemma detail_isVideo_eq: "detail_isVideo = isVideoMedia"
  by (simp add: fun_eq_iff detail_isVideo_def isVideoMedia_def)

lemma Login_handleSubmit_eq:
  "Login_handleSubmit C e p res ts (f, s) =
   (let s1 = s\<lparr>world := send_post formspree_url (login_audit e ts) (world s)\<rparr>
    in (f\<lparr>af_error := (if fst (login C e p s1) then []
                        else if res = FetchThrows then ''Invalid email or password.''
                        else ''Invalid email or password. Please try again.''),
          af_submitting := False\<rparr>, snd (login C e p s1)))"
  by (simp add: Login_handleSubmit_def Let_def split_def)

lemma SignUp_handleSubmit_eq:
  "SignUp_handleSubmit C n e p res ts now (f, s) =
   (let s1 = s\<lparr>world := send_post formspree_url (signup_audit n e ts) (world s)\<rparr>
    in (f\<lparr>af_error := (if fst (signup C n e p now s1) then []
                        else if res = FetchThrows then ''Registration failed. Please try again.''
                        else ''Email already exists. Try logging in.''),
          af_submitting := False\<rparr>, snd (signup C n e p now s1)))"
  by (simp add: SignUp_handleSubmit_def Let_def split_def)

section \<open>Properties of the pages\<close>

text \<open>Submitting the login form leaves the store in the same state whatever the audit request's outcome (login is called exactly once either way); the error message is empty exactly when a stored user matches the credentials, the form leaves the submitting state, and the users are unchanged.\<close>

theorem login_page_outcome:
  "snd (Login_handleSubmit C e p r1 ts (f, s)) = snd (Login_handleSubmit C e p r2 ts (f, s)) \<and>
   (af_error (fst (Login_handleSubmit C e p r1 ts (f, s))) = [] \<longleftrightarrow>
      (\<exists>u \<in> set (users s). user_email u = e \<and> user_password u = p)) \<and>
   \<not> af_submitting (fst (Login_handleSubmit C e p r1 ts (f, s))) \<and>
   users (snd (Login_handleSubmit C e p r1 ts (f, s))) = users s"
proof -
  let ?s1 = "s\<lparr>world := send_post formspree_url (login_audit e ts) (world s)\<rparr>"
  have u: "users (snd (login C e p ?s1)) = users s"
    by (simp add: login_def split: option.splits)
  show ?thesis using u by (simp add: Login_handleSubmit_eq Let_def login_fst_iff)
qed

text \<open>C33. Submitting the sign-up form leaves the store in the same state whatever the audit request's outcome; the error message is empty exactly when the e-mail is new, and the form leaves the submitting state.\<close>

theorem signup_page_outcome:
  "snd (SignUp_handleSubmit C n e p r1 ts now (f, s)) = snd (SignUp_handleSubmit C n e p r2 ts now (f, s)) \<and>
   (af_error (fst (SignUp_handleSubmit C n e p r1 ts now (f, s))) = [] \<longleftrightarrow>
      (\<forall>u \<in> set (users s). user_email u \<noteq> e)) \<and>
   \<not> af_submitting (fst (SignUp_handleSubmit C n e p r1 ts now (f, s)))"
  by (simp add: SignUp_handleSubmit_eq Let_def signup_fst_iff)

text \<open>The contact form shows its confirmation exactly when the relay answers ok, shows an error otherwise, always posts the inquiry and never touches local storage.\<close>

theorem contact_outcome:
  "submitted (fst (Contact_handleSubmit res (c, b))) = (res = FetchOk \<or> submitted c) \<and>
   (ct_error (fst (Contact_handleSubmit res (c, b))) = [] \<longleftrightarrow> res = FetchOk) \<and>
   outbox (snd (Contact_handleSubmit res (c, b))) =
     outbox b @ [\<lparr>post_url = formspree_url, post_body = contact_request (ct_form c)\<rparr>] \<and>
   items (snd (Contact_handleSubmit res (c, b))) = items b"
  by (cases res) (simp_all add: Contact_handleSubmit_def send_post_def)

text \<open>C36. The home page features the first three gigs whatever their status, while the services page lists only published gigs: a draft gig at the head of the list (ids unique) is shown on the home page and not on the services page.\<close>

theorem home_shows_drafts:
  assumes "distinct (map svc_id (services s))" and "services s = g # gs" and "svc_status g = Draft"
  shows "gig_card g \<in> set (home_featured s) \<and> gig_card g \<notin> set (services_page s)"
proof -
  have "g' = g" if "g' \<in> set (services s)" "gig_card g' = gig_card g" for g'
  proof -
    from that(2) have "svc_id g' = svc_id g" by (simp add: gig_card_def)
    with assms(1) that(1) show ?thesis
      by (metis assms(2) distinct_map inj_on_eq_iff list.set_intros(1))
  qed
  then have "gig_card g \<notin> gig_card ` set (filter (\<lambda>g. svc_status g = Published) (services s))"
    using assms(3) by auto
  then show ?thesis using assms(2) by (simp add: home_featured_def services_page_def)
qed

text \<open>The detail page's main media is always one of the gig's images or videos when it has any, none when it has none, and the first one when the selected index is out of range.\<close>

theorem detail_active_media:
  "(allMedia g \<noteq> [] \<longrightarrow> (\<exists>u. activeMediaUrl g idx = Some u \<and> u \<in> set (allMedia g))) \<and>
   (allMedia g = [] \<longrightarrow> activeMediaUrl g idx = None \<and> \<not> activeIsVideo g idx) \<and>
   (length (allMedia g) \<le> idx \<longrightarrow> activeMediaUrl g idx = js_at (allMedia g) 0)"
proof -
  have "\<exists>u. activeMediaUrl g idx = Some u \<and> u \<in> set (allMedia g)" if "allMedia g \<noteq> []"
    using that by (auto simp add: activeMediaUrl_def js_at_def split: option.splits if_splits)
  moreover have "allMedia g = [] \<longrightarrow> activeMediaUrl g idx = None \<and> \<not> activeIsVideo g idx"
    by (simp add: activeMediaUrl_def activeIsVideo_def js_at_def)
  moreover have "length (allMedia g) \<le> idx \<longrightarrow> activeMediaUrl g idx = js_at (allMedia g) 0"
    by (simp add: activeMediaUrl_def js_at_def)
  ultimately show ?thesis by blast
qed


section \<open>Properties of the screens\<close>

lemma login_submit_eq:
  "login_can_submit lp \<Longrightarrow>
   login_submit C res ts (lp, s) =
     (lp\<lparr>lp_form := fst (Login_handleSubmit C (lp_email lp) (lp_password lp) res ts (lp_form lp, s))\<rparr>,
      snd (Login_handleSubmit C (lp_email lp) (lp_password lp) res ts (lp_form lp, s)))"
  by (simp add: login_submit_def split_def Let_def)

lemma signup_submit_eq:
  "signup_can_submit sp \<Longrightarrow>
   signup_submit C res ts now (sp, s) =
     (sp\<lparr>sp_form := fst (SignUp_handleSubmit C (sp_name sp) (sp_email sp) (sp_password sp) res ts now (sp_form sp, s))\<rparr>,
      snd (SignUp_handleSubmit C (sp_name sp) (sp_email sp) (sp_password sp) res ts now (sp_form sp, s)))"
  by (simp add: signup_submit_def split_def Let_def)

text \<open>A password shorter than six characters never reaches \<open>handleSubmit\<close>: the browser
  blocks the submission, so no audit record is sent and the store is unchanged. The
  store's \<open>signup\<close> itself has no length rule.\<close>

lemma signup_short_password_blocked:
  "length (sp_password sp) < 6 \<Longrightarrow> signup_submit C res ts now (sp, s) = (sp, s)"
  by (simp add: signup_submit_def signup_can_submit_def)

text \<open>C34. A sign-up the browser lets through ends on the home page when the e-mail is new,
  and on the form with the message of the branch otherwise.\<close>

lemma signup_page_flow:
  assumes "signup_can_submit sp" and "\<not> isAuthenticated s"
  shows "SignUp_view (fst (signup_submit C res ts now (sp, s))) (snd (signup_submit C res ts now (sp, s))) =
    (if \<forall>u \<in> set (users s). user_email u \<noteq> sp_email sp then AuthRedirect ''/''
     else AuthForm \<lparr>av_error = Some (if res = FetchThrows then ''Registration failed. Please try again.''
                                     else ''Email already exists. Try logging in.''),
                   av_disabled = False, av_label = ''Create Account'', av_links = [(''Log In'', ''/login'')]\<rparr>)"
  using assms
  by (auto simp add: signup_submit_eq SignUp_handleSubmit_eq SignUp_view_def signup_redirect_def
      auth_view_def isAuthenticated_def signup_def find_None_iff Let_def)

text \<open>C35. The contact form, once the browser lets it through, shows the thank-you card with the
  name and e-mail it posted exactly when the relay answers ok, and otherwise the form
  again with the message of the branch and the button enabled; the inquiry is posted
  once in every case.\<close>

lemma contact_flow:
  assumes "contact_can_submit c" and "\<not> submitted c"
  shows "Contact_view (fst (contact_submit res (c, b))) =
      (case res of
         FetchOk \<Rightarrow> ContactThanks (ct_name (ct_form c)) (ct_email (ct_form c))
       | FetchNotOk \<Rightarrow> ContactFormScreen (Some ''Something went wrong. Please try again later.'') False ''Send Inquiry''
       | FetchThrows \<Rightarrow> ContactFormScreen (Some ''Connection error. Please check your internet.'') False ''Send Inquiry'') \<and>
    outbox (snd (contact_submit res (c, b))) =
      outbox b @ [\<lparr>post_url = formspree_url, post_body = contact_request (ct_form c)\<rparr>]"
  using assms
  by (cases res) (simp_all add: contact_submit_def Contact_handleSubmit_def Contact_view_def send_post_def)

text \<open>After a logout from either bar there is no session and the bar offers login and
  sign-up; the mobile menu's links and logout close the menu, while the logo, also a
  link home, leaves an open menu open.\<close>

lemma navbar_logout_view:
  assumes "navbar_event C (LogoutButton m) (n, p, s) = (n', p', s')"
  shows "currentUser s' = None \<and> nv_actions (Navbar_view n' p' s') = [NavLogin, NavSignUp] \<and>
    (m \<longrightarrow> nv_mobile (Navbar_view n' p' s') = None)"
  using assms
  by (auto simp add: navbar_event_def Navbar_view_def navbar_actions_def isAuthenticated_def logout_def)

lemma navbar_links_close_menu:
  "nv_mobile (Navbar_view (fst (navbar_event C (FollowLink True h) (n, p, s))) h s) = None"
  "isMobileMenuOpen n \<Longrightarrow> nv_mobile (Navbar_view (fst (navbar_event C (FollowLink False ''/'') (n, p, s))) ''/'' s) \<noteq> None"
  by (simp_all add: navbar_event_def Navbar_view_def)

text \<open>On every route of \<open>navLinks\<close> exactly its own link is highlighted.\<close>

lemma navbar_highlight_unique:
  "(nm, h) \<in> set nav_links \<Longrightarrow> filter (\<lambda>(_, _, b). b) (nv_links (Navbar_view n h s)) = [(nm, h, True)]"
  by (auto simp add: Navbar_view_def nav_links_def)

text \<open>The footer shows a social icon exactly for a link that is set and non-empty, and it
  points to that link.\<close>

lemma footer_social_shown:
  "((''YT'', url) \<in> set (ft_social (Footer_view st))) = (js_prop (socialLinks st) ''youtube'' = Some url \<and> url \<noteq> [])"
  "((''IG'', url) \<in> set (ft_social (Footer_view st))) = (js_prop (socialLinks st) ''instagram'' = Some url \<and> url \<noteq> [])"
  by (auto simp add: Footer_view_def social_icon_def split: option.splits)

text \<open>Clicking a thumbnail of a gig shows that media as the main one and highlights it.\<close>

lemma thumbnail_click_shows:
  assumes "find (\<lambda>g. svc_id g = sid) (services s) = Some g" and "i < length (allMedia g)"
    and "allMedia g ! i \<noteq> []"
  shows "dv_media (the (ServiceDetail sid (setActiveMediaIndex i idx) s)) = Some (allMedia g ! i) \<and>
    dv_media_is_video (the (ServiceDetail sid (setActiveMediaIndex i idx) s)) = isVideoMedia (allMedia g ! i)"
  using assms
  by (simp add: ServiceDetail_def setActiveMediaIndex_def activeMediaUrl_def activeIsVideo_def js_at_def
      detail_isVideo_eq)

text \<open>C32. Submitting the login form, when the browser lets it through on the login page,
  leaves the store in the same state whatever the audit request's outcome, and the page
  then shows: the redirect to the console for an administrator's credentials, to the
  home page for a visitor's, and otherwise the form again with the error of the branch
  and the enabled \<open>Sign In\<close> button.\<close>

theorem login_page_flow:
  assumes "login_can_submit lp" and "\<not> isAuthenticated s"
  shows "snd (login_submit C r1 ts (lp, s)) = snd (login_submit C r2 ts (lp, s)) \<and>
    Login_view (fst (login_submit C r1 ts (lp, s))) (snd (login_submit C r1 ts (lp, s))) =
      (case find (\<lambda>u. user_email u = lp_email lp \<and> user_password u = lp_password lp) (users s) of
         Some u \<Rightarrow> AuthRedirect (if user_role u = Admin then ''/admin'' else ''/'')
       | None \<Rightarrow> AuthForm \<lparr>av_error = Some (if r1 = FetchThrows then ''Invalid email or password.''
                                          else ''Invalid email or password. Please try again.''),
                         av_disabled = False, av_label = ''Sign In'', av_links = login_links\<rparr>)"
  using assms
  by (auto simp add: login_submit_eq Login_handleSubmit_def Login_view_def login_redirect_def
      auth_view_def isAuthenticated_def isAdmin_def login_def Let_def split: option.splits)

end
