(* ===== verification/Json.thy ===== *)
theory Json
  imports Storage Model
begin

text \<open>
  The serialiser of the platform: \<open>JSON.stringify\<close> and \<open>JSON.parse\<close>, which
  \<open>saveToDB\<close> and \<open>loadFromDB\<close> of \<open>src/store.ts\<close> call. This is not code of the
  repository; it is modelled from the JSON grammar for the values the store prints.
  \<open>print_json\<close> prints a value as \<open>JSON.stringify\<close> does (no blanks, strings escaped
  with the short escapes and a four-digit unicode escape for the other control
  characters). The parser
  is a recursive-descent parser over the text (\<open>p_value\<close>, \<open>p_items\<close>,
  \<open>p_members\<close>) with a fuel argument; \<open>json_parse\<close> gives it twice the length of
  the text plus one, which is enough: with at least that much fuel the result does not
  depend on the fuel (\<open>json_fuel_enough\<close>), because a value parser consumes at least
  one character before it calls a list parser, and a list parser consumes its separator
  before it calls itself. In scope are the values the model's data can take: integers
  (no fraction or exponent), strings of 8-bit characters (a unicode escape above 255 is
  rejected), arrays and objects, \<open>true\<close>, \<open>false\<close>, \<open>null\<close>, and blanks between
  tokens. \<open>json_parse_print\<close> is the round trip: parsing what is printed gives the
  value back.
\<close>

datatype json = JNull | JBool bool | JNum int | JStr string | JArr "json list" | JObj "(string \<times> json) list"

type_synonym 'a parser = "string \<Rightarrow> ('a \<times> string) option"

section \<open>Printing\<close>

definition hex_digit :: "nat \<Rightarrow> char" where
  "hex_digit d = (if d < 10 then char_of (48 + d) else char_of (87 + d))"

abbreviation quote_char :: char where "quote_char \<equiv> CHR 0x22"

abbreviation bslash :: char where "bslash \<equiv> CHR 0x5C"

definition esc_char :: "char \<Rightarrow> string" where
  "esc_char c =
     (if c = quote_char then [bslash, quote_char]
      else if c = bslash then [bslash, bslash]
      else if c = CHR 0x08 then [bslash, CHR ''b'']
      else if c = CHR 0x0C then [bslash, CHR ''f'']
      else if c = CHR 0x0A then [bslash, CHR ''n'']
      else if c = CHR 0x0D then [bslash, CHR ''r'']
      else if c = CHR 0x09 then [bslash, CHR ''t'']
      else if of_char c < (32::nat) then
        [bslash, CHR ''u'', CHR ''0'', CHR ''0'', hex_digit (of_char c div 16), hex_digit (of_char c mod 16)]
      else [c])"

definition print_str :: "string \<Rightarrow> string" where
  "print_str s = quote_char # concat (map esc_char s) @ [quote_char]"

fun comma_join :: "string list \<Rightarrow> string" where
  "comma_join [] = []"
| "comma_join [x] = x"
| "comma_join (x # y # zs) = x @ CHR '','' # comma_join (y # zs)"

fun print_json :: "json \<Rightarrow> string" where
  "print_json JNull = ''null''"
| "print_json (JBool b) = (if b then ''true'' else ''false'')"
| "print_json (JNum i) = int_to_string i"
| "print_json (JStr s) = print_str s"
| "print_json (JArr xs) = CHR ''['' # comma_join ((map print_json xs)) @ '']''"
| "print_json (JObj ps) =
     CHR ''{'' # comma_join ((map (\<lambda>(k, v). print_str k @ CHR '':'' # print_json v) ps)) @ ''}''"

section \<open>Parsing\<close>

definition json_ws :: "char \<Rightarrow> bool" where
  "json_ws c \<longleftrightarrow> c = CHR '' '' \<or> c = CHR 0x09 \<or> c = CHR 0x0A \<or> c = CHR 0x0D"

definition skip_ws :: "string \<Rightarrow> string" where
  "skip_ws s = dropWhile json_ws s"

definition is_digit :: "char \<Rightarrow> bool" where
  "is_digit c \<longleftrightarrow> 48 \<le> (of_char c :: nat) \<and> (of_char c :: nat) \<le> 57"

definition digits_val :: "string \<Rightarrow> nat" where
  "digits_val ds = foldl (\<lambda>a c. 10 * a + (of_char c - 48)) 0 ds"

definition p_number :: "json parser" where
  "p_number s =
     (let (neg, s1) = (case s of c # t \<Rightarrow> if c = CHR ''-'' then (True, t) else (False, s) | [] \<Rightarrow> (False, s));
          ds = takeWhile is_digit s1
      in if ds = [] \<or> (hd ds = CHR ''0'' \<and> tl ds \<noteq> []) then None
         else Some (JNum (if neg then - int (digits_val ds) else int (digits_val ds)), dropWhile is_digit s1))"

definition simple_escape :: "char \<Rightarrow> char option" where
  "simple_escape e =
     (if e = quote_char then Some quote_char else if e = bslash then Some bslash
      else if e = CHR ''/'' then Some (CHR ''/'') else if e = CHR ''b'' then Some (CHR 0x08)
      else if e = CHR ''f'' then Some (CHR 0x0C) else if e = CHR ''n'' then Some (CHR 0x0A)
      else if e = CHR ''r'' then Some (CHR 0x0D) else if e = CHR ''t'' then Some (CHR 0x09)
      else None)"

definition hex_val :: "char \<Rightarrow> nat option" where
  "hex_val c =
     (let n = (of_char c :: nat)
      in if 48 \<le> n \<and> n \<le> 57 then Some (n - 48)
         else if 97 \<le> n \<and> n \<le> 102 then Some (n - 87)
         else if 65 \<le> n \<and> n \<le> 70 then Some (n - 55) else None)"

definition unicode_escape :: "string \<Rightarrow> char option" where
  "unicode_escape h =
     (if length h = 4 \<and> list_all (\<lambda>c. hex_val c \<noteq> None) h then
        (let v = foldl (\<lambda>a c. 16 * a + the (hex_val c)) 0 h in if v < 256 then Some (char_of v) else None)
      else None)"

fun p_chars :: "string parser" where
  "p_chars [] = None"
| "p_chars (c # cs) =
     (if c = quote_char then Some ([], cs)
      else if c = bslash then
        (case cs of
           [] \<Rightarrow> None
         | e # cs' \<Rightarrow>
             (case simple_escape e of
                Some ch \<Rightarrow> map_option (\<lambda>(t, r). (ch # t, r)) (p_chars cs')
              | None \<Rightarrow>
                  if e = CHR ''u'' then
                    (case unicode_escape (take 4 cs') of
                       Some ch \<Rightarrow> map_option (\<lambda>(t, r). (ch # t, r)) (p_chars (drop 4 cs'))
                     | None \<Rightarrow> None)
                  else None))
      else if of_char c < (32::nat) then None
      else map_option (\<lambda>(t, r). (c # t, r)) (p_chars cs))"

definition p_string :: "string parser" where
  "p_string s = (case s of c # t \<Rightarrow> if c = quote_char then p_chars t else None | [] \<Rightarrow> None)"

definition p_lit :: "string \<Rightarrow> string \<Rightarrow> string option" where
  "p_lit w s = (if take (length w) s = w then Some (drop (length w) s) else None)"

fun p_value :: "nat \<Rightarrow> json parser"
and p_items :: "nat \<Rightarrow> json list parser"
and p_members :: "nat \<Rightarrow> (string \<times> json) list parser" where
  "p_value 0 s = None"
| "p_value (Suc n) s =
     (case skip_ws s of
        [] \<Rightarrow> None
      | c # t \<Rightarrow>
          if c = CHR ''['' then
            (case skip_ws t of
               [] \<Rightarrow> None
             | d # u \<Rightarrow>
                 if d = CHR '']'' then Some (JArr [], u)
                 else map_option (\<lambda>(xs, r). (JArr xs, r)) (p_items n (d # u)))
          else if c = CHR ''{'' then
            (case skip_ws t of
               [] \<Rightarrow> None
             | d # u \<Rightarrow>
                 if d = CHR ''}'' then Some (JObj [], u)
                 else map_option (\<lambda>(ps, r). (JObj ps, r)) (p_members n (d # u)))
          else if c = quote_char then map_option (\<lambda>(x, r). (JStr x, r)) (p_chars t)
          else if c = CHR ''n'' then map_option (\<lambda>r. (JNull, r)) (p_lit ''ull'' t)
          else if c = CHR ''t'' then map_option (\<lambda>r. (JBool True, r)) (p_lit ''rue'' t)
          else if c = CHR ''f'' then map_option (\<lambda>r. (JBool False, r)) (p_lit ''alse'' t)
          else p_number (c # t))"
| "p_items 0 s = None"
| "p_items (Suc n) s =
     (case p_value n s of
        None \<Rightarrow> None
      | Some (v, r) \<Rightarrow>
          (case skip_ws r of
             [] \<Rightarrow> None
           | c # t \<Rightarrow>
               if c = CHR '','' then map_option (\<lambda>(vs, r'). (v # vs, r')) (p_items n t)
               else if c = CHR '']'' then Some ([v], t) else None))"
| "p_members 0 s = None"
| "p_members (Suc n) s =
     (case p_string (skip_ws s) of
        None \<Rightarrow> None
      | Some (k, r) \<Rightarrow>
          (case skip_ws r of
             [] \<Rightarrow> None
           | c # t \<Rightarrow>
               if c \<noteq> CHR '':'' then None
               else
                 (case p_value n t of
                    None \<Rightarrow> None
                  | Some (v, r') \<Rightarrow>
                      (case skip_ws r' of
                         [] \<Rightarrow> None
                       | d # u \<Rightarrow>
                           if d = CHR '','' then map_option (\<lambda>(ps, r''). ((k, v) # ps, r'')) (p_members n u)
                           else if d = CHR ''}'' then Some ([(k, v)], u) else None))))"

definition json_parse :: "string \<Rightarrow> json option" where
  "json_parse s =
     (case p_value (Suc (2 * length s)) s of
        Some (j, r) \<Rightarrow> if skip_ws r = [] then Some j else None
      | None \<Rightarrow> None)"

section \<open>Lemmas: every parser consumes input\<close>

lemma length_skip_ws [simp]: "length (skip_ws s) \<le> length s"
  by (simp add: skip_ws_def length_dropWhile_le)

lemma skip_ws_Cons_shorter: "skip_ws s = c # t \<Longrightarrow> length t < length s"
  using length_skip_ws [of s] by simp

lemma p_chars_shorter: "p_chars s = Some (x, r) \<Longrightarrow> length r < length s"
proof (induction s arbitrary: x rule: length_induct)
  case (1 s)
  show ?case
  proof (cases s)
    case Nil
    with 1 show ?thesis by simp
  next
    case (Cons c cs)
    have IH: "length r < length ys" if "p_chars ys = Some (y, r)" "length ys \<le> length cs" for ys y
      using 1(1) Cons that by auto
    from 1(2) Cons show ?thesis
      by (auto split: if_splits list.splits option.splits dest!: IH)
  qed
qed

lemma takeWhile_dropWhile_shorter: "takeWhile P xs \<noteq> [] \<Longrightarrow> length (dropWhile P xs) < length xs"
  by (induction xs) (auto simp add: length_dropWhile_le le_imp_less_Suc split: if_splits)

lemma p_number_shorter: "p_number s = Some (j, r) \<Longrightarrow> length r < length s"
  by (cases s) (auto simp add: p_number_def Let_def takeWhile_dropWhile_shorter length_dropWhile_le
      le_imp_less_Suc split: if_splits)

lemma p_string_shorter: "p_string s = Some (x, r) \<Longrightarrow> length r < length s"
  by (cases s) (auto simp add: p_string_def less_Suc_eq dest: p_chars_shorter split: if_splits)

lemma p_lit_shorter: "p_lit w s = Some r \<Longrightarrow> length r \<le> length s"
  by (auto simp add: p_lit_def split: if_splits)

lemma p_value_shorter:
  "(p_value n s = Some (j, r) \<longrightarrow> length r < length s) \<and>
   (p_items n s = Some (xs, r) \<longrightarrow> length r < length s) \<and>
   (p_members n s = Some (ps, r) \<longrightarrow> length r < length s)"
proof (induction n arbitrary: s j r xs ps)
  case 0
  show ?case by simp
next
  case (Suc n)
  have ws: "length (skip_ws s) \<le> length s" for s by simp
  have ihv: "length r' < length s'" if "p_value n s' = Some (j', r')" for s' j' r'
    using Suc.IH that by blast
  have ihi: "length r' < length s'" if "p_items n s' = Some (xs', r')" for s' xs' r'
    using Suc.IH that by blast
  have ihm: "length r' < length s'" if "p_members n s' = Some (ps', r')" for s' ps' r'
    using Suc.IH that by blast
  have v: "length r < length s" if "p_value (Suc n) s = Some (j, r)"
  proof -
    from that obtain c t where ct: "skip_ws s = c # t"
      by (auto split: list.splits)
    then have lt: "length t < length s"
      using ws [of s] by simp
    have lu: "Suc (length u) < length s" if "skip_ws t = d # u" for d u
      using that lt length_skip_ws [of t] by simp
    show ?thesis
      using that ct lt lu
      by (auto split: if_splits list.splits option.splits
          dest!: p_chars_shorter p_lit_shorter p_number_shorter ihi ihm)
  qed
  moreover have "length r < length s" if "p_items (Suc n) s = Some (xs, r)"
    using that length_skip_ws
    by (auto split: option.splits list.splits if_splits dest!: ihv ihi skip_ws_Cons_shorter)
  moreover have "length r < length s" if "p_members (Suc n) s = Some (ps, r)"
    using that length_skip_ws [of s]
    by (auto split: option.splits list.splits if_splits dest!: ihv ihm p_string_shorter skip_ws_Cons_shorter)
      (use length_skip_ws [of s] in linarith)+
  ultimately show ?case by blast
qed

section \<open>Lemmas: enough fuel\<close>

lemma p_value_fuel_step:
  "(2 * length s + 1 \<le> n \<longrightarrow> p_value (Suc n) s = p_value n s) \<and>
   (2 * length s + 2 \<le> n \<longrightarrow> p_items (Suc n) s = p_items n s) \<and>
   (2 * length s + 2 \<le> n \<longrightarrow> p_members (Suc n) s = p_members n s)"
proof (induction n arbitrary: s)
  case 0
  show ?case by simp
next
  case (Suc n)
  have vi: "p_value (Suc n) s' = p_value n s'" if "2 * length s' + 1 \<le> n" for s'
    using Suc.IH that by blast
  have ii: "p_items (Suc n) s' = p_items n s'" if "2 * length s' + 2 \<le> n" for s'
    using Suc.IH that by blast
  have mi: "p_members (Suc n) s' = p_members n s'" if "2 * length s' + 2 \<le> n" for s'
    using Suc.IH that by blast
  have "p_value (Suc (Suc n)) s = p_value (Suc n) s" if le: "2 * length s + 1 \<le> Suc n"
  proof (cases "skip_ws s")
    case Nil
    then show ?thesis by simp
  next
    case (Cons c t)
    have lt: "length t < length s" using Cons by (rule skip_ws_Cons_shorter)
    show ?thesis
    proof (cases "skip_ws t")
      case Nil
      with Cons show ?thesis by simp
    next
      case (Cons d u)
      have "length u < length t" using Cons by (rule skip_ws_Cons_shorter)
      then have "2 * length (d # u) + 2 \<le> n" using lt le by simp
      with Cons \<open>skip_ws s = c # t\<close> show ?thesis
        by (simp add: ii mi del: p_items.simps p_members.simps)
    qed
  qed
  moreover have "p_items (Suc (Suc n)) s = p_items (Suc n) s" if le: "2 * length s + 2 \<le> Suc n"
  proof (cases "p_value n s")
    case None
    then show ?thesis using vi [of s] le by simp
  next
    case (Some vr)
    obtain v r where vr: "vr = (v, r)" by (cases vr)
    have lr: "length r < length s" using Some vr p_value_shorter by blast
    show ?thesis
    proof (cases "skip_ws r")
      case Nil
      then show ?thesis
        unfolding p_items.simps(2) [of "Suc n" s] p_items.simps(2) [of n s]
        using vi [of s] le Some vr by (simp del: p_value.simps)
    next
      case (Cons c t)
      have "length t < length r" using Cons by (rule skip_ws_Cons_shorter)
      then have "2 * length t + 2 \<le> n" using lr le by simp
      then have "p_items (Suc n) t = p_items n t" by (rule ii)
      then show ?thesis
        unfolding p_items.simps(2) [of "Suc n" s] p_items.simps(2) [of n s]
        using vi [of s] le Some vr Cons by (simp del: p_value.simps p_items.simps)
    qed
  qed
  moreover have "p_members (Suc (Suc n)) s = p_members (Suc n) s" if le: "2 * length s + 2 \<le> Suc n"
  proof (cases "p_string (skip_ws s)")
    case None
    then show ?thesis by simp
  next
    case (Some kr)
    obtain k r where kr: "kr = (k, r)" by (cases kr)
    have "length r < length (skip_ws s)"
      using Some kr by (auto dest: p_string_shorter)
    then have lr: "length r < length s"
      using length_skip_ws [of s] by linarith
    show ?thesis
    proof (cases "skip_ws r")
      case Nil
      then show ?thesis using Some kr by simp
    next
      case (Cons c t)
      have lt: "length t < length s" using Cons skip_ws_Cons_shorter lr by fastforce
      have vt: "p_value (Suc n) t = p_value n t" using lt le by (intro vi) simp
      show ?thesis
      proof (cases "p_value n t")
        case None
        then show ?thesis using Some kr Cons vt by simp
      next
        case (Some vr')
        obtain v r' where vr': "vr' = (v, r')" by (cases vr')
        have "length r' < length t" using Some vr' p_value_shorter by blast
        have mu: "p_members (Suc n) u = p_members n u" if "skip_ws r' = d # u" for d u
        proof -
          have "length u < length r'" using that by (rule skip_ws_Cons_shorter)
          then show ?thesis using \<open>length r' < length t\<close> lt le by (intro mi) simp
        qed
        show ?thesis
          unfolding p_members.simps(2) [of "Suc n" s] p_members.simps(2) [of n s]
          using \<open>p_string (skip_ws s) = Some kr\<close> kr Cons vt Some vr' mu
          by (simp del: p_value.simps p_members.simps split: list.splits)
      qed
    qed
  qed
  ultimately show ?case by blast
qed

lemma p_value_fuel_stable: "2 * length s + 1 \<le> n \<Longrightarrow> p_value (n + k) s = p_value n s"
  by (induction k) (simp_all add: p_value_fuel_step del: p_value.simps)

section \<open>Lemmas: parsing what is printed\<close>

lemma hex_val_hex_digit: "d < 16 \<Longrightarrow> hex_val (hex_digit d) = Some d"
  by (auto simp add: hex_digit_def hex_val_def Let_def)

lemma unicode_escape_control:
  assumes "of_char c < (32::nat)"
  shows "unicode_escape [CHR ''0'', CHR ''0'', hex_digit (of_char c div 16), hex_digit (of_char c mod 16)] = Some c"
proof -
  have d1: "hex_val (hex_digit (of_char c div 16)) = Some (of_char c div 16)"
    using assms by (intro hex_val_hex_digit) simp
  have d2: "hex_val (hex_digit (of_char c mod 16)) = Some (of_char c mod 16)"
    by (intro hex_val_hex_digit) simp
  have z: "hex_val (CHR ''0'') = Some 0" by (simp add: hex_val_def)
  have v: "16 * (of_char c div 16) + of_char c mod 16 = (of_char c :: nat)" by simp
  show ?thesis using d1 d2 z v assms by (simp add: unicode_escape_def)
qed

lemma p_chars_esc: "p_chars (esc_char c @ r) = map_option (\<lambda>(t, r'). (c # t, r')) (p_chars r)"
proof -
  consider "c = quote_char" | "c = bslash" | "c = CHR 0x08" | "c = CHR 0x0C" | "c = CHR 0x0A"
    | "c = CHR 0x0D" | "c = CHR 0x09"
    | "c \<noteq> quote_char" "c \<noteq> bslash" "c \<noteq> CHR 0x08" "c \<noteq> CHR 0x0C" "c \<noteq> CHR 0x0A"
      "c \<noteq> CHR 0x0D" "c \<noteq> CHR 0x09" "of_char c < (32::nat)"
    | "c \<noteq> quote_char" "c \<noteq> bslash" "\<not> of_char c < (32::nat)"
    by blast
  then show ?thesis
  proof cases
    case 8
    then show ?thesis
      by (simp add: esc_char_def simple_escape_def unicode_escape_control)
  next
    case 9
    then have "c \<noteq> CHR 0x08 \<and> c \<noteq> CHR 0x0C \<and> c \<noteq> CHR 0x0A \<and> c \<noteq> CHR 0x0D \<and> c \<noteq> CHR 0x09"
      by auto
    with 9 show ?thesis by (simp add: esc_char_def)
  qed (simp_all add: esc_char_def simple_escape_def)
qed

lemma p_chars_print: "p_chars (concat (map esc_char s) @ quote_char # r) = Some (s, r)"
  by (induction s) (simp_all add: p_chars_esc)

text \<open>A number token ends where the next character is not a digit.\<close>

definition num_end :: "string \<Rightarrow> bool" where
  "num_end r \<longleftrightarrow> (case r of [] \<Rightarrow> True | c # _ \<Rightarrow> \<not> is_digit c)"

lemma is_digit_digit_char: "d < 10 \<Longrightarrow> is_digit (digit_char d)"
  by (simp add: is_digit_def digit_char_def)

lemma nat_to_string_digits: "\<forall>c \<in> set (nat_to_string n). is_digit c"
proof (induction n rule: nat_to_string.induct)
  case (1 n)
  then show ?case
    by (subst nat_to_string.simps) (auto simp add: is_digit_digit_char)
qed

lemma digits_val_nat_to_string: "digits_val (nat_to_string n) = n"
proof (induction n rule: nat_to_string.induct)
  case (1 n)
  show ?case
  proof (cases "n < 10")
    case True
    then show ?thesis
      by (subst nat_to_string.simps) (simp add: digits_val_def digit_char_def)
  next
    case False
    then have "digits_val (nat_to_string n) =
        10 * digits_val (nat_to_string (n div 10)) + (of_char (digit_char (n mod 10)) - 48)"
      by (subst nat_to_string.simps) (simp add: digits_val_def)
    also have "\<dots> = 10 * (n div 10) + n mod 10"
      using 1 False by (simp add: digit_char_def)
    finally show ?thesis by simp
  qed
qed

lemma nat_to_string_hd: "0 < n \<Longrightarrow> hd (nat_to_string n) \<noteq> CHR ''0''"
proof (induction n rule: nat_to_string.induct)
  case (1 n)
  show ?case
  proof (cases "n < 10")
    case True
    have "of_char (digit_char n) = (48 + n :: nat)"
      using True by (simp add: digit_char_def)
    then have "digit_char n \<noteq> CHR ''0''" using 1 by auto
    with True show ?thesis
      by (subst nat_to_string.simps) simp
  next
    case False
    then have "hd (nat_to_string n) = hd (nat_to_string (n div 10))"
      by (subst nat_to_string.simps) simp
    with 1 False show ?thesis by simp
  qed
qed

lemma nat_to_string_no_leading_zero:
  "\<not> (hd (nat_to_string n) = CHR ''0'' \<and> tl (nat_to_string n) \<noteq> [])"
proof (cases "n = 0")
  case True
  then show ?thesis by (subst nat_to_string.simps) simp
next
  case False
  then show ?thesis using nat_to_string_hd by simp
qed

lemma takeWhile_digits:
  assumes "\<forall>c \<in> set ds. is_digit c" and "num_end r"
  shows "takeWhile is_digit (ds @ r) = ds" "dropWhile is_digit (ds @ r) = r"
  using assms by (induction ds) (auto simp add: num_end_def split: list.splits)

lemma p_number_print:
  assumes "num_end r"
  shows "p_number (int_to_string i @ r) = Some (JNum i, r)"
proof -
  let ?ds = "nat_to_string (nat \<bar>i\<bar>)"
  have dg: "\<forall>c \<in> set ?ds. is_digit c" by (rule nat_to_string_digits)
  have ne: "?ds \<noteq> []" by simp
  have hd_dg: "is_digit (hd ?ds)" using dg ne by simp
  have nm: "hd ?ds \<noteq> CHR ''-''" using hd_dg by (auto simp add: is_digit_def)
  have tw: "takeWhile is_digit (?ds @ r) = ?ds" "dropWhile is_digit (?ds @ r) = r"
    using takeWhile_digits [OF dg assms] by simp_all
  have lz: "\<not> (hd ?ds = CHR ''0'' \<and> tl ?ds \<noteq> [])" by (rule nat_to_string_no_leading_zero)
  have dv: "digits_val ?ds = nat \<bar>i\<bar>" by (rule digits_val_nat_to_string)
  show ?thesis
  proof (cases "i < 0")
    case True
    then have "int_to_string i = CHR ''-'' # ?ds" by (simp add: int_to_string_def)
    with True tw lz dv ne show ?thesis by (simp add: p_number_def Let_def)
  next
    case False
    then have e: "int_to_string i = ?ds" by (simp add: int_to_string_def)
    obtain c cs where ccs: "?ds = c # cs" using ne by (cases ?ds) auto
    have "c \<noteq> CHR ''-''" using nm ccs by simp
    with False e ccs tw lz dv show ?thesis by (simp add: p_number_def Let_def)
  qed
qed

lemma skip_ws_Cons [simp]: "\<not> json_ws c \<Longrightarrow> skip_ws (c # t) = c # t"
  by (simp add: skip_ws_def)

lemma comma_join_append: "xs \<noteq> [] \<Longrightarrow> comma_join (x # xs) = x @ CHR '','' # comma_join xs"
  by (cases xs) simp_all

text \<open>A printed value starts with a character that is neither blank nor a closing bracket.\<close>

lemma int_to_string_start: "\<exists>c t. int_to_string i = c # t \<and> (c = CHR ''-'' \<or> is_digit c)"
proof -
  obtain c t where ct: "nat_to_string (nat \<bar>i\<bar>) = c # t"
    using nat_to_string_nonempty by (cases "nat_to_string (nat \<bar>i\<bar>)") auto
  have "is_digit c" using nat_to_string_digits [of "nat \<bar>i\<bar>"] ct by simp
  with ct show ?thesis by (cases "i < 0") (simp_all add: int_to_string_def)
qed

lemma print_json_start:
  "\<exists>c t. print_json j = c # t \<and> \<not> json_ws c \<and> c \<noteq> CHR '']'' \<and> c \<noteq> CHR ''}''"
proof (cases j)
  case (JNum i)
  obtain c t where ct: "int_to_string i = c # t" "c = CHR ''-'' \<or> is_digit c"
    using int_to_string_start by blast
  then have "\<not> json_ws c \<and> c \<noteq> CHR '']'' \<and> c \<noteq> CHR ''}''"
    by (auto simp add: is_digit_def json_ws_def)
  with JNum ct show ?thesis by simp
qed (simp_all add: json_ws_def print_str_def)

lemma print_json_num_end: "num_end (CHR '','' # r)" "num_end (CHR '']'' # r)" "num_end (CHR ''}'' # r)"
  "num_end []"
  by (simp_all add: num_end_def is_digit_def)

lemma p_value_print:
  "size j < n \<Longrightarrow> num_end r \<Longrightarrow> p_value n (print_json j @ r) = Some (j, r)"
proof (induction j arbitrary: n r)
  case JNull
  then obtain m where "n = Suc m" by (cases n) auto
  then show ?case by (simp add: json_ws_def p_lit_def)
next
  case (JBool b)
  then obtain m where "n = Suc m" by (cases n) auto
  then show ?case by (simp add: json_ws_def p_lit_def)
next
  case (JNum i)
  then obtain m where m: "n = Suc m" by (cases n) auto
  obtain c t where ct: "int_to_string i = c # t" "c = CHR ''-'' \<or> is_digit c"
    using int_to_string_start by blast
  have pn: "p_number (c # t @ r) = Some (JNum i, r)"
    using p_number_print [OF JNum.prems(2), of i] ct by simp
  have "\<not> json_ws c \<and> c \<noteq> CHR ''['' \<and> c \<noteq> CHR ''{'' \<and> c \<noteq> quote_char \<and> c \<noteq> CHR ''n'' \<and>
      c \<noteq> CHR ''t'' \<and> c \<noteq> CHR ''f''"
    using ct(2) by (auto simp add: is_digit_def json_ws_def)
  with m ct(1) pn show ?case by simp
next
  case (JStr x)
  then obtain m where "n = Suc m" by (cases n) auto
  then show ?case by (simp add: json_ws_def print_str_def p_chars_print)
next
  case (JArr xs)
  then obtain m where m: "n = Suc m" by (cases n) auto
  have sz: "size_list size xs < m" using JArr.prems(1) m by simp
  have items: "p_items k (comma_join (map print_json ys) @ CHR '']'' # r) = Some (ys, r)"
    if "set ys \<subseteq> set xs" "ys \<noteq> []" "size_list size ys < k" for ys k
    using that
  proof (induction ys arbitrary: k)
    case Nil
    then show ?case by simp
  next
    case (Cons y ys)
    then obtain k' where k': "k = Suc k'" by (cases k) auto
    have y: "y \<in> set xs" using Cons.prems(1) by simp
    show ?case
    proof (cases "ys = []")
      case True
      have "p_value k' (print_json y @ CHR '']'' # r) = Some (y, CHR '']'' # r)"
        using JArr.IH [OF y] Cons.prems(3) k' True print_json_num_end by simp
      with True k' show ?thesis by (simp add: json_ws_def)
    next
      case False
      have "p_value k' (print_json y @ CHR '','' # comma_join (map print_json ys) @ CHR '']'' # r) =
          Some (y, CHR '','' # comma_join (map print_json ys) @ CHR '']'' # r)"
        using JArr.IH [OF y] Cons.prems(3) k' print_json_num_end by simp
      moreover have "p_items k' (comma_join (map print_json ys) @ CHR '']'' # r) = Some (ys, r)"
        using Cons.IH [of k'] Cons.prems False k' by simp
      ultimately show ?thesis
        using False k' by (simp add: comma_join_append json_ws_def)
    qed
  qed
  show ?case
  proof (cases "xs = []")
    case True
    with m show ?thesis by (simp add: json_ws_def)
  next
    case False
    then obtain x xs' where xs: "xs = x # xs'" by (cases xs) auto
    obtain c t where ct: "print_json x = c # t" "\<not> json_ws c" "c \<noteq> CHR '']''" "c \<noteq> CHR ''}''"
      using print_json_start by blast
    have start: "comma_join (map print_json xs) @ CHR '']'' # r = c # (t @ (if xs' = [] then [] else
        CHR '','' # comma_join (map print_json xs')) @ CHR '']'' # r)"
      using xs ct(1) by (cases xs') (simp_all add: comma_join_append)
    have "p_items m (comma_join (map print_json xs) @ CHR '']'' # r) = Some (xs, r)"
      using items [of xs m] False sz by simp
    with m start ct show ?thesis by (simp add: json_ws_def del: p_items.simps)
  qed
next
  case (JObj ps)
  then obtain m where m: "n = Suc m" by (cases n) auto
  have sz: "size_list (size_prod (\<lambda>x. 0) size) ps < m" using JObj.prems(1) m by simp
  let ?pm = "\<lambda>(k, v). print_str k @ CHR '':'' # print_json v"
  have members: "p_members k (comma_join (map ?pm qs) @ CHR ''}'' # r) = Some (qs, r)"
    if "set qs \<subseteq> set ps" "qs \<noteq> []" "size_list (size_prod (\<lambda>x. 0) size) qs < k" for qs k
    using that
  proof (induction qs arbitrary: k)
    case Nil
    then show ?case by simp
  next
    case (Cons q qs)
    obtain key v where q: "q = (key, v)" by (cases q)
    then obtain k' where k': "k = Suc k'" using Cons.prems(3) by (cases k) auto
    have v: "p_value n' (print_json v @ r') = Some (v, r')" if "size v < n'" "num_end r'" for n' r'
      using JObj.IH [of q v] Cons.prems(1) q that by simp
    have sv: "size v < k'" using Cons.prems(3) q k' by simp
    have ps: "p_string (print_str key @ CHR '':'' # w) = Some (key, CHR '':'' # w)" for w
      by (simp add: print_str_def p_string_def p_chars_print)
    have hdq: "skip_ws (print_str key @ w) = print_str key @ w" for w
      by (simp add: print_str_def json_ws_def)
    show ?case
    proof (cases "qs = []")
      case True
      have "p_value k' (print_json v @ CHR ''}'' # r) = Some (v, CHR ''}'' # r)"
        using v sv print_json_num_end by simp
      with True k' q ps hdq show ?thesis by (simp add: json_ws_def del: p_value.simps)
    next
      case False
      have "p_value k' (print_json v @ CHR '','' # comma_join (map ?pm qs) @ CHR ''}'' # r) =
          Some (v, CHR '','' # comma_join (map ?pm qs) @ CHR ''}'' # r)"
        using v sv print_json_num_end by simp
      moreover have "p_members k' (comma_join (map ?pm qs) @ CHR ''}'' # r) = Some (qs, r)"
        using Cons.IH [of k'] Cons.prems False k' by simp
      ultimately show ?thesis
        unfolding k' q p_members.simps(2) [of k']
        using False ps hdq by (simp add: comma_join_append json_ws_def del: p_value.simps p_members.simps)
    qed
  qed
  show ?case
  proof (cases "ps = []")
    case True
    with m show ?thesis by (simp add: json_ws_def)
  next
    case False
    then obtain q ps' where pq: "ps = q # ps'" by (cases ps) auto
    obtain key v where q: "q = (key, v)" by (cases q)
    have start: "comma_join (map ?pm ps) @ CHR ''}'' # r = quote_char # (concat (map esc_char key) @
        quote_char # CHR '':'' # print_json v @ (if ps' = [] then [] else
        CHR '','' # comma_join (map ?pm ps')) @ CHR ''}'' # r)"
      using pq q by (cases ps') (simp_all add: comma_join_append print_str_def)
    have "p_members m (comma_join (map ?pm ps) @ CHR ''}'' # r) = Some (ps, r)"
      using members [of ps m] False sz by simp
    with m start show ?thesis by (simp add: json_ws_def del: p_members.simps)
  qed
qed

lemma p_value_print_fuel: "p_value (Suc (2 * length (print_json j @ r))) (print_json j @ r) = Some (j, r)"
  if "num_end r"
proof -
  let ?s = "print_json j @ r"
  have "p_value (Suc (2 * length ?s) + size j) ?s = p_value (Suc (2 * length ?s)) ?s"
    by (rule p_value_fuel_stable) simp
  moreover have "p_value (Suc (2 * length ?s) + size j) ?s = Some (j, r)"
    using that by (intro p_value_print) simp_all
  ultimately show ?thesis by simp
qed

lemma print_json_not_undefined: "print_json j \<noteq> [] \<and> print_json j \<noteq> ''undefined''"
proof -
  obtain c t where ct: "print_json j = c # t" "\<not> json_ws c" "c \<noteq> CHR '']''" "c \<noteq> CHR ''}''"
    using print_json_start by blast
  have "c \<noteq> CHR ''u''"
  proof (cases j)
    case (JNum i)
    obtain d u where "int_to_string i = d # u" "d = CHR ''-'' \<or> is_digit d"
      using int_to_string_start by blast
    with JNum ct(1) show ?thesis by (auto simp add: is_digit_def)
  qed (use ct(1) in \<open>auto simp add: print_str_def split: if_splits\<close>)
  with ct(1) show ?thesis by auto
qed

theorem json_parse_print: "json_parse (print_json j) = Some j"
  using p_value_print_fuel [of "[]" j] print_json_num_end(4) by (simp add: json_parse_def skip_ws_def)

theorem json_fuel_enough:
  assumes "2 * length s + 1 \<le> n"
  shows "p_value n s = p_value (Suc (2 * length s)) s"
  using p_value_fuel_stable [of s "Suc (2 * length s)" "n - Suc (2 * length s)"] assms by simp

end
