(* ===== verification/Codecs.thy ===== *)
theory Codecs
  imports Json Store "HOL-Library.Monad_Syntax"
begin

text \<open>
  The serialisers the store runs with: each table printed as \<open>JSON.stringify\<close> prints
  the objects of \<open>types.ts\<close> (the field names of the data model) and read back from
  what \<open>JSON.parse\<close> returns. A field is looked up as a property of the parsed object
  (the last of duplicate keys wins, as in \<open>JSON.parse\<close>). Reading back is typed: a text
  of the wrong shape gives \<open>None\<close>, where the code would use the parsed value as it is
  (a finding of the manifest). \<open>json_codecs\<close> satisfies \<open>codecs_ok\<close>, so the reload
  properties of \<open>Store\<close> hold for the running serialiser without their round-trip
  hypothesis.
\<close>

section \<open>Reading JSON values back as the model's data\<close>

definition get_field :: "string \<Rightarrow> (string \<times> json) list \<Rightarrow> json option" where
  "get_field k ps = map_of (rev ps) k"

fun json_string :: "json \<Rightarrow> string option" where
  "json_string (JStr s) = Some s"
| "json_string _ = None"

fun json_int :: "json \<Rightarrow> int option" where
  "json_int (JNum i) = Some i"
| "json_int _ = None"

fun json_nat :: "json \<Rightarrow> nat option" where
  "json_nat (JNum i) = (if 0 \<le> i then Some (nat i) else None)"
| "json_nat _ = None"

fun json_list :: "(json \<Rightarrow> 'a option) \<Rightarrow> json \<Rightarrow> 'a list option" where
  "json_list f (JArr xs) = those (map f xs)"
| "json_list f _ = None"

definition str_field :: "string \<Rightarrow> (string \<times> json) list \<Rightarrow> string option" where
  "str_field k ps = get_field k ps \<bind> json_string"

definition int_field :: "string \<Rightarrow> (string \<times> json) list \<Rightarrow> int option" where
  "int_field k ps = get_field k ps \<bind> json_int"

definition nat_field :: "string \<Rightarrow> (string \<times> json) list \<Rightarrow> nat option" where
  "nat_field k ps = get_field k ps \<bind> json_nat"

definition strs_field :: "string \<Rightarrow> (string \<times> json) list \<Rightarrow> string list option" where
  "strs_field k ps = get_field k ps \<bind> json_list json_string"

definition strs_json :: "string list \<Rightarrow> json" where
  "strs_json xs = JArr (map JStr xs)"

definition name_of :: "('a \<Rightarrow> string) \<Rightarrow> 'a list \<Rightarrow> string \<Rightarrow> 'a option" where
  "name_of f vs s = find (\<lambda>v. f v = s) vs"

section \<open>Users\<close>

definition user_json :: "user \<Rightarrow> json" where
  "user_json u =
     JObj [(''id'', JStr (user_id u)), (''name'', JStr (user_name u)), (''email'', JStr (user_email u)),
           (''password'', JStr (user_password u)), (''role'', JStr (role_name (user_role u)))]"

fun user_of_json :: "json \<Rightarrow> user option" where
  "user_of_json (JObj ps) = do {
     i \<leftarrow> str_field ''id'' ps; n \<leftarrow> str_field ''name'' ps; e \<leftarrow> str_field ''email'' ps;
     p \<leftarrow> str_field ''password'' ps; r \<leftarrow> str_field ''role'' ps \<bind> name_of role_name [Admin, Visitor];
     Some \<lparr>user_id = i, user_name = n, user_email = e, user_password = p, user_role = r\<rparr> }"
| "user_of_json _ = None"

section \<open>Services, orders and settings\<close>

definition service_json :: "service \<Rightarrow> json" where
  "service_json g =
     JObj [(''id'', JStr (svc_id g)), (''title'', JStr (title g)), (''description'', JStr (description g)),
           (''price'', JNum (price g)), (''category'', JStr (category g)),
           (''deliveryDays'', JNum (int (deliveryDays g))), (''revisions'', JNum (int (revisions g))),
           (''images'', strs_json (images g)), (''videos'', strs_json (videos g)),
           (''pdfs'', strs_json (pdfs g)), (''features'', strs_json (features g)),
           (''status'', JStr (service_status_name (svc_status g))),
           (''impressions'', JNum (int (impressions g))), (''clicks'', JNum (int (clicks g)))]"

fun service_of_json :: "json \<Rightarrow> service option" where
  "service_of_json (JObj ps) = do {
     i \<leftarrow> str_field ''id'' ps; t \<leftarrow> str_field ''title'' ps; d \<leftarrow> str_field ''description'' ps;
     p \<leftarrow> int_field ''price'' ps; c \<leftarrow> str_field ''category'' ps;
     dd \<leftarrow> nat_field ''deliveryDays'' ps; rv \<leftarrow> nat_field ''revisions'' ps;
     im \<leftarrow> strs_field ''images'' ps; vi \<leftarrow> strs_field ''videos'' ps; pd \<leftarrow> strs_field ''pdfs'' ps;
     fe \<leftarrow> strs_field ''features'' ps;
     st \<leftarrow> str_field ''status'' ps \<bind> name_of service_status_name [Published, Draft];
     ip \<leftarrow> nat_field ''impressions'' ps; cl \<leftarrow> nat_field ''clicks'' ps;
     Some \<lparr>svc_id = i, title = t, description = d, price = p, category = c, deliveryDays = dd,
           revisions = rv, images = im, videos = vi, pdfs = pd, features = fe, svc_status = st,
           impressions = ip, clicks = cl\<rparr> }"
| "service_of_json _ = None"

definition order_json :: "order \<Rightarrow> json" where
  "order_json od =
     JObj [(''id'', JStr (order_id od)), (''serviceId'', JStr (serviceId od)),
           (''clientName'', JStr (clientName od)), (''clientEmail'', JStr (clientEmail od)),
           (''status'', JStr (order_status_name (order_status od))), (''totalAmount'', JNum (totalAmount od)),
           (''createdAt'', JStr (createdAt od)), (''details'', JStr (details od))]"

fun order_of_json :: "json \<Rightarrow> order option" where
  "order_of_json (JObj ps) = do {
     i \<leftarrow> str_field ''id'' ps; sid \<leftarrow> str_field ''serviceId'' ps; cn \<leftarrow> str_field ''clientName'' ps;
     ce \<leftarrow> str_field ''clientEmail'' ps;
     st \<leftarrow> str_field ''status'' ps \<bind> name_of order_status_name [Pending, Active, Completed, Cancelled];
     a \<leftarrow> int_field ''totalAmount'' ps; ca \<leftarrow> str_field ''createdAt'' ps; de \<leftarrow> str_field ''details'' ps;
     Some \<lparr>order_id = i, serviceId = sid, clientName = cn, clientEmail = ce, order_status = st,
           totalAmount = a, createdAt = ca, details = de\<rparr> }"
| "order_of_json _ = None"

definition settings_json :: "site_settings \<Rightarrow> json" where
  "settings_json st =
     JObj [(''name'', JStr (site_name st)), (''logo'', JStr (logo st)),
           (''socialLinks'', JObj (map (\<lambda>(k, v). (k, JStr v)) (socialLinks st))),
           (''seo'', JObj [(''metaTitle'', JStr (metaTitle (seo st))),
                           (''metaDescription'', JStr (metaDescription (seo st)))])]"

fun links_of_json :: "json \<Rightarrow> (string \<times> string) list option" where
  "links_of_json (JObj ps) = those (map (\<lambda>(k, v). map_option (Pair k) (json_string v)) ps)"
| "links_of_json _ = None"

fun seo_of_json :: "json \<Rightarrow> seo_settings option" where
  "seo_of_json (JObj ps) = do {
     t \<leftarrow> str_field ''metaTitle'' ps; d \<leftarrow> str_field ''metaDescription'' ps;
     Some \<lparr>metaTitle = t, metaDescription = d\<rparr> }"
| "seo_of_json _ = None"

fun settings_of_json :: "json \<Rightarrow> site_settings option" where
  "settings_of_json (JObj ps) = do {
     n \<leftarrow> str_field ''name'' ps; l \<leftarrow> str_field ''logo'' ps;
     sl \<leftarrow> get_field ''socialLinks'' ps \<bind> links_of_json; se \<leftarrow> get_field ''seo'' ps \<bind> seo_of_json;
     Some \<lparr>site_name = n, logo = l, socialLinks = sl, seo = se\<rparr> }"
| "settings_of_json _ = None"

definition session_of_json :: "json \<Rightarrow> user option option" where
  "session_of_json j = (if j = JNull then Some None else map_option Some (user_of_json j))"

definition session_json :: "user option \<Rightarrow> json" where
  "session_json u = (case u of None \<Rightarrow> JNull | Some v \<Rightarrow> user_json v)"

section \<open>The codecs\<close>

text \<open>\<open>JSON.stringify\<close> and \<open>JSON.parse\<close> at one type: print the value's JSON, or parse the
  text and read the value back; a text that does not parse or has the wrong shape gives
  \<open>None\<close>.\<close>

definition json_codec :: "('a \<Rightarrow> json) \<Rightarrow> (json \<Rightarrow> 'a option) \<Rightarrow> 'a codec" where
  "json_codec enc dec = \<lparr>stringify = (\<lambda>v. print_json (enc v)), parse = (\<lambda>t. json_parse t \<bind> dec)\<rparr>"

definition json_codecs :: codecs where
  "json_codecs =
     \<lparr>users_codec = json_codec (\<lambda>us. JArr (map user_json us)) (json_list user_of_json),
      services_codec = json_codec (\<lambda>gs. JArr (map service_json gs)) (json_list service_of_json),
      orders_codec = json_codec (\<lambda>os. JArr (map order_json os)) (json_list order_of_json),
      settings_codec = json_codec settings_json settings_of_json,
      session_codec = json_codec session_json session_of_json\<rparr>"

section \<open>Lemmas\<close>

lemma those_map_roundtrip: "(\<And>x. dec (enc x) = Some x) \<Longrightarrow> those (map (dec \<circ> enc) xs) = Some xs"
  by (induction xs) simp_all

lemma json_list_roundtrip:
  "(\<And>x. dec (enc x) = Some x) \<Longrightarrow> json_list dec (JArr (map enc xs)) = Some xs"
  by (simp add: those_map_roundtrip)

lemma strs_roundtrip [simp]: "json_list json_string (strs_json xs) = Some xs"
  by (induction xs) (simp_all add: strs_json_def)

lemma name_of_role: "name_of role_name [Admin, Visitor] (role_name r) = Some r"
  by (cases r) (simp_all add: name_of_def)

lemma name_of_service_status:
  "name_of service_status_name [Published, Draft] (service_status_name st) = Some st"
  by (cases st) (simp_all add: name_of_def)

lemma name_of_order_status:
  "name_of order_status_name [Pending, Active, Completed, Cancelled] (order_status_name st) = Some st"
  by (cases st) (simp_all add: name_of_def)

lemma user_roundtrip: "user_of_json (user_json u) = Some u"
  by (simp add: user_json_def str_field_def get_field_def name_of_role)

lemma service_roundtrip: "service_of_json (service_json g) = Some g"
  by (simp add: service_json_def str_field_def int_field_def nat_field_def strs_field_def get_field_def
      name_of_service_status)

lemma order_roundtrip: "order_of_json (order_json od) = Some od"
  by (simp add: order_json_def str_field_def int_field_def get_field_def name_of_order_status)

lemma links_roundtrip:
  "those (map ((\<lambda>(k, v). map_option (Pair k) (json_string v)) \<circ> (\<lambda>(k, v). (k, JStr v))) ls) = Some ls"
  by (induction ls) auto

lemma settings_roundtrip: "settings_of_json (settings_json st) = Some st"
  by (simp add: settings_json_def str_field_def get_field_def links_roundtrip)

lemma session_roundtrip: "session_of_json (session_json u) = Some u"
  by (cases u) (simp_all add: session_json_def session_of_json_def user_roundtrip, simp add: user_json_def)

lemma codec_ok_json_codec: "(\<And>v. dec (enc v) = Some v) \<Longrightarrow> codec_ok (json_codec enc dec)"
  by (simp add: codec_ok_def json_codec_def json_parse_print print_json_not_undefined)

lemma codec_ok_list_codec:
  "(\<And>x. dec (enc x) = Some x) \<Longrightarrow> codec_ok (json_codec (\<lambda>xs. JArr (map enc xs)) (json_list dec))"
  by (rule codec_ok_json_codec) (rule json_list_roundtrip)

lemma json_codecs_ok: "codecs_ok json_codecs"
  by (simp add: codecs_ok_def json_codecs_def codec_ok_json_codec codec_ok_list_codec user_roundtrip
      service_roundtrip order_roundtrip settings_roundtrip session_roundtrip)

lemma json_tables_roundtrip: "tables_roundtrip json_codecs s"
  using json_codecs_ok by (simp add: tables_roundtrip_def codecs_ok_def codec_ok_roundtrips)

end
