(* ===== verification/Bootstrap.thy ===== *)
theory Bootstrap
  imports Store
begin

text \<open>
  The entry point \<open>src/index.tsx\<close>: it logs, looks up the mount point, and mounts the
  application inside a \<open>try\<close>; when the mount point is missing it logs and throws,
  and when the mount throws it replaces the page by an error page whose only button
  clears \<open>localStorage\<close> and reloads. Whether the element \<open>#root\<close> exists and whether
  \<open>createRoot(...).render(...)\<close> throws synchronously are parameters: they depend on
  the HTML page and on React, not on this code. An uncaught exception is the left value
  of a sum. The reload after clearing runs this file again and mounts the application,
  whose store starts with \<open>useStore_init\<close> on the emptied storage.
\<close>

section \<open>Mounting\<close>

datatype boot_screen = AppScreen | SystemErrorScreen

definition bootstrap :: "bool \<Rightarrow> bool \<Rightarrow> browser \<Rightarrow> (string + boot_screen) \<times> browser" where
  "bootstrap rootFound renderThrows b =
     (let b1 = console_log ''[Prithvi Creation] Initializing Marketplace Engine...'' b
      in if \<not> rootFound
         then (Inl ''Could not find root element to mount to'',
               console_error ''[Prithvi Creation] FATAL: Mount point #root not found in HTML.'' b1)
         else if renderThrows
         then (Inr SystemErrorScreen, console_error ''[Prithvi Creation] FATAL: React failed to render.'' b1)
         else (Inr AppScreen, console_log ''[Prithvi Creation] App Mounted Successfully.'' b1))"

text \<open>The button of the error page: \<open>localStorage.clear(); location.reload();\<close>, the reload
  mounting the application again.\<close>

definition clearData_reload ::
  "codecs \<Rightarrow> service list \<Rightarrow> order list \<Rightarrow> site_settings \<Rightarrow> browser \<Rightarrow> store" where
  "clearData_reload C iS iO iSt b = useStore_init C iS iO iSt (b\<lparr>items := []\<rparr>)"

section \<open>Properties of the entry point\<close>

text \<open>Mounting never changes the stored entries; it reaches the application exactly when
  the mount point exists and the mount does not throw, the error page when the mount
  throws, and an uncaught error otherwise; every outcome logs its message after the
  start-up line.\<close>

lemma bootstrap_outcome:
  "items (snd (bootstrap r t b)) = items b \<and>
   fst (bootstrap r t b) = (if \<not> r then Inl ''Could not find root element to mount to''
                            else if t then Inr SystemErrorScreen else Inr AppScreen) \<and>
   take (Suc (length (console b))) (console (snd (bootstrap r t b))) =
     console b @ [(Log, ''[Prithvi Creation] Initializing Marketplace Engine...'')]"
  by (simp add: bootstrap_def console_log_def console_error_def Let_def)

text \<open>C18. Recovery: after \<open>Clear Data & Reload\<close> the store holds the defaults (the
  seeded administrator as the only user, the initial gigs, orders and settings, no
  session) whatever the storage held before, and logging in with the administrator's
  credentials succeeds and gives an administrator session.\<close>

theorem clearData_reload_recovery:
  "users (clearData_reload C iS iO iSt b) = [admin_seed] \<and>
   services (clearData_reload C iS iO iSt b) = iS \<and>
   orders (clearData_reload C iS iO iSt b) = iO \<and>
   settings (clearData_reload C iS iO iSt b) = iSt \<and>
   currentUser (clearData_reload C iS iO iSt b) = None \<and>
   fst (login C (user_email admin_seed) (user_password admin_seed) (clearData_reload C iS iO iSt b)) \<and>
   isAdmin (snd (login C (user_email admin_seed) (user_password admin_seed) (clearData_reload C iS iO iSt b)))"
proof -
  have e: "getItem k (b\<lparr>items := []\<rparr>) = None" for k by (simp add: getItem_def)
  show ?thesis
    using e
    by (simp add: clearData_reload_def useStore_init_def load_tables_def split_def Let_def loadFromDB_fst
        loadFromDB_other load_value_def login_def isAdmin_def admin_seed_def del: db_key_name.simps)
qed

end
