(* ===== verification/Tabs.thy ===== *)
theory Tabs
  imports Store
begin

text \<open>
  Two browser tabs of the application on one origin. Each tab runs its own
  \<open>useStore\<close> with its own in-memory tables, while both read and write the one
  \<open>localStorage\<close> of the origin; \<open>src/store.ts\<close> reads the storage only in its
  initialisers and listens to no \<open>storage\<close> event, so a tab never sees the other's
  writes until it is reloaded. The state is the two stores and the shared browser
  (the \<open>world\<close> field of each tab's store is replaced by the shared one when the tab
  acts); one step is one store operation in one tab.
\<close>

section \<open>Two tabs\<close>

record two_tabs =
  tab_a :: store
  tab_b :: store
  shared :: browser

text \<open>Opening tab A, then tab B, on the same storage.\<close>

definition open_tabs :: "codecs \<Rightarrow> service list \<Rightarrow> order list \<Rightarrow> site_settings \<Rightarrow> browser \<Rightarrow> two_tabs" where
  "open_tabs C iS iO iSt b =
     (let sa = useStore_init C iS iO iSt b; sb = useStore_init C iS iO iSt (world sa)
      in \<lparr>tab_a = sa, tab_b = sb, shared = world sb\<rparr>)"

definition tab_step :: "codecs \<Rightarrow> bool \<Rightarrow> store_op \<Rightarrow> two_tabs \<Rightarrow> two_tabs" where
  "tab_step C inA a t =
     (if inA
      then (let s' = snd (exec_op C a ((tab_a t)\<lparr>world := shared t\<rparr>)) in t\<lparr>tab_a := s', shared := world s'\<rparr>)
      else (let s' = snd (exec_op C a ((tab_b t)\<lparr>world := shared t\<rparr>)) in t\<lparr>tab_b := s', shared := world s'\<rparr>))"

section \<open>Lemmas\<close>

lemma tab_step_other [simp]:
  "tab_b (tab_step C True a t) = tab_b t" "tab_a (tab_step C False a t) = tab_a t"
  by (simp_all add: tab_step_def Let_def)

text \<open>A successful sign-up writes the users table it extended, whatever the session
  write does afterwards, provided that users write fits.\<close>

lemma signup_users_entry:
  assumes "\<forall>u \<in> set (users s). user_email u \<noteq> e"
    and "fits (db_key_name USERS) (stringify (users_codec C) (users s @ [new_user n e p t])) (world s)"
  shows "getItem (db_key_name USERS) (world (snd (signup C n e p t s))) =
    Some (stringify (users_codec C) (users s @ [new_user n e p t]))"
  using assms
  by (simp add: signup_def run_effects_def getItem_saveToDB find_None_iff Let_def
      split: option.splits del: db_key_name.simps)


section \<open>Properties of two tabs\<close>

text \<open>C17. A sign-up in one tab is lost when the other tab signs up next: both sign-ups
  succeed, but the second tab writes its own users table, read when it was opened,
  extended by its new user, so a reload has the second account and not the first.\<close>

theorem two_tabs_lost_signup:
  assumes "codec_ok (users_codec C)"
    and "\<forall>u \<in> set (users (tab_a t)). user_email u \<noteq> ea"
    and "\<forall>u \<in> set (users (tab_b t)). user_email u \<noteq> ea \<and> user_email u \<noteq> eb" and "ea \<noteq> eb"
    and "fits (db_key_name USERS) (stringify (users_codec C) (users (tab_b t) @ [new_user nb eb pb tb]))
           (shared (tab_step C True (Signup na ea pa ta) t))"
  shows "fst (signup C na ea pa ta ((tab_a t)\<lparr>world := shared t\<rparr>)) \<and>
    fst (signup C nb eb pb tb ((tab_b t)\<lparr>world := shared (tab_step C True (Signup na ea pa ta) t)\<rparr>)) \<and>
    users (useStore_init C iS iO iSt
      (shared (tab_step C False (Signup nb eb pb tb) (tab_step C True (Signup na ea pa ta) t)))) =
      users (tab_b t) @ [new_user nb eb pb tb] \<and>
    (\<forall>u \<in> set (users (useStore_init C iS iO iSt
      (shared (tab_step C False (Signup nb eb pb tb) (tab_step C True (Signup na ea pa ta) t))))).
      user_email u \<noteq> ea)"
proof -
  let ?t1 = "tab_step C True (Signup na ea pa ta) t"
  let ?sb = "(tab_b t)\<lparr>world := shared ?t1\<rparr>"
  have fb: "\<forall>u \<in> set (users ?sb). user_email u \<noteq> eb" using assms(3) by simp
  have entry: "getItem (db_key_name USERS) (shared (tab_step C False (Signup nb eb pb tb) ?t1)) =
      Some (stringify (users_codec C) (users (tab_b t) @ [new_user nb eb pb tb]))"
    using signup_users_entry [OF fb] assms(5) by (simp add: tab_step_def Let_def)
  have r: "users (useStore_init C iS iO iSt (shared (tab_step C False (Signup nb eb pb tb) ?t1))) =
      users (tab_b t) @ [new_user nb eb pb tb]"
    using entry assms(1) by (simp add: useStore_init_fields load_value_roundtrips codec_ok_roundtrips)
  show ?thesis
    using r assms(2-4) by (auto simp add: signup_fst_iff)
qed

end
