(* ===== verification/Witnesses_UI.thy ===== *)
theory Witnesses_UI
  imports Witnesses Gigs Console Checkout Pages Codecs Tabs
begin

text \<open>
  Concrete gigs, orders and editor states for the properties of the admin console,
  the checkout and the pages, and the witness theorems that apply each property with
  hypotheses at one of them.
\<close>

section \<open>Fixtures\<close>

definition demo_gig :: service where
  "demo_gig =
     \<lparr>svc_id = ''g1'', title = ''Logo design'', description = ''A logo'', price = 50,
      category = ''Graphic Design'', deliveryDays = 3, revisions = 2, images = [''logo.png''],
      videos = [], pdfs = [], features = [''Source files''], svc_status = Published,
      impressions = 4, clicks = 1\<rparr>"

definition draft_gig :: service where
  "draft_gig = demo_gig\<lparr>svc_id := ''g2'', svc_status := Draft\<rparr>"

definition gig_store :: store where
  "gig_store = demo_store\<lparr>services := [demo_gig]\<rparr>"

definition draft_store :: store where
  "draft_store = demo_store\<lparr>services := [draft_gig, demo_gig]\<rparr>"

definition edit_ed :: gig_editor where
  "edit_ed = editForm (EditPrice 80) (handleOpenModal (Some demo_gig) gig_editor_init)"

definition new_ed :: gig_editor where
  "new_ed = editForm (EditStatus Draft) (editForm (EditTitle ''Intro'') (handleOpenModal None gig_editor_init))"

definition clip_ed :: gig_editor where
  "clip_ed = gig_editor_init\<lparr>formData := empty_form\<lparr>f_images := [''clip.mp4'']\<rparr>\<rparr>"

definition demo_order :: order where
  "demo_order =
     \<lparr>order_id = ''ORD-1'', serviceId = ''g1'', clientName = ''Ann'', clientEmail = ''ann@x.com'',
      order_status = Pending, totalAmount = 50, createdAt = ''2026-01-01'', details = ''A logo''\<rparr>"

definition order_store :: store where
  "order_store = demo_store\<lparr>orders := [demo_order]\<rparr>"

definition email_codec :: "user list codec" where
  "email_codec = \<lparr>stringify = (\<lambda>us. concat (map user_email us)), parse = (\<lambda>_. None)\<rparr>"

definition tight_codecs :: codecs where
  "tight_codecs = demo_codecs\<lparr>users_codec := email_codec\<rparr>"

definition tight_store :: store where
  "tight_store =
     demo_store\<lparr>world := \<lparr>items = [(''pc_db_current_session'', ''0123456789'')], quota = 45,
                          console = [], alerts = [], outbox = []\<rparr>\<rparr>"

definition json_store :: store where
  "json_store =
     demo_store\<lparr>users := [admin_seed], currentUser := Some admin_seed,
       world := \<lparr>items = [(db_key_name USERS, stringify (users_codec json_codecs) [admin_seed]),
                         (db_key_name SERVICES, stringify (services_codec json_codecs) []),
                         (db_key_name ORDERS, stringify (orders_codec json_codecs) []),
                         (db_key_name SETTINGS, stringify (settings_codec json_codecs) demo_settings),
                         (db_key_name SESSION, stringify (session_codec json_codecs) (Some admin_seed))],
                quota = 10000, console = [], alerts = [], outbox = []\<rparr>\<rparr>"

definition second_order :: order where
  "second_order = demo_order\<lparr>order_id := ''ORD-2'', clientName := ''Bo'', clientEmail := ''bo@x.com''\<rparr>"

definition queue_store :: store where
  "queue_store = demo_store\<lparr>orders := [demo_order, second_order]\<rparr>"

definition click_a :: "order_queue \<times> store \<times> order option" where
  "click_a = handleStatusUpdate_click demo_codecs ''ORD-1'' Completed (\<lparr>updatingId = None\<rparr>, queue_store)"

definition click_b :: "order_queue \<times> store \<times> order option" where
  "click_b = handleStatusUpdate_click demo_codecs ''ORD-2'' Cancelled (fst click_a, fst (snd click_a))"

definition done_a :: "order_queue \<times> store" where
  "done_a = handleStatusUpdate_done (snd (snd click_a)) FetchOk (fst click_b, fst (snd click_b))"

definition tabs_fixture :: two_tabs where
  "tabs_fixture = \<lparr>tab_a = demo_store, tab_b = demo_store,
     shared = \<lparr>items = [], quota = 10000, console = [], alerts = [], outbox = []\<rparr>\<rparr>"

lemmas ui_fixture_defs = demo_gig_def draft_gig_def gig_store_def draft_store_def edit_ed_def
  new_ed_def clip_ed_def demo_order_def order_store_def email_codec_def
  tight_codecs_def tight_store_def json_store_def second_order_def queue_store_def

section \<open>Witnesses\<close>

theorem publish_edit_spec_witness:
  "editingId edit_ed = Some ''g1'' \<and>
   length (services (snd (publishGig demo_codecs ''r'' 9 (edit_ed, gig_store)))) = 1 \<and>
   price (services (snd (publishGig demo_codecs ''r'' 9 (edit_ed, gig_store))) ! 0) = 80 \<and>
   svc_status (services (snd (publishGig demo_codecs ''r'' 9 (edit_ed, gig_store))) ! 0) = Published"
proof -
  have h: "editingId edit_ed = Some ''g1''"
    by (simp add: edit_ed_def editForm_def handleOpenModal_def demo_gig_def)
  have p: "f_price (formData edit_ed) = 80"
    by (simp add: edit_ed_def editForm_def)
  show ?thesis
    using publish_edit_spec [OF h, of demo_codecs "''r''" 9 gig_store] h p
    by (simp add: gig_store_def demo_gig_def)
qed

theorem publish_create_spec_witness:
  "editingId new_ed = None \<and> f_status (formData new_ed) = Draft \<and>
   (\<exists>g. services (snd (publishGig demo_codecs ''r'' 1700 (new_ed, demo_store))) = [g] \<and>
      svc_status g = Published \<and> title g = ''Intro'')"
proof -
  have h: "editingId new_ed = None"
    by (simp add: new_ed_def editForm_def handleOpenModal_def)
  have f: "f_status (formData new_ed) = Draft \<and> f_title (formData new_ed) = ''Intro''"
    by (simp add: new_ed_def editForm_def)
  show ?thesis
    using publish_create_spec [OF h, of demo_codecs "''r''" 1700 demo_store] h f
    by (auto simp add: demo_store_def)
qed

theorem reopen_publish_roundtrip_witness:
  "distinct (map svc_id (services gig_store)) \<and> demo_gig \<in> set (services gig_store) \<and>
   images demo_gig \<noteq> [] \<and> svc_status demo_gig = Published \<and>
   services (snd (publishGig demo_codecs ''r'' 9 (handleOpenModal (Some demo_gig) edit_ed, gig_store))) =
     [demo_gig]"
proof -
  have h1: "distinct (map svc_id (services gig_store))" by (simp add: gig_store_def)
  have h2: "demo_gig \<in> set (services gig_store)" by (simp add: gig_store_def)
  have h3: "images demo_gig \<noteq> []" by (simp add: demo_gig_def)
  have h4: "\<forall>x \<in> set (features demo_gig). js_trim x \<noteq> []" by (simp add: demo_gig_def js_trim_empty_iff js_is_space_def)
  have h5: "svc_status demo_gig = Published" by (simp add: demo_gig_def)
  show ?thesis
    using reopen_publish_roundtrip [OF h1 h2 h3 h4 h5, of demo_codecs "''r''" 9 edit_ed] h1 h2 h3 h5
    by (simp add: gig_store_def)
qed

theorem upload_order_independent_witness:
  "mset [''data:image/png;a'', ''data:video/mp4;b''] = mset [''data:video/mp4;b'', ''data:image/png;a''] \<and>
   mset (form_field Images (formData (handleFileUpload Images (Some [''data:image/png;a'', ''data:video/mp4;b'']) gig_editor_init))) =
   mset (form_field Images (formData (handleFileUpload Images (Some [''data:video/mp4;b'', ''data:image/png;a'']) gig_editor_init))) \<and>
   form_field Videos (formData (handleFileUpload Images (Some [''data:image/png;a'', ''data:video/mp4;b'']) gig_editor_init)) =
     [''data:video/mp4;b'']"
proof -
  have h: "mset [''data:image/png;a'', ''data:video/mp4;b''] = mset [''data:video/mp4;b'', ''data:image/png;a'']"
    by simp
  have v: "form_field Videos (formData (handleFileUpload Images (Some [''data:image/png;a'', ''data:video/mp4;b'']) gig_editor_init)) =
     [''data:video/mp4;b'']"
    by code_simp
  show ?thesis
    using upload_order_independent [OF h, of Images Images gig_editor_init] h v by simp
qed

theorem gallery_delete_video_suffix_witness:
  "isVideoMedia ''clip.mp4'' \<and> f_images (formData (deleteGalleryItem ''clip.mp4'' clip_ed)) = [''clip.mp4'']"
proof -
  have h: "isVideoMedia ''clip.mp4''" by code_simp
  show ?thesis
    using gallery_delete_video_suffix [OF h, of clip_ed] h by (simp add: clip_ed_def)
qed

theorem status_update_orders_witness:
  "orders (snd (handleStatusUpdate demo_codecs ''ORD-1'' Completed FetchOk
     (\<lparr>updatingId = None\<rparr>, order_store))) = [demo_order\<lparr>order_status := Completed\<rparr>] \<and>
   updatingId (fst (handleStatusUpdate demo_codecs ''ORD-1'' Completed FetchOk
     (\<lparr>updatingId = None\<rparr>, order_store))) = None"
  using status_update_orders [of demo_codecs "''ORD-1''" Completed FetchOk "\<lparr>updatingId = None\<rparr>" order_store]
  by (auto simp add: order_store_def demo_order_def length_Suc_conv)

theorem order_failed_spec_witness:
  "FetchNotOk \<noteq> FetchOk \<and>
   orders (snd (handleOrder demo_codecs demo_gig FetchNotOk 7 ''t'' (checkout_init gig_store, gig_store))) = [] \<and>
   \<not> isSuccess (fst (handleOrder demo_codecs demo_gig FetchNotOk 7 ''t'' (checkout_init gig_store, gig_store))) \<and>
   co_error (fst (handleOrder demo_codecs demo_gig FetchNotOk 7 ''t'' (checkout_init gig_store, gig_store))) \<noteq> []"
proof -
  have h: "FetchNotOk \<noteq> FetchOk" by simp
  show ?thesis
    using order_failed_spec [OF h, of demo_codecs demo_gig 7 "''t''" "checkout_init gig_store" gig_store]
    by (simp add: gig_store_def demo_store_def checkout_init_def)
qed

theorem signup_page_outcome_witness:
  "(\<exists>u \<in> set (users admin_store). user_email u = ''admin@prithvi.com'') \<and>
   af_error (fst (SignUp_handleSubmit demo_codecs ''B'' ''admin@prithvi.com'' ''pw'' FetchOk ''t'' 5
     (auth_form_init, admin_store))) \<noteq> [] \<and>
   \<not> af_submitting (fst (SignUp_handleSubmit demo_codecs ''B'' ''admin@prithvi.com'' ''pw'' FetchOk ''t'' 5
     (auth_form_init, admin_store)))"
proof -
  have h: "\<exists>u \<in> set (users admin_store). user_email u = ''admin@prithvi.com''"
    by (simp add: admin_store_def admin_seed_def)
  show ?thesis
    using signup_page_outcome [of demo_codecs "''B''" "''admin@prithvi.com''" "''pw''" FetchOk "''t''" 5
        auth_form_init admin_store FetchOk] h
    by auto
qed

theorem home_shows_drafts_witness:
  "distinct (map svc_id (services draft_store)) \<and> services draft_store = draft_gig # [demo_gig] \<and>
   svc_status draft_gig = Draft \<and>
   gig_card draft_gig \<in> set (home_featured draft_store) \<and> gig_card draft_gig \<notin> set (services_page draft_store)"
proof -
  have h1: "distinct (map svc_id (services draft_store))"
    by (simp add: draft_store_def draft_gig_def demo_gig_def)
  have h2: "services draft_store = draft_gig # [demo_gig]" by (simp add: draft_store_def)
  have h3: "svc_status draft_gig = Draft" by (simp add: draft_gig_def)
  show ?thesis using home_shows_drafts [OF h1 h2 h3] h1 h2 h3 by simp
qed

theorem detail_active_media_witness:
  "activeMediaUrl demo_gig 5 = Some ''logo.png'' \<and>
   activeMediaUrl (demo_gig\<lparr>images := []\<rparr>) 0 = None \<and> \<not> activeIsVideo (demo_gig\<lparr>images := []\<rparr>) 0"
  using detail_active_media [of demo_gig 5] detail_active_media [of "demo_gig\<lparr>images := []\<rparr>" 0]
  by (simp add: allMedia_def demo_gig_def js_at_def)

theorem save_load_roundtrip_witness:
  "codec_ok (users_codec json_codecs) \<and>
   fits ''pc_db_users'' (stringify (users_codec json_codecs) [admin_seed]) demo_browser \<and>
   fst (loadFromDB (users_codec json_codecs) ''pc_db_users'' []
     (saveToDB (users_codec json_codecs) ''pc_db_users'' [admin_seed] demo_browser)) = [admin_seed]"
proof -
  have h1: "codec_ok (users_codec json_codecs)" using json_codecs_ok by (simp add: codecs_ok_def)
  have h2: "fits ''pc_db_users'' (stringify (users_codec json_codecs) [admin_seed]) demo_browser"
    by code_simp
  show ?thesis using save_load_roundtrip [OF h1 h2, of "[]"] h1 h2 by simp
qed

theorem admin_never_locked_out_witness:
  "reachable demo_codecs admin_store (snd (signup demo_codecs ''A'' ''a@x.com'' ''pw'' 5 admin_store)) \<and>
   emails_distinct admin_store \<and> admin_seed \<in> set (users admin_store) \<and>
   isAdmin (snd (login demo_codecs ''admin@prithvi.com'' ''admin123''
     (snd (signup demo_codecs ''A'' ''a@x.com'' ''pw'' 5 admin_store))))"
proof -
  have st: "store_step demo_codecs admin_store (snd (signup demo_codecs ''A'' ''a@x.com'' ''pw'' 5 admin_store))"
    by (rule store_step.op [where a = "Signup ''A'' ''a@x.com'' ''pw'' 5"]) (simp add: prod_eq_iff)
  have r: "reachable demo_codecs admin_store (snd (signup demo_codecs ''A'' ''a@x.com'' ''pw'' 5 admin_store))"
    by (rule reachable.step [OF reachable.init st])
  have d: "emails_distinct admin_store" by (simp add: emails_distinct_def admin_store_def demo_store_def)
  have m: "admin_seed \<in> set (users admin_store)" by (simp add: admin_store_def demo_store_def)
  show ?thesis using admin_never_locked_out [OF r d m] r d m by (simp add: admin_seed_def)
qed

theorem concurrent_status_updates_witness:
  "row_disabled (order_row (fst click_b) second_order) \<and>
   \<not> row_disabled (order_row (fst done_a) second_order) \<and>
   orders (snd done_a) = [demo_order\<lparr>order_status := Completed\<rparr>, second_order\<lparr>order_status := Cancelled\<rparr>]"
proof -
  have "''ORD-1'' \<noteq> ''ORD-2''" by simp
  moreover have "handleStatusUpdate_click demo_codecs ''ORD-1'' Completed (\<lparr>updatingId = None\<rparr>, queue_store) =
      (fst click_a, fst (snd click_a), snd (snd click_a))" by (simp add: click_a_def)
  moreover have "handleStatusUpdate_click demo_codecs ''ORD-2'' Cancelled (fst click_a, fst (snd click_a)) =
      (fst click_b, fst (snd click_b), snd (snd click_b))" by (simp add: click_b_def)
  moreover have "handleStatusUpdate_done (snd (snd click_a)) FetchOk (fst click_b, fst (snd click_b)) =
      (fst done_a, snd done_a)" by (simp add: done_a_def)
  ultimately have "row_disabled (order_row (fst click_b) second_order) = (order_id second_order = ''ORD-2'') \<and>
    \<not> row_disabled (order_row (fst done_a) second_order) \<and>
    orders (snd done_a) = map (\<lambda>od. if order_id od = ''ORD-1'' then od\<lparr>order_status := Completed\<rparr>
        else if order_id od = ''ORD-2'' then od\<lparr>order_status := Cancelled\<rparr> else od) (orders queue_store)"
    by (rule concurrent_status_updates)
  then show ?thesis by (simp add: queue_store_def demo_store_def second_order_def demo_order_def)
qed

theorem gallery_delete_exact_witness:
  "gig_modal_view (clip_ed\<lparr>isModalOpen := True\<rparr>) = Some (the (gig_modal_view (clip_ed\<lparr>isModalOpen := True\<rparr>))) \<and>
   (''clip.mp4'', True) \<in> set (gm_gallery (the (gig_modal_view (clip_ed\<lparr>isModalOpen := True\<rparr>)))) \<and>
   ''clip.mp4'' \<in> set (map fst (gm_gallery (the (gig_modal_view
      (deleteGalleryItem ''clip.mp4'' (clip_ed\<lparr>isModalOpen := True\<rparr>))))))"
proof -
  have v: "isVideoMedia ''clip.mp4''" by code_simp
  have h1: "gig_modal_view (clip_ed\<lparr>isModalOpen := True\<rparr>) = Some (the (gig_modal_view (clip_ed\<lparr>isModalOpen := True\<rparr>)))"
    by (simp add: gig_modal_view_def)
  have h2: "(''clip.mp4'', True) \<in> set (gm_gallery (the (gig_modal_view (clip_ed\<lparr>isModalOpen := True\<rparr>))))"
    using v by (simp add: gig_modal_view_def clip_ed_def empty_form_def)
  obtain m' where "gig_modal_view (deleteGalleryItem ''clip.mp4'' (clip_ed\<lparr>isModalOpen := True\<rparr>)) = Some m'"
    and "''clip.mp4'' \<in> set (map fst (gm_gallery m'))"
    using gallery_delete_exact [OF h1 h2] by (auto simp add: clip_ed_def empty_form_def)
  with h1 h2 show ?thesis by simp
qed

theorem login_page_flow_witness:
  "login_can_submit \<lparr>lp_email = ''admin@prithvi.com'', lp_password = ''admin123'', lp_form = auth_form_init\<rparr> \<and>
   \<not> isAuthenticated (admin_store\<lparr>currentUser := None\<rparr>) \<and>
   Login_view (fst (login_submit demo_codecs FetchThrows ''t''
       (\<lparr>lp_email = ''admin@prithvi.com'', lp_password = ''admin123'', lp_form = auth_form_init\<rparr>,
        admin_store\<lparr>currentUser := None\<rparr>)))
     (snd (login_submit demo_codecs FetchThrows ''t''
       (\<lparr>lp_email = ''admin@prithvi.com'', lp_password = ''admin123'', lp_form = auth_form_init\<rparr>,
        admin_store\<lparr>currentUser := None\<rparr>))) = AuthRedirect ''/admin''"
proof -
  have h1: "login_can_submit \<lparr>lp_email = ''admin@prithvi.com'', lp_password = ''admin123'', lp_form = auth_form_init\<rparr>"
    by (simp add: login_can_submit_def auth_form_init_def)
  have h2: "\<not> isAuthenticated (admin_store\<lparr>currentUser := None\<rparr>)" by (simp add: isAuthenticated_def)
  show ?thesis
    using conjunct2 [OF login_page_flow [OF h1 h2, of demo_codecs FetchThrows "''t''" FetchThrows]] h1 h2
    by (simp add: admin_store_def demo_store_def admin_seed_def)
qed

theorem two_tabs_lost_signup_witness:
  "codec_ok (users_codec json_codecs) \<and>
   users (useStore_init json_codecs [] [] demo_settings
     (shared (tab_step json_codecs False (Signup ''B'' ''b@x.com'' ''pw'' 2)
       (tab_step json_codecs True (Signup ''A'' ''a@x.com'' ''pw'' 1) tabs_fixture)))) =
     [new_user ''B'' ''b@x.com'' ''pw'' 2]"
proof -
  have c: "codec_ok (users_codec json_codecs)" using json_codecs_ok by (simp add: codecs_ok_def)
  have f: "fits (db_key_name USERS)
      (stringify (users_codec json_codecs) (users (tab_b tabs_fixture) @ [new_user ''B'' ''b@x.com'' ''pw'' 2]))
      (shared (tab_step json_codecs True (Signup ''A'' ''a@x.com'' ''pw'' 1) tabs_fixture))"
    by code_simp
  show ?thesis
    using two_tabs_lost_signup [OF c _ _ _ f, of "[]" "[]" demo_settings] c
    by (simp add: tabs_fixture_def demo_store_def)
qed

theorem remove_media_feature_spec_witness:
  "f_images (formData (removeMedia Images 0 clip_ed)) = [] \<and>
   f_videos (formData (removeMedia Images 0 clip_ed)) = f_videos (formData clip_ed) \<and>
   f_features (formData (removeFeature 0 clip_ed)) = []"
proof -
  from remove_media_feature_spec [of Images 0 clip_ed]
  have "form_field Images (formData (removeMedia Images 0 clip_ed)) =
      take 0 (form_field Images (formData clip_ed)) @ drop 1 (form_field Images (formData clip_ed))"
    and "form_field Videos (formData (removeMedia Images 0 clip_ed)) = form_field Videos (formData clip_ed)"
    and "f_features (formData (removeFeature 0 clip_ed)) =
      take 0 (f_features (formData clip_ed)) @ drop 1 (f_features (formData clip_ed))"
    by auto
  then show ?thesis by (simp add: clip_ed_def empty_form_def)
qed

theorem signup_page_flow_witness:
  "signup_can_submit \<lparr>sp_name = ''A'', sp_email = ''a@x.com'', sp_password = ''secret'', sp_form = auth_form_init\<rparr> \<and>
   \<not> isAuthenticated demo_store \<and>
   SignUp_view (fst (signup_submit demo_codecs FetchOk ''t'' 5
       (\<lparr>sp_name = ''A'', sp_email = ''a@x.com'', sp_password = ''secret'', sp_form = auth_form_init\<rparr>, demo_store)))
     (snd (signup_submit demo_codecs FetchOk ''t'' 5
       (\<lparr>sp_name = ''A'', sp_email = ''a@x.com'', sp_password = ''secret'', sp_form = auth_form_init\<rparr>, demo_store))) =
   AuthRedirect ''/''"
proof -
  have h1: "signup_can_submit \<lparr>sp_name = ''A'', sp_email = ''a@x.com'', sp_password = ''secret'', sp_form = auth_form_init\<rparr>"
    by (simp add: signup_can_submit_def auth_form_init_def)
  have h2: "\<not> isAuthenticated demo_store" by (simp add: isAuthenticated_def demo_store_def)
  show ?thesis
    using signup_page_flow [OF h1 h2, of demo_codecs FetchOk "''t''" 5] h1 h2 by (simp add: demo_store_def)
qed

theorem contact_flow_witness:
  "contact_can_submit (contact_init\<lparr>ct_form := \<lparr>ct_name = ''Ann'', ct_email = ''ann@x.com'', ct_details = ''Edit''\<rparr>\<rparr>) \<and>
   \<not> submitted (contact_init\<lparr>ct_form := \<lparr>ct_name = ''Ann'', ct_email = ''ann@x.com'', ct_details = ''Edit''\<rparr>\<rparr>) \<and>
   Contact_view (fst (contact_submit FetchOk
     (contact_init\<lparr>ct_form := \<lparr>ct_name = ''Ann'', ct_email = ''ann@x.com'', ct_details = ''Edit''\<rparr>\<rparr>, demo_browser))) =
   ContactThanks ''Ann'' ''ann@x.com''"
proof -
  have h1: "contact_can_submit (contact_init\<lparr>ct_form := \<lparr>ct_name = ''Ann'', ct_email = ''ann@x.com'', ct_details = ''Edit''\<rparr>\<rparr>)"
    by (simp add: contact_can_submit_def contact_init_def)
  have h2: "\<not> submitted (contact_init\<lparr>ct_form := \<lparr>ct_name = ''Ann'', ct_email = ''ann@x.com'', ct_details = ''Edit''\<rparr>\<rparr>)"
    by (simp add: contact_init_def)
  show ?thesis using contact_flow [OF h1 h2, of FetchOk demo_browser] h1 h2 by simp
qed

end
