(* ===== verification/Spec2Isabelle.thy ===== *)
theory Spec2Isabelle
  imports Store Witnesses Gigs Console Checkout Pages Json Codecs Bootstrap Tabs Witnesses_UI
begin

text \<open>
  \<^bold>\<open>A verification library for the Prithvi Creation storefront.\<close>

  \<^medskip>\<^bold>\<open>The program.\<close> A client-only marketplace written in TypeScript and React: visitors
  browse gigs (services), order them through a form relay, sign up and log in; an
  administrator edits gigs, moves orders through their statuses and edits the site
  settings. All state lives in the browser: \<open>src/store.ts\<close> (\<open>useStore\<close>) owns five
  tables (users, services, orders, settings, current session), loads each from its own
  \<open>localStorage\<close> entry at start-up, writes each back when it changes, and exposes
  the only mutation entry points (\<open>setServices\<close>, \<open>setOrders\<close>, \<open>setSettings\<close>,
  \<open>login\<close>, \<open>signup\<close>, \<open>logout\<close>). The pages under \<open>src/pages\<close> and
  \<open>src/components\<close> read the tables and call these setters; the admin console
  (\<open>AdminDashboard.tsx\<close>) and the checkout (\<open>Checkout.tsx\<close>) build new collection
  values and hand them to the store.

  \<^medskip>\<^bold>\<open>The theories.\<close>
  \<^item> \<open>Prelude\<close>: the JavaScript string primitives the sources call
    (\<open>startsWith\<close>, \<open>endsWith\<close>, \<open>toLowerCase\<close>, \<open>trim\<close>, \<open>toString\<close> of a
    number) as executable functions, the idiom \<open>xs.map(x => p(x) ? f(x) : x)\<close>
    (\<open>map_where\<close>), association-list sizes, and shared lemmas on \<open>find\<close>.
  \<^item> \<open>Storage\<close>: the platform, not code of the repository. \<open>localStorage\<close> is an
    association list with a quota counted in characters: \<open>setItem\<close> fails with
    \<open>QuotaExceededError\<close> when the entries would exceed it and then leaves the storage
    unchanged; the console and \<open>alert\<close> are logs. The serialiser of one collection
    (\<open>JSON.stringify\<close>/\<open>JSON.parse\<close>) is the interface \<open>codec\<close>, with
    \<open>codec_ok\<close> its contract (parsing a printed value gives it back).
  \<^item> \<open>Model\<close>: the entities of \<open>types.ts\<close> (not under \<open>src/\<close>, modelled from the
    spec's data model and from the fields the sources use) as records and datatypes.
  \<^item> \<open>Store\<close>: \<open>src/store.ts\<close> line by line: \<open>DB_KEYS\<close> (\<open>db_key\<close>,
    \<open>db_key_name\<close>), \<open>loadFromDB\<close>, \<open>saveToDB\<close>, the seeded administrator
    (\<open>admin_seed\<close>), the \<open>useState\<close> initialisers (\<open>load_tables\<close>), the five
    effects (\<open>sync_effect\<close>, run in declaration order at mount by
    \<open>useStore_init\<close>), the actions \<open>setServices\<close>, \<open>setOrders\<close>, \<open>setSettings\<close>,
    \<open>login\<close>, \<open>signup\<close> (with \<open>new_user\<close>), \<open>logout\<close> and the derived
    \<open>isAuthenticated\<close>, \<open>isAdmin\<close>. The store's state is the record \<open>store\<close>: the
    five tables and the browser (\<open>world\<close>). An action is a function from store to
    store (with the boolean it returns); its effect runs after it, as React runs the
    effect whose dependency changed after the render; the two effects of
    \<open>signup\<close> run users first, then session. The operations form the datatype
    \<open>store_op\<close>, one step of any of them the relation \<open>store_step\<close>, and
    \<open>reachable\<close> the states a sequence of calls reaches.
  \<^item> \<open>Json\<close>: the platform's \<open>JSON.stringify\<close> and \<open>JSON.parse\<close> on the
    values the store writes (null, booleans, integers, strings with their escapes,
    arrays, objects): the printer \<open>print_json\<close> and a recursive-descent parser
    (\<open>p_value\<close>, \<open>p_items\<close>, \<open>p_members\<close>, \<open>json_parse\<close>) of type
    \<open>string \<Rightarrow> ('a \<times> string) option\<close>, with the round trip
    \<open>json_parse (print_json j) = Some j\<close>.
  \<^item> \<open>Codecs\<close>: the JSON shape of each entity (\<open>user_json\<close>, \<open>service_json\<close>,
    \<open>order_json\<close>, \<open>settings_json\<close>, \<open>session_json\<close>) and its decoder, so that
    \<open>json_codecs\<close>, the serialisers \<open>store.ts\<close> calls, satisfy \<open>codec_ok\<close>: the
    properties of \<open>Store\<close> stated over any lawful codec hold of the real one.
  \<^item> \<open>Gigs\<close>: the gig editor \<open>ServicesManagement\<close> of
    \<open>src/pages/AdminDashboard.tsx\<close>. Its state (the \<open>useState\<close> hooks) is the record
    \<open>gig_editor\<close> with the form \<open>service_form\<close>; each handler is a function on it:
    \<open>handleOpenModal\<close>, the inputs and status toggle (\<open>form_edit\<close>, \<open>editForm\<close>),
    \<open>handleFileUpload\<close> (the fold of the per-file \<open>onloadend\<close> update,
    \<open>upload_loaded\<close>, over the order in which the readers finish), \<open>removeMedia\<close>,
    the gallery's delete button (\<open>deleteGalleryItem\<close>), \<open>updateFeature\<close>,
    \<open>addFeature\<close>, \<open>removeFeature\<close>. \<open>handleSaveService\<close> is two phases, as the
    \<open>await\<close> splits it: the click (\<open>handleSaveService_click\<close>) snapshots the form
    and the gig list, the completion (\<open>handleSaveService_done\<close>) calls
    \<open>setServices\<close> with \<open>saved_services\<close>; \<open>publishGig\<close> is the only button that
    calls it. The description's \<open>RichTextEditor\<close> is the record \<open>rte\<close> (the
    element's content) with its write-back effect (\<open>rte_effect\<close>), its toolbar
    (\<open>handleCommand\<close>, \<open>execCommand\<close> a parameter) and its events inside the form
    (\<open>description_event\<close>); what the editor shows is \<open>gigs_list_view\<close> (the gig
    cards) and \<open>gig_modal_view\<close> (tabs, gallery grid, PDF rows, status and footer
    buttons).
  \<^item> \<open>Console\<close>: the rest of the console: \<open>handleStatusUpdate\<close> of the order queue
    in its two phases (\<open>handleStatusUpdate_click\<close>: store update, \<open>updatingId\<close>
    set, notification post; \<open>handleStatusUpdate_done\<close>: the error log and the reset
    of \<open>updatingId\<close>), the rows of \<open>OrdersManagement\<close> with their disabled
    selects (\<open>OrdersManagement_view\<close>), the figures of \<open>StatsOverview\<close>
    (\<open>activeOrders\<close>, \<open>totalRevenue\<close>, \<open>recentOrders\<close>), \<open>handleUpdate\<close> and
    \<open>handleSeoUpdate\<close> of the site editor, the sidebar links and the routes.
  \<^item> \<open>Checkout\<close>: \<open>src/pages/Checkout.tsx\<close>: lookup, prefill and its effect,
    \<open>handleOrder\<close> on each outcome of the \<open>fetch\<close>, and the screen shown.
  \<^item> \<open>Pages\<close>: \<open>Login.tsx\<close>, \<open>SignUp.tsx\<close> and \<open>Contact.tsx\<close> whole: their
    state (\<open>login_page\<close>, \<open>signup_page\<close>, \<open>contact\<close>), input handlers,
    \<open>handleSubmit\<close>, the submission the browser allows (\<open>login_submit\<close>,
    \<open>signup_submit\<close>, \<open>contact_submit\<close>: \<open>required\<close>, \<open>minLength\<close>, the disabled
    button) and the screen shown (\<open>Login_view\<close>, \<open>SignUp_view\<close>,
    \<open>Contact_view\<close>); the gig lists of \<open>Services.tsx\<close> and \<open>Home.tsx\<close>; the detail
    view of \<open>ServiceDetail.tsx\<close> with its thumbnail click; \<open>Navbar.tsx\<close> (its
    mobile menu, events and view) and \<open>Footer.tsx\<close>.
  \<^item> \<open>Tabs\<close>: two tabs of the application sharing one \<open>localStorage\<close>, each with
    its own store (\<open>open_tabs\<close>, \<open>tab_step\<close>): the platform's side of an interleaving
    that \<open>store.ts\<close> does not handle, as it listens to no \<open>storage\<close> event.
  \<^item> \<open>Bootstrap\<close>: \<open>src/index.tsx\<close>: the mount, its uncaught error and its error
    page, and that page's \<open>Clear Data & Reload\<close> (\<open>clearData_reload\<close>).
  \<^item> \<open>Witnesses\<close>, \<open>Witnesses_UI\<close>: concrete stores, browsers, gigs, orders and
    editor states, and the theorems that apply each property with hypotheses at one
    of them (the witnesses of the properties of this theory follow them here).
  \<^item> This theory: the header and the properties that span components.

  \<^medskip>\<^bold>\<open>How the parts interact.\<close> Every page receives the store and changes it
  only through its setters, so every handler of the UI theories is a function of the
  page's own state and the \<open>store\<close> that ends in one of the actions of \<open>Store\<close>;
  the network is the outcome of one \<open>fetch\<close> (\<open>fetch_result\<close>) and the post it
  sends is appended to the browser's \<open>outbox\<close>.

  \<^medskip>\<^bold>\<open>What is proved.\<close> For the store (C1 to C18 of the manifest): reload
  fidelity (a synced store reloads to the same tables with any lawful codec, and
  \<open>setOrders\<close> keeps it synced when the write fits); that a saved value loads back;
  independence of the five collections at start-up; every branch of \<open>loadFromDB\<close>
  (missing, empty, \<open>undefined\<close>, corrupt, valid) and of \<open>saveToDB\<close> (written,
  quota exceeded); the contracts of \<open>login\<close>, \<open>signup\<close> and \<open>logout\<close>; the
  invariants of every reachable state (unique e-mail addresses, no new
  administrators), by rule induction on \<open>reachable\<close>; that the seeded administrator
  can always log in again; that every operation refines the spec's two-state session
  machine; with two tabs open on one storage, that a sign-up in one tab is lost when
  the other tab signs up next; and that \<open>Clear Data & Reload\<close> restores the defaults
  with a working administrator login. For the gig editor (C19 to C25): the result of
  publishing an edited and a new gig, that reopening and republishing a clean gig
  changes nothing, that the readers' completion order does not matter, what the media
  and feature delete buttons remove, what the gallery grid shows after its Delete
  button, and that the description editor never rewrites its own content. For the
  console (C26 to C29): status updates (frame, notification, revenue) and two
  interleaved status updates, where the completion of the first re-enables the select
  of the second while its request is pending. For the checkout (C30, C31) and the
  pages (C32 to C36): every outcome of \<open>handleOrder\<close>, the login, sign-up and contact
  flows from submission to the screen shown, and draft gigs on the home page. Across
  components (C37 to C40, in this theory): a quota failure of the users write of
  \<open>signup\<close> does not leave the session entry removed, because the session effect runs
  after the users effect and writes it back; the Recent Orders panel shows the first
  four orders and a checkout never changes it once four exist; an edit made during the
  wait of \<open>handleSaveService\<close> is lost; two checkouts that draw the same random number
  give two orders with one id, both changed by one status update. Several of these
  state defects of the code; the manifest lists them as findings. Further lemmas, not
  in the manifest, cover the views: the publish buttons are disabled during the wait,
  every saved gig is listed as \<open>Live\<close>, a password under six characters never reaches
  the store, the navbar's logout and mobile links, the footer's social icons, and the
  site name shown by the editor, the navbar and the footer. The theory \<open>Codecs\<close>
  shows that the JSON serialisers satisfy the codec contract, so the store properties
  stated over a lawful codec hold of the serialisers the code calls.

  \<^medskip>\<^bold>\<open>Bounds and choices.\<close> No loop of the repository needs fuel: every
  function of its code is structurally recursive or a fold over a list, and the uploads
  are a fold over a finite list of completed readers. The only fuel is the JSON
  parser's: each nested call consumes a character, so \<open>Suc (2 * length s)\<close> levels
  are enough, and \<open>Json.json_fuel_enough\<close> proves that more fuel gives the same
  result. The quota is a parameter of the browser; the
  properties about successful writes assume the write \<open>fits\<close>, the properties
  about failures assume it does not. Random numbers, \<open>Date.now()\<close> and ISO time
  stamps are parameters. React's \<open>StrictMode\<close> double invocation in development
  builds is not modelled (production semantics). A setter always runs its effect:
  every call site in the sources passes a new array or object, so React's identity
  check sees a change. An asynchronous handler is modelled as its click phase and
  its completion with nothing in between, except \<open>handleSaveService\<close>, whose two
  phases are separate definitions.

  \<^medskip>\<^bold>\<open>Not modelled.\<close> The markup and styling of the pages (each page is
  modelled by the data it shows), the charts of \<open>recharts\<close> and \<open>FullAnalytics\<close>
  (fixed mock data), \<open>StatCard\<close> and \<open>ProgressRow\<close>, \<open>About.tsx\<close> (static markup
  with no props, state or handler), routing beyond the console's routes and the
  navbar's links, and the network relay beyond the outcome of one \<open>fetch\<close>. The
  browser's constraint validation is modelled for \<open>required\<close> and \<open>minLength\<close> but
  not for the format check of \<open>type="email"\<close>. \<open>document.execCommand\<close> and the
  selection it acts on are a parameter. JSON numbers are integers (the store writes no
  fractions or exponents), and the parser accepts the escapes the printer emits plus
  \<open>\u\<close> escapes of code points below 256, as the model's characters are bytes.
  Interleavings beyond the edit during the wait of \<open>handleSaveService\<close> (C39) and two
  pending status updates (C31), and two tabs each making one store operation (C19),
  are not modelled.
  No property is of the termination kind, since the repository's code has no loop
  whose termination is in question.
\<close>


section \<open>Properties across components\<close>

text \<open>C37. When the users write of a sign-up exceeds the quota, the quota handler removes the session entry, but the session effect runs next and writes the new session back when it fits: after the sign-up the session entry holds the new user, the users entry is the stale one, one warning was raised, and the in-memory users hold the new user.\<close>

theorem signup_quota_session_restored:
  assumes "\<forall>u \<in> set (users s). user_email u \<noteq> e"
    and "\<not> fits (db_key_name USERS) (stringify (users_codec C) (users s @ [new_user n e p t])) (world s)"
    and "fits (db_key_name SESSION) (stringify (session_codec C) (Some (new_user n e p t)))
           (removeItem (db_key_name SESSION) (world s))"
  shows "fst (signup C n e p t s) \<and>
    users (snd (signup C n e p t s)) = users s @ [new_user n e p t] \<and>
    getItem (db_key_name SESSION) (world (snd (signup C n e p t s))) =
      Some (stringify (session_codec C) (Some (new_user n e p t))) \<and>
    getItem (db_key_name USERS) (world (snd (signup C n e p t s))) = getItem (db_key_name USERS) (world s) \<and>
    alerts (world (snd (signup C n e p t s))) = alerts (world s) @ [quota_alert]"
proof -
  have nf: "find (\<lambda>u. user_email u = e) (users s) = None"
    using assms(1) by (simp add: find_None_iff)
  have w1: "saveToDB (users_codec C) (db_key_name USERS) (users s @ [new_user n e p t]) (world s) =
      alert quota_alert (console_error ''[Store] Quota Exceeded! Large media files blocked.''
        (removeItem (db_key_name SESSION) (world s)))"
    using assms(2) by (simp add: saveToDB_def setItem_def del: db_key_name.simps)
  show ?thesis
    using assms(3)
    by (simp add: signup_def nf run_effects_def w1 getItem_saveToDB alerts_saveToDB Let_def del: db_key_name.simps)
qed

text \<open>C39. Saving a gig snapshots the form at the click: an edit made during the 400 ms wait is not saved (the gig list is what saving without the edit gives), stays only in the form, and the modal closes over it.\<close>

theorem publish_wait_loses_edits:
  "services (snd (handleSaveService_done C (snd (handleSaveService_click fo ed s)) rnd now
      (editForm e (fst (handleSaveService_click fo ed s)), s))) =
   services (snd (handleSaveService C fo rnd now (ed, s))) \<and>
   formData (fst (handleSaveService_done C (snd (handleSaveService_click fo ed s)) rnd now
      (editForm e (fst (handleSaveService_click fo ed s)), s))) = apply_edit e (formData ed) \<and>
   \<not> isModalOpen (fst (handleSaveService_done C (snd (handleSaveService_click fo ed s)) rnd now
      (editForm e (fst (handleSaveService_click fo ed s)), s)))"
  by (simp add: handleSaveService_def handleSaveService_click_def handleSaveService_done_def editForm_def
      Let_def)

text \<open>C40. Two checkouts that draw the same random number create two orders with the same id; a later status update on that id changes both orders, and its notification goes only to the client of the first.\<close>

theorem duplicate_order_ids:
  assumes "\<forall>od \<in> set (orders s). order_id od \<noteq> ''ORD-'' @ nat_to_string rnd"
    and "sa = snd (handleOrder C g FetchOk rnd na (ca, s))"
    and "sb = snd (handleOrder C g' FetchOk rnd nb (cb, sa))"
  shows "orders (snd (handleStatusUpdate C (''ORD-'' @ nat_to_string rnd) st res (q, sb))) =
      orders s @ [(new_order g (co_form ca) rnd na)\<lparr>order_status := st\<rparr>,
                  (new_order g' (co_form cb) rnd nb)\<lparr>order_status := st\<rparr>] \<and>
    outbox (world (snd (handleStatusUpdate C (''ORD-'' @ nat_to_string rnd) st res (q, sb)))) =
      outbox (world sb) @
        [\<lparr>post_url = formspree_url, post_body = status_notification (new_order g (co_form ca) rnd na) st\<rparr>]"
proof -
  have o2: "orders sb = orders s @ [new_order g (co_form ca) rnd na, new_order g' (co_form cb) rnd nb]"
    using assms(2,3) by (simp add: handleOrder_orders)
  have keep: "map_where (\<lambda>od. order_id od = ''ORD-'' @ nat_to_string rnd) (\<lambda>od. od\<lparr>order_status := st\<rparr>)
      (orders s) = orders s"
    using assms(1) by (simp add: map_where_none)
  have fd: "find (\<lambda>od. order_id od = ''ORD-'' @ nat_to_string rnd) (orders sb) =
      Some (new_order g (co_form ca) rnd na)"
    using assms(1) o2 by (simp add: find_append_None find_None_iff new_order_def)
  have "orders (snd (handleStatusUpdate C (''ORD-'' @ nat_to_string rnd) st res (q, sb))) =
      orders s @ [(new_order g (co_form ca) rnd na)\<lparr>order_status := st\<rparr>,
                  (new_order g' (co_form cb) rnd nb)\<lparr>order_status := st\<rparr>]"
    using o2 keep by (simp add: handleStatusUpdate_orders map_where_def new_order_def)
  moreover have "outbox (world (snd (handleStatusUpdate C (''ORD-'' @ nat_to_string rnd) st res (q, sb)))) =
      outbox (world sb) @
        [\<lparr>post_url = formspree_url, post_body = status_notification (new_order g (co_form ca) rnd na) st\<rparr>]"
    using fd by (simp add: handleStatusUpdate_eq setOrders_def outbox_saveToDB Let_def)
  ultimately show ?thesis by simp
qed

section \<open>Witnesses of the properties across components\<close>

theorem signup_quota_session_restored_witness:
  "fst (signup tight_codecs ''A'' ''a@x.com'' ''pw'' 5 tight_store) \<and>
   getItem (db_key_name SESSION) (world (snd (signup tight_codecs ''A'' ''a@x.com'' ''pw'' 5 tight_store))) =
     Some ''null'' \<and>
   alerts (world (snd (signup tight_codecs ''A'' ''a@x.com'' ''pw'' 5 tight_store))) = [quota_alert]"
proof -
  have h1: "\<forall>u \<in> set (users tight_store). user_email u \<noteq> ''a@x.com''"
    by (simp add: tight_store_def demo_store_def)
  have h2: "\<not> fits (db_key_name USERS)
      (stringify (users_codec tight_codecs) (users tight_store @ [new_user ''A'' ''a@x.com'' ''pw'' 5]))
      (world tight_store)"
    by (simp add: fits_def tight_codecs_def email_codec_def tight_store_def demo_store_def)
  have h3: "fits (db_key_name SESSION) (stringify (session_codec tight_codecs) (Some (new_user ''A'' ''a@x.com'' ''pw'' 5)))
      (removeItem (db_key_name SESSION) (world tight_store))"
    by (simp add: fits_def tight_codecs_def demo_codecs_def const_codec_def tight_store_def removeItem_def)
  show ?thesis
    using signup_quota_session_restored [OF h1 h2 h3] h1
    by (simp add: tight_codecs_def demo_codecs_def const_codec_def tight_store_def demo_store_def)
qed

theorem duplicate_order_ids_witness:
  "map order_status (orders (snd (handleStatusUpdate demo_codecs (''ORD-'' @ nat_to_string 7) Cancelled FetchOk
      (\<lparr>updatingId = None\<rparr>, snd (handleOrder demo_codecs demo_gig FetchOk 7 ''t2'' (checkout_init demo_store,
          snd (handleOrder demo_codecs demo_gig FetchOk 7 ''t1'' (checkout_init demo_store, demo_store)))))))) =
   [Cancelled, Cancelled]"
proof -
  have h: "\<forall>od \<in> set (orders demo_store). order_id od \<noteq> ''ORD-'' @ nat_to_string 7"
    by (simp add: demo_store_def)
  show ?thesis
    using duplicate_order_ids [where s = demo_store and rnd = 7 and C = demo_codecs and g = demo_gig
        and g' = demo_gig and na = "''t1''" and nb = "''t2''" and ca = "checkout_init demo_store"
        and cb = "checkout_init demo_store" and st = Cancelled and res = FetchOk
        and q = "\<lparr>updatingId = None\<rparr>", OF h refl refl]
    by (simp add: demo_store_def)
qed


text \<open>C38. The dashboard's Recent Orders panel lists the first four orders of the list,
  in order (all of them when there are fewer); a checkout appends its order at the end,
  so once four orders exist, placing an order, whatever the relay answers, never changes
  the panel.\<close>

theorem recent_panel_checkout:
  "length (sv_recent (StatsOverview s)) = min 4 (length (orders s)) \<and>
   (\<forall>i < length (sv_recent (StatsOverview s)). fst (sv_recent (StatsOverview s) ! i) = clientName (orders s ! i)) \<and>
   (4 \<le> length (orders s) \<longrightarrow>
      sv_recent (StatsOverview (snd (handleOrder C g res rnd now (c, s)))) = sv_recent (StatsOverview s))"
proof -
  have o: "orders (snd (handleOrder C g res rnd now (c, s))) =
      orders s @ (if res = FetchOk then [new_order g (co_form c) rnd now] else [])"
    by (cases res) (simp_all add: handleOrder_def setOrders_def Let_def)
  show ?thesis
    using o by (auto simp add: StatsOverview_def recentOrders_def)
qed

theorem recent_panel_checkout_witness:
  "length (sv_recent (StatsOverview (demo_store\<lparr>orders := replicate 4 demo_order\<rparr>))) = 4 \<and>
   sv_recent (StatsOverview (snd (handleOrder demo_codecs demo_gig FetchOk 7 ''t''
       (checkout_init demo_store, demo_store\<lparr>orders := replicate 4 demo_order\<rparr>)))) =
   sv_recent (StatsOverview (demo_store\<lparr>orders := replicate 4 demo_order\<rparr>))"
  using recent_panel_checkout [of "demo_store\<lparr>orders := replicate 4 demo_order\<rparr>" demo_codecs demo_gig FetchOk 7
      "''t''" "checkout_init demo_store"]
  by (simp add: numeral_eq_Suc)

section \<open>Settings across the pages\<close>

text \<open>The business name typed in the site editor is what the editor, the navigation bar
  and the footer show afterwards, as all three read \<open>store.settings\<close>.\<close>

lemma site_name_everywhere:
  "sev_name (SiteEditor_view (fst (handleUpdate C (UpdateName n) (e, s))) (snd (handleUpdate C (UpdateName n) (e, s)))) = n \<and>
   nv_name (Navbar_view nb p (snd (handleUpdate C (UpdateName n) (e, s)))) = n \<and>
   ft_name (Footer_view (settings (snd (handleUpdate C (UpdateName n) (e, s))))) = n"
  by (simp add: SiteEditor_view_def Navbar_view_def Footer_view_def)

end
